theory Spec2Isabelle
  imports Main "HOL-Library.AList"
begin

section \<open>JavaScript values used by the database layer\<close>

text \<open>
  Thrown values. \<open>Error msg\<close> is \<^verbatim>\<open>new Error(msg)\<close>; \<open>TypeError msg\<close> is the error the
  runtime (or a driver) raises itself, for instance when a method is called on \<^verbatim>\<open>null\<close>.
\<close>

datatype error = Error string | TypeError string

definition not_connected :: error where
  "not_connected = Error ''Database not connected. Call connect() first.''"

text \<open>The error of a method call on a \<^verbatim>\<open>null\<close> field (\<^verbatim>\<open>this.client!.query(...)\<close>).\<close>

definition null_deref :: "string \<Rightarrow> error" where
  "null_deref m = TypeError (''Cannot read properties of null (reading '' @ [CHR 0x27] @ m @ [CHR 0x27] @ '')'')"

text \<open>
  A JavaScript number as far as this layer meets one: port numbers, pool sizes and row
  counts are integers, and \<^verbatim>\<open>parseInt\<close> may give \<^verbatim>\<open>NaN\<close>. Fractions and the
  loss of precision above \<open>2^53\<close> are not modelled.
\<close>

datatype number = NaN | Num int

text \<open>\<^verbatim>\<open>a || d\<close> on an optional number: \<^verbatim>\<open>undefined\<close>, \<^verbatim>\<open>0\<close> and \<^verbatim>\<open>NaN\<close> are falsy.\<close>

fun or_num :: "number option \<Rightarrow> number \<Rightarrow> number" where
  "or_num None d = d"
| "or_num (Some NaN) d = d"
| "or_num (Some (Num n)) d = (if n = 0 then d else Num n)"

text \<open>Truthiness of an optional string: \<^verbatim>\<open>undefined\<close> and \<^verbatim>\<open>""\<close> are falsy.\<close>

fun truthy_str :: "string option \<Rightarrow> bool" where
  "truthy_str None = False"
| "truthy_str (Some s) = (s \<noteq> [])"

section \<open>Template literals: printing an array index\<close>

definition digit_char :: "nat \<Rightarrow> char" where
  "digit_char d = ''0123456789'' ! d"

fun show_nat :: "nat \<Rightarrow> string" where
  "show_nat n = (if n < 10 then [digit_char n] else show_nat (n div 10) @ [digit_char (n mod 10)])"

declare show_nat.simps [simp del]

text \<open>The template literals \<^verbatim>\<open>`@p${index}`\<close> and \<^verbatim>\<open>`p${index}`\<close> of the SQL-Server client.\<close>

definition param_token :: "nat \<Rightarrow> string" where
  "param_token index = ''@p'' @ show_nat index"

definition param_name :: "nat \<Rightarrow> string" where
  "param_name index = ''p'' @ show_nat index"

section \<open>The SQL-Server client: placeholder conversion (mssql.ts)\<close>

text \<open>
  \<^verbatim>\<open>s.replace("?", r)\<close> with a string pattern replaces the first occurrence only. The
  replacement strings used here contain no \<^verbatim>\<open>$\<close>, so no replacement pattern is
  expanded.
\<close>

fun replace_first :: "char \<Rightarrow> string \<Rightarrow> string \<Rightarrow> string" where
  "replace_first c r [] = []"
| "replace_first c r (x # xs) = (if x = c then r @ xs else x # replace_first c r xs)"

text \<open>
  \<^verbatim>\<open>params.forEach((_, index) => { convertedSql = convertedSql.replace("?", `@p${index}`) })\<close>:
  the loop, started at \<open>index\<close> on the parameters still to visit.
\<close>

fun convertSql_forEach :: "string \<Rightarrow> nat \<Rightarrow> 'v list \<Rightarrow> string" where
  "convertSql_forEach convertedSql index [] = convertedSql"
| "convertSql_forEach convertedSql index (p # ps) =
     convertSql_forEach (replace_first (CHR ''?'') (param_token index) convertedSql) (Suc index) ps"

definition convertSql :: "string \<Rightarrow> 'v list option \<Rightarrow> string" where
  "convertSql sqlQuery params =
     (case params of None \<Rightarrow> sqlQuery | Some ps \<Rightarrow> convertSql_forEach sqlQuery 0 ps)"

text \<open>
  A driver request: the pool or transaction it was made on (\<^verbatim>\<open>new sql.Request(parent)\<close>,
  the parent possibly \<^verbatim>\<open>null\<close>) and the named inputs bound so far.
  \<^verbatim>\<open>request.input(name, value)\<close> stores the value under the name. One conversion binds
  distinct names on a new request; for a name bound before, the model overwrites.
\<close>

type_synonym handle = nat

record 'v request =
  parent :: "handle option"
  inputs :: "(string \<times> 'v) list"

definition input :: "string \<Rightarrow> 'v \<Rightarrow> 'v request \<Rightarrow> 'v request" where
  "input name v req = req\<lparr>inputs := AList.update name v (inputs req)\<rparr>"

fun convertParams_forEach :: "'v request \<Rightarrow> nat \<Rightarrow> 'v list \<Rightarrow> 'v request" where
  "convertParams_forEach req index [] = req"
| "convertParams_forEach req index (p # ps) =
     convertParams_forEach (input (param_name index) p req) (Suc index) ps"

definition convertParams :: "'v request \<Rightarrow> 'v list option \<Rightarrow> 'v request" where
  "convertParams req params =
     (case params of None \<Rightarrow> req | Some ps \<Rightarrow> convertParams_forEach req 0 ps)"

subsection \<open>What the specification asks of the rewrite\<close>

text \<open>
  The specification's rewrite, written after its words: every \<^verbatim>\<open>?\<close> of the text, from left
  to right, becomes \<^verbatim>\<open>@p\<close> followed by its position among the placeholders, counted
  from \<open>k\<close>.
\<close>

fun number_placeholders :: "nat \<Rightarrow> string \<Rightarrow> string" where
  "number_placeholders k [] = []"
| "number_placeholders k (c # cs) =
     (if c = CHR ''?'' then param_token k @ number_placeholders (Suc k) cs
      else c # number_placeholders k cs)"

text \<open>The same, stopping after the first \<open>n\<close> occurrences of \<^verbatim>\<open>?\<close>.\<close>

fun number_first :: "nat \<Rightarrow> nat \<Rightarrow> string \<Rightarrow> string" where
  "number_first 0 k s = s"
| "number_first (Suc n) k [] = []"
| "number_first (Suc n) k (c # cs) =
     (if c = CHR ''?'' then param_token k @ number_first n (Suc k) cs
      else c # number_first (Suc n) k cs)"

text \<open>
  The contents of the single-quoted string constants of an SQL text, in order. The flag
  says whether the scan is inside a constant, \<open>cur\<close> is the constant read so far. (A doubled
  quote inside a constant closes one constant and opens the next; an unclosed constant is
  dropped.)
\<close>

fun scan_literals :: "bool \<Rightarrow> string \<Rightarrow> string \<Rightarrow> string list" where
  "scan_literals inside cur [] = []"
| "scan_literals inside cur (c # cs) =
     (if c = CHR 0x27 then
        (if inside then cur # scan_literals False [] cs else scan_literals True [] cs)
      else if inside then scan_literals True (cur @ [c]) cs
      else scan_literals False [] cs)"

definition string_constants :: "string \<Rightarrow> string list" where
  "string_constants sql = scan_literals False [] sql"

section \<open>Configuration and results (types.ts)\<close>

text \<open>\<^verbatim>\<open>ssl?: boolean | object\<close>.\<close>

datatype ssl_option = SslFlag bool | SslObject

fun truthy_ssl :: "ssl_option option \<Rightarrow> bool" where
  "truthy_ssl None = False"
| "truthy_ssl (Some (SslFlag b)) = b"
| "truthy_ssl (Some SslObject) = True"

record pool_options =
  pool_min :: "number option"
  pool_max :: "number option"

text \<open>
  The provider tag is a string at run time: the type \<^verbatim>\<open>DatabaseProvider\<close> is erased, and
  \<^verbatim>\<open>fromEnv\<close> casts whatever the environment holds.
\<close>

record DatabaseConfig =
  provider :: string
  host :: "string option"
  port :: "number option"
  database :: string
  user :: "string option"
  password :: "string option"
  filePath :: "string option"
  connectionString :: "string option"
  pool :: "pool_options option"
  ssl :: "ssl_option option"

text \<open>\<^verbatim>\<open>this.config.pool?.min\<close> and \<^verbatim>\<open>this.config.pool?.max\<close>.\<close>

definition config_pool_min :: "DatabaseConfig \<Rightarrow> number option" where
  "config_pool_min cfg = (case pool cfg of None \<Rightarrow> None | Some po \<Rightarrow> pool_min po)"

definition config_pool_max :: "DatabaseConfig \<Rightarrow> number option" where
  "config_pool_max cfg = (case pool cfg of None \<Rightarrow> None | Some po \<Rightarrow> pool_max po)"

text \<open>\<^verbatim>\<open>a || d\<close> on optional strings and on optional row counts.\<close>

definition or_str :: "string option \<Rightarrow> string \<Rightarrow> string" where
  "or_str a d = (case a of None \<Rightarrow> d | Some s \<Rightarrow> if s = [] then d else s)"

definition or_int :: "int option \<Rightarrow> int \<Rightarrow> int" where
  "or_int a d = (case a of None \<Rightarrow> d | Some n \<Rightarrow> if n = 0 then d else n)"

text \<open>A row is a record from column names to values.\<close>

type_synonym 'v row = "(string \<times> 'v) list"

text \<open>
  \<^verbatim>\<open>QueryResult\<close>. The type of \<open>rows\<close> is a parameter because the SQL-Server client hands
  on \<^verbatim>\<open>result.recordset\<close>, which is \<^verbatim>\<open>undefined\<close> for a statement without a result set.
  The field \<^verbatim>\<open>fields\<close> is \<open>result_fields\<close> here.
\<close>

record 'r QueryResult =
  rows :: 'r
  rowCount :: int
  result_fields :: "string list option"

section \<open>The drivers, seen from the clients\<close>

text \<open>
  The four vendor drivers are not part of the repository. Every call a client makes on a
  driver is recorded in a trace; whether the call fails, and what a statement returns,
  is decided by the driver, a parameter of every operation, from the calls made before.
  A call that creates an object (a pool, a connection, a transaction, a database handle)
  names it by the position of the call in the trace, so that every object is new.
\<close>

datatype pg_PoolConfig =
    PgConnectionString string
  | PgFields "string option" number string "string option" "string option"
      "ssl_option option" number number

text \<open>
  \<^verbatim>\<open>mysql.createPool({host, port, database, user, password, connectionLimit, ssl})\<close>; the
  last field is \<open>True\<close> for \<^verbatim>\<open>{}\<close> and \<open>False\<close> for \<^verbatim>\<open>undefined\<close>.
\<close>

datatype my_PoolOptions =
    MyFields "string option" number string "string option" "string option" number bool

text \<open>
  \<^verbatim>\<open>sql.connect\<close> takes the connection string, or \<^verbatim>\<open>{server, port, database, user, password,
  pool: {min, max}, options: {encrypt, trustServerCertificate}}\<close>.
\<close>

datatype ms_config =
    MsConnectionString string
  | MsFields string number string "string option" "string option" number number bool bool

datatype 'v event =
    PgNewPool handle pg_PoolConfig
  | PgPoolEnd handle
  | PgPoolConnect handle handle
  | PgRelease handle
  | PgQuery handle string "'v list option"
  | MyCreatePool handle my_PoolOptions
  | MyPoolEnd handle
  | MyGetConnection handle handle
  | MyRelease handle
  | MyExecute handle string "'v list option"
  | MyBeginTransaction handle
  | MyCommit handle
  | MyRollback handle
  | MsConnect handle ms_config
  | MsPoolClose handle
  | MsNewTransaction handle handle
  | MsBegin handle
  | MsCommit handle
  | MsRollback handle
  | MsRequestQuery "handle option" "(string \<times> 'v) list" string
  | SqNewDatabase handle string
  | SqClose handle
  | SqPrepare handle string
  | SqAll handle string "'v list"
  | SqRun handle string "'v list"
  | SqBegin handle
  | SqCommit handle
  | SqRollback handle

text \<open>What the drivers answer to a statement.\<close>

record 'v pg_result =
  pg_rows :: "'v row list"
  pg_rowCount :: "int option"
  pg_fields :: "string list option"

datatype 'v my_rows = MyRowArray "'v row list" | MyResultSetHeader "int option"

record 'v my_result =
  my_rows :: "'v my_rows"
  my_fields :: "string list option"

record 'v ms_recordset =
  rs_rows :: "'v row list"
  rs_columns :: "string list option"

record 'v ms_result =
  recordset :: "'v ms_recordset option"
  rowsAffected :: "int list"

record 'v driver =
  fails :: "'v event list \<Rightarrow> 'v event \<Rightarrow> error option"
  pg_answer :: "'v event list \<Rightarrow> 'v event \<Rightarrow> 'v pg_result"
  my_answer :: "'v event list \<Rightarrow> 'v event \<Rightarrow> 'v my_result"
  ms_answer :: "'v event list \<Rightarrow> 'v event \<Rightarrow> 'v ms_result"
  sq_all :: "'v event list \<Rightarrow> 'v event \<Rightarrow> 'v row list"
  sq_changes :: "'v event list \<Rightarrow> 'v event \<Rightarrow> int"
  sq_rejects_promise :: bool

definition call :: "'v driver \<Rightarrow> 'v event \<Rightarrow> 'v event list \<Rightarrow> error option \<times> 'v event list" where
  "call D e tr = (fails D tr e, tr @ [e])"

text \<open>A call never fails, whatever happened before.\<close>

definition reliable :: "'v driver \<Rightarrow> 'v event \<Rightarrow> bool" where
  "reliable D e = (\<forall>tr. fails D tr e = None)"

section \<open>Asynchronous functions\<close>

text \<open>
  All code here runs in one flow. Calling an asynchronous function runs it up to its first
  suspension and returns a promise; the promise is the rest of the computation, run
  when it is awaited, on the state of that moment. \<^verbatim>\<open>await fn(this)\<close> is \<open>await_call\<close>.
  The difference between calling and awaiting matters where something happens in
  between, as in the embedded-file client's \<^verbatim>\<open>transaction\<close>.
\<close>

type_synonym ('s, 'a) promise = "'s \<Rightarrow> (error + 'a) \<times> 's"

type_synonym ('s, 'a) async_fn = "'s \<Rightarrow> ('s, 'a) promise \<times> 's"

definition await :: "('s, 'a) promise \<Rightarrow> 's \<Rightarrow> (error + 'a) \<times> 's" where
  "await p s = p s"

definition await_call :: "('s, 'a) async_fn \<Rightarrow> 's \<Rightarrow> (error + 'a) \<times> 's" where
  "await_call fn s = (case fn s of (p, s') \<Rightarrow> await p s')"

text \<open>A promise already settled, and an asynchronous function without suspension.\<close>

definition settled :: "error + 'a \<Rightarrow> ('s, 'a) promise" where
  "settled r = (\<lambda>s. (r, s))"

definition async_of :: "('s \<Rightarrow> (error + 'a) \<times> 's) \<Rightarrow> ('s, 'a) async_fn" where
  "async_of f = (\<lambda>s. case f s of (r, s') \<Rightarrow> (settled r, s'))"

section \<open>The PostgreSQL client (postgres.ts)\<close>

record 'v PostgresClient =
  pg_pool :: "handle option"
  pg_client :: "handle option"
  pg_config :: DatabaseConfig
  pg_isTransaction :: bool
  pg_trace :: "'v event list"

definition new_PostgresClient :: "DatabaseConfig \<Rightarrow> 'v PostgresClient" where
  "new_PostgresClient config =
     \<lparr>pg_pool = None, pg_client = None, pg_config = config, pg_isTransaction = False,
      pg_trace = []\<rparr>"

definition pg_call :: "'v driver \<Rightarrow> 'v event \<Rightarrow> 'v PostgresClient \<Rightarrow> error option \<times> 'v PostgresClient" where
  "pg_call D e this = (case call D e (pg_trace this) of (r, tr) \<Rightarrow> (r, this\<lparr>pg_trace := tr\<rparr>))"

definition pg_poolConfig :: "DatabaseConfig \<Rightarrow> pg_PoolConfig" where
  "pg_poolConfig cfg =
     (if truthy_str (connectionString cfg)
      then PgConnectionString (or_str (connectionString cfg) [])
      else PgFields (host cfg) (or_num (port cfg) (Num 5432)) (database cfg) (user cfg)
             (password cfg) (ssl cfg)
             (or_num (config_pool_min cfg) (Num 1)) (or_num (config_pool_max cfg) (Num 10)))"

definition pg_connect :: "'v driver \<Rightarrow> 'v PostgresClient \<Rightarrow> (error + unit) \<times> 'v PostgresClient" where
  "pg_connect D this =
     (if pg_pool this \<noteq> None then (Inr (), this)
      else
        (case pg_call D (PgNewPool (length (pg_trace this)) (pg_poolConfig (pg_config this))) this of
           (Some e, s) \<Rightarrow> (Inl e, s)
         | (None, s) \<Rightarrow> (Inr (), s\<lparr>pg_pool := Some (length (pg_trace this))\<rparr>)))"

definition pg_disconnect :: "'v driver \<Rightarrow> 'v PostgresClient \<Rightarrow> (error + unit) \<times> 'v PostgresClient" where
  "pg_disconnect D this =
     (case (case pg_client this of
              None \<Rightarrow> (None, this)
            | Some c \<Rightarrow>
                (case pg_call D (PgRelease c) this of
                   (Some e, s) \<Rightarrow> (Some e, s)
                 | (None, s) \<Rightarrow> (None, s\<lparr>pg_client := None\<rparr>))) of
        (Some e, s) \<Rightarrow> (Inl e, s)
      | (None, s) \<Rightarrow>
          (case pg_pool s of
             None \<Rightarrow> (Inr (), s)
           | Some p \<Rightarrow>
               (case pg_call D (PgPoolEnd p) s of
                  (Some e, s') \<Rightarrow> (Inl e, s')
                | (None, s') \<Rightarrow> (Inr (), s'\<lparr>pg_pool := None\<rparr>))))"

definition pg_query ::
  "'v driver \<Rightarrow> string \<Rightarrow> 'v list option \<Rightarrow> 'v PostgresClient
     \<Rightarrow> (error + 'v row list QueryResult) \<times> 'v PostgresClient" where
  "pg_query D sql params this =
     (if pg_pool this = None then (Inl not_connected, this)
      else
        (case (if pg_isTransaction this then pg_client this else pg_pool this) of
           None \<Rightarrow> (Inl (null_deref ''query''), this)
         | Some client \<Rightarrow>
             (case pg_call D (PgQuery client sql params) this of
                (Some e, s) \<Rightarrow> (Inl e, s)
              | (None, s) \<Rightarrow>
                  (let result = pg_answer D (pg_trace this) (PgQuery client sql params)
                   in (Inr \<lparr>rows = pg_rows result,
                             rowCount = or_int (pg_rowCount result) 0,
                             result_fields = pg_fields result\<rparr>, s)))))"

definition pg_execute ::
  "'v driver \<Rightarrow> string \<Rightarrow> 'v list option \<Rightarrow> 'v PostgresClient \<Rightarrow> (error + int) \<times> 'v PostgresClient" where
  "pg_execute D sql params this =
     (case pg_query D sql params this of
        (Inl e, s) \<Rightarrow> (Inl e, s)
      | (Inr result, s) \<Rightarrow> (Inr (rowCount result), s))"

text \<open>\<^verbatim>\<open>await this.client.query(text)\<close> inside \<^verbatim>\<open>transaction\<close>; the field is read at each use.\<close>

definition pg_client_query :: "'v driver \<Rightarrow> string \<Rightarrow> 'v PostgresClient \<Rightarrow> error option \<times> 'v PostgresClient" where
  "pg_client_query D text this =
     (case pg_client this of
        None \<Rightarrow> (Some (null_deref ''query''), this)
      | Some c \<Rightarrow> pg_call D (PgQuery c text None) this)"

text \<open>The \<^verbatim>\<open>try\<close> block, the \<^verbatim>\<open>catch\<close> block and the \<^verbatim>\<open>finally\<close> block of \<^verbatim>\<open>transaction\<close>.\<close>

definition pg_try ::
  "'v driver \<Rightarrow> ('v PostgresClient, 'a) async_fn \<Rightarrow> 'v PostgresClient \<Rightarrow> (error + 'a) \<times> 'v PostgresClient" where
  "pg_try D fn this =
     (case pg_client_query D ''BEGIN'' this of
        (Some e, s) \<Rightarrow> (Inl e, s)
      | (None, s) \<Rightarrow>
          (case await_call fn s of
             (Inl e, s1) \<Rightarrow> (Inl e, s1)
           | (Inr result, s1) \<Rightarrow>
               (case pg_client_query D ''COMMIT'' s1 of
                  (Some e, s2) \<Rightarrow> (Inl e, s2)
                | (None, s2) \<Rightarrow> (Inr result, s2))))"

definition pg_catch :: "'v driver \<Rightarrow> error \<Rightarrow> 'v PostgresClient \<Rightarrow> (error + 'a) \<times> 'v PostgresClient" where
  "pg_catch D err this =
     (case pg_client_query D ''ROLLBACK'' this of
        (Some e, s) \<Rightarrow> (Inl e, s)
      | (None, s) \<Rightarrow> (Inl err, s))"

definition pg_finally :: "'v driver \<Rightarrow> error + 'a \<Rightarrow> 'v PostgresClient \<Rightarrow> (error + 'a) \<times> 'v PostgresClient" where
  "pg_finally D outcome this =
     (case pg_client this of
        None \<Rightarrow> (Inl (null_deref ''release''), this)
      | Some c \<Rightarrow>
          (case pg_call D (PgRelease c) this of
             (Some e, s) \<Rightarrow> (Inl e, s)
           | (None, s) \<Rightarrow> (outcome, s\<lparr>pg_client := None, pg_isTransaction := False\<rparr>)))"

definition pg_transaction ::
  "'v driver \<Rightarrow> ('v PostgresClient, 'a) async_fn \<Rightarrow> 'v PostgresClient \<Rightarrow> (error + 'a) \<times> 'v PostgresClient" where
  "pg_transaction D fn this =
     (case pg_pool this of
        None \<Rightarrow> (Inl not_connected, this)
      | Some p \<Rightarrow>
          (case pg_call D (PgPoolConnect p (length (pg_trace this))) this of
             (Some e, s) \<Rightarrow> (Inl e, s)
           | (None, s) \<Rightarrow>
               (case pg_try D fn (s\<lparr>pg_client := Some (length (pg_trace this)), pg_isTransaction := True\<rparr>) of
                  (Inr result, s1) \<Rightarrow> pg_finally D (Inr result) s1
                | (Inl e, s1) \<Rightarrow> (case pg_catch D e s1 of (outcome, s2) \<Rightarrow> pg_finally D outcome s2))))"

section \<open>The MySQL client (mysql.ts)\<close>

record 'v MySqlClient =
  my_pool :: "handle option"
  my_connection :: "handle option"
  my_config :: DatabaseConfig
  my_isTransaction :: bool
  my_trace :: "'v event list"

definition new_MySqlClient :: "DatabaseConfig \<Rightarrow> 'v MySqlClient" where
  "new_MySqlClient config =
     \<lparr>my_pool = None, my_connection = None, my_config = config, my_isTransaction = False,
      my_trace = []\<rparr>"

definition my_call :: "'v driver \<Rightarrow> 'v event \<Rightarrow> 'v MySqlClient \<Rightarrow> error option \<times> 'v MySqlClient" where
  "my_call D e this = (case call D e (my_trace this) of (r, tr) \<Rightarrow> (r, this\<lparr>my_trace := tr\<rparr>))"

definition my_poolOptions :: "DatabaseConfig \<Rightarrow> my_PoolOptions" where
  "my_poolOptions cfg =
     MyFields (host cfg) (or_num (port cfg) (Num 3306)) (database cfg) (user cfg) (password cfg)
       (or_num (config_pool_max cfg) (Num 10)) (truthy_ssl (ssl cfg))"

definition my_connect :: "'v driver \<Rightarrow> 'v MySqlClient \<Rightarrow> (error + unit) \<times> 'v MySqlClient" where
  "my_connect D this =
     (if my_pool this \<noteq> None then (Inr (), this)
      else
        (case my_call D (MyCreatePool (length (my_trace this)) (my_poolOptions (my_config this))) this of
           (Some e, s) \<Rightarrow> (Inl e, s)
         | (None, s) \<Rightarrow> (Inr (), s\<lparr>my_pool := Some (length (my_trace this))\<rparr>)))"

definition my_disconnect :: "'v driver \<Rightarrow> 'v MySqlClient \<Rightarrow> (error + unit) \<times> 'v MySqlClient" where
  "my_disconnect D this =
     (case (case my_connection this of
              None \<Rightarrow> (None, this)
            | Some c \<Rightarrow>
                (case my_call D (MyRelease c) this of
                   (Some e, s) \<Rightarrow> (Some e, s)
                 | (None, s) \<Rightarrow> (None, s\<lparr>my_connection := None\<rparr>))) of
        (Some e, s) \<Rightarrow> (Inl e, s)
      | (None, s) \<Rightarrow>
          (case my_pool s of
             None \<Rightarrow> (Inr (), s)
           | Some p \<Rightarrow>
               (case my_call D (MyPoolEnd p) s of
                  (Some e, s') \<Rightarrow> (Inl e, s')
                | (None, s') \<Rightarrow> (Inr (), s'\<lparr>my_pool := None\<rparr>))))"

definition my_query ::
  "'v driver \<Rightarrow> string \<Rightarrow> 'v list option \<Rightarrow> 'v MySqlClient
     \<Rightarrow> (error + 'v row list QueryResult) \<times> 'v MySqlClient" where
  "my_query D sql params this =
     (if my_pool this = None then (Inl not_connected, this)
      else
        (case (if my_isTransaction this then my_connection this else my_pool this) of
           None \<Rightarrow> (Inl (null_deref ''execute''), this)
         | Some conn \<Rightarrow>
             (case my_call D (MyExecute conn sql params) this of
                (Some e, s) \<Rightarrow> (Inl e, s)
              | (None, s) \<Rightarrow>
                  (let result = my_answer D (my_trace this) (MyExecute conn sql params)
                   in (Inr \<lparr>rows = (case my_rows result of MyRowArray rs \<Rightarrow> rs | MyResultSetHeader a \<Rightarrow> []),
                             rowCount = (case my_rows result of
                                           MyRowArray rs \<Rightarrow> int (length rs)
                                         | MyResultSetHeader a \<Rightarrow> or_int a 0),
                             result_fields = my_fields result\<rparr>, s)))))"

definition my_execute ::
  "'v driver \<Rightarrow> string \<Rightarrow> 'v list option \<Rightarrow> 'v MySqlClient \<Rightarrow> (error + int) \<times> 'v MySqlClient" where
  "my_execute D sql params this =
     (if my_pool this = None then (Inl not_connected, this)
      else
        (case (if my_isTransaction this then my_connection this else my_pool this) of
           None \<Rightarrow> (Inl (null_deref ''execute''), this)
         | Some conn \<Rightarrow>
             (case my_call D (MyExecute conn sql params) this of
                (Some e, s) \<Rightarrow> (Inl e, s)
              | (None, s) \<Rightarrow>
                  (case my_rows (my_answer D (my_trace this) (MyExecute conn sql params)) of
                     MyRowArray rs \<Rightarrow> (Inr 0, s)
                   | MyResultSetHeader a \<Rightarrow> (Inr (or_int a 0), s)))))"

text \<open>A method called on \<^verbatim>\<open>this.connection\<close> inside \<^verbatim>\<open>transaction\<close>.\<close>

definition my_connection_call ::
  "'v driver \<Rightarrow> string \<Rightarrow> (handle \<Rightarrow> 'v event) \<Rightarrow> 'v MySqlClient \<Rightarrow> error option \<times> 'v MySqlClient" where
  "my_connection_call D method ev this =
     (case my_connection this of
        None \<Rightarrow> (Some (null_deref method), this)
      | Some c \<Rightarrow> my_call D (ev c) this)"

definition my_try ::
  "'v driver \<Rightarrow> ('v MySqlClient, 'a) async_fn \<Rightarrow> 'v MySqlClient \<Rightarrow> (error + 'a) \<times> 'v MySqlClient" where
  "my_try D fn this =
     (case my_connection_call D ''beginTransaction'' MyBeginTransaction this of
        (Some e, s) \<Rightarrow> (Inl e, s)
      | (None, s) \<Rightarrow>
          (case await_call fn s of
             (Inl e, s1) \<Rightarrow> (Inl e, s1)
           | (Inr result, s1) \<Rightarrow>
               (case my_connection_call D ''commit'' MyCommit s1 of
                  (Some e, s2) \<Rightarrow> (Inl e, s2)
                | (None, s2) \<Rightarrow> (Inr result, s2))))"

definition my_catch :: "'v driver \<Rightarrow> error \<Rightarrow> 'v MySqlClient \<Rightarrow> (error + 'a) \<times> 'v MySqlClient" where
  "my_catch D err this =
     (case my_connection_call D ''rollback'' MyRollback this of
        (Some e, s) \<Rightarrow> (Inl e, s)
      | (None, s) \<Rightarrow> (Inl err, s))"

definition my_finally :: "'v driver \<Rightarrow> error + 'a \<Rightarrow> 'v MySqlClient \<Rightarrow> (error + 'a) \<times> 'v MySqlClient" where
  "my_finally D outcome this =
     (case my_connection_call D ''release'' MyRelease this of
        (Some e, s) \<Rightarrow> (Inl e, s)
      | (None, s) \<Rightarrow> (outcome, s\<lparr>my_connection := None, my_isTransaction := False\<rparr>))"

definition my_transaction ::
  "'v driver \<Rightarrow> ('v MySqlClient, 'a) async_fn \<Rightarrow> 'v MySqlClient \<Rightarrow> (error + 'a) \<times> 'v MySqlClient" where
  "my_transaction D fn this =
     (case my_pool this of
        None \<Rightarrow> (Inl not_connected, this)
      | Some p \<Rightarrow>
          (case my_call D (MyGetConnection p (length (my_trace this))) this of
             (Some e, s) \<Rightarrow> (Inl e, s)
           | (None, s) \<Rightarrow>
               (case my_try D fn (s\<lparr>my_connection := Some (length (my_trace this)), my_isTransaction := True\<rparr>) of
                  (Inr result, s1) \<Rightarrow> my_finally D (Inr result) s1
                | (Inl e, s1) \<Rightarrow> (case my_catch D e s1 of (outcome, s2) \<Rightarrow> my_finally D outcome s2))))"

section \<open>The SQL-Server client (mssql.ts)\<close>

record 'v MsSqlClient =
  ms_pool :: "handle option"
  ms_currentTransaction :: "handle option"
  ms_config :: DatabaseConfig
  ms_isTransaction :: bool
  ms_trace :: "'v event list"

definition new_MsSqlClient :: "DatabaseConfig \<Rightarrow> 'v MsSqlClient" where
  "new_MsSqlClient config =
     \<lparr>ms_pool = None, ms_currentTransaction = None, ms_config = config, ms_isTransaction = False,
      ms_trace = []\<rparr>"

definition ms_call :: "'v driver \<Rightarrow> 'v event \<Rightarrow> 'v MsSqlClient \<Rightarrow> error option \<times> 'v MsSqlClient" where
  "ms_call D e this = (case call D e (ms_trace this) of (r, tr) \<Rightarrow> (r, this\<lparr>ms_trace := tr\<rparr>))"

definition ms_sqlConfig :: "DatabaseConfig \<Rightarrow> ms_config" where
  "ms_sqlConfig cfg =
     (if truthy_str (connectionString cfg)
      then MsConnectionString (or_str (connectionString cfg) [])
      else MsFields (or_str (host cfg) ''localhost'') (or_num (port cfg) (Num 1433)) (database cfg)
             (user cfg) (password cfg)
             (or_num (config_pool_min cfg) (Num 1)) (or_num (config_pool_max cfg) (Num 10))
             (truthy_ssl (ssl cfg)) True)"

definition ms_connect :: "'v driver \<Rightarrow> 'v MsSqlClient \<Rightarrow> (error + unit) \<times> 'v MsSqlClient" where
  "ms_connect D this =
     (if ms_pool this \<noteq> None then (Inr (), this)
      else
        (case ms_call D (MsConnect (length (ms_trace this)) (ms_sqlConfig (ms_config this))) this of
           (Some e, s) \<Rightarrow> (Inl e, s)
         | (None, s) \<Rightarrow> (Inr (), s\<lparr>ms_pool := Some (length (ms_trace this))\<rparr>)))"

definition ms_disconnect :: "'v driver \<Rightarrow> 'v MsSqlClient \<Rightarrow> (error + unit) \<times> 'v MsSqlClient" where
  "ms_disconnect D this =
     (let s = (if ms_currentTransaction this \<noteq> None then this\<lparr>ms_currentTransaction := None\<rparr> else this)
      in (case ms_pool s of
            None \<Rightarrow> (Inr (), s)
          | Some p \<Rightarrow>
              (case ms_call D (MsPoolClose p) s of
                 (Some e, s') \<Rightarrow> (Inl e, s')
               | (None, s') \<Rightarrow> (Inr (), s'\<lparr>ms_pool := None\<rparr>))))"

definition ms_query ::
  "'v driver \<Rightarrow> string \<Rightarrow> 'v list option \<Rightarrow> 'v MsSqlClient
     \<Rightarrow> (error + 'v row list option QueryResult) \<times> 'v MsSqlClient" where
  "ms_query D sqlQuery params this =
     (if ms_pool this = None then (Inl not_connected, this)
      else
        (let request = convertParams
               \<lparr>parent = (if ms_isTransaction this then ms_currentTransaction this else ms_pool this),
                inputs = []\<rparr> params;
             convertedSql = convertSql sqlQuery params;
             ev = MsRequestQuery (parent request) (inputs request) convertedSql
         in (case ms_call D ev this of
               (Some e, s) \<Rightarrow> (Inl e, s)
             | (None, s) \<Rightarrow>
                 (let result = ms_answer D (ms_trace this) ev
                  in (Inr \<lparr>rows = map_option rs_rows (recordset result),
                            rowCount =
                              or_int (case rowsAffected result of [] \<Rightarrow> None | n # ns \<Rightarrow> Some n)
                                (or_int (map_option (\<lambda>rs. int (length (rs_rows rs))) (recordset result)) 0),
                            result_fields =
                              (case recordset result of None \<Rightarrow> None | Some rs \<Rightarrow> rs_columns rs)\<rparr>, s)))))"

definition ms_execute ::
  "'v driver \<Rightarrow> string \<Rightarrow> 'v list option \<Rightarrow> 'v MsSqlClient \<Rightarrow> (error + int) \<times> 'v MsSqlClient" where
  "ms_execute D sqlQuery params this =
     (case ms_query D sqlQuery params this of
        (Inl e, s) \<Rightarrow> (Inl e, s)
      | (Inr result, s) \<Rightarrow> (Inr (rowCount result), s))"

text \<open>A method called on \<^verbatim>\<open>this.currentTransaction\<close> inside \<^verbatim>\<open>transaction\<close>.\<close>

definition ms_transaction_call ::
  "'v driver \<Rightarrow> string \<Rightarrow> (handle \<Rightarrow> 'v event) \<Rightarrow> 'v MsSqlClient \<Rightarrow> error option \<times> 'v MsSqlClient" where
  "ms_transaction_call D method ev this =
     (case ms_currentTransaction this of
        None \<Rightarrow> (Some (null_deref method), this)
      | Some t \<Rightarrow> ms_call D (ev t) this)"

definition ms_try ::
  "'v driver \<Rightarrow> ('v MsSqlClient, 'a) async_fn \<Rightarrow> 'v MsSqlClient \<Rightarrow> (error + 'a) \<times> 'v MsSqlClient" where
  "ms_try D fn this =
     (case ms_transaction_call D ''begin'' MsBegin this of
        (Some e, s) \<Rightarrow> (Inl e, s)
      | (None, s) \<Rightarrow>
          (case await_call fn s of
             (Inl e, s1) \<Rightarrow> (Inl e, s1)
           | (Inr result, s1) \<Rightarrow>
               (case ms_transaction_call D ''commit'' MsCommit s1 of
                  (Some e, s2) \<Rightarrow> (Inl e, s2)
                | (None, s2) \<Rightarrow> (Inr result, s2))))"

definition ms_catch :: "'v driver \<Rightarrow> error \<Rightarrow> 'v MsSqlClient \<Rightarrow> (error + 'a) \<times> 'v MsSqlClient" where
  "ms_catch D err this =
     (case ms_transaction_call D ''rollback'' MsRollback this of
        (Some e, s) \<Rightarrow> (Inl e, s)
      | (None, s) \<Rightarrow> (Inl err, s))"

definition ms_finally :: "error + 'a \<Rightarrow> 'v MsSqlClient \<Rightarrow> (error + 'a) \<times> 'v MsSqlClient" where
  "ms_finally outcome this = (outcome, this\<lparr>ms_currentTransaction := None, ms_isTransaction := False\<rparr>)"

text \<open>
  \<^verbatim>\<open>new sql.Transaction(this.pool)\<close> only makes an object; it is recorded, to name the
  transaction, and cannot fail.
\<close>

definition ms_transaction ::
  "'v driver \<Rightarrow> ('v MsSqlClient, 'a) async_fn \<Rightarrow> 'v MsSqlClient \<Rightarrow> (error + 'a) \<times> 'v MsSqlClient" where
  "ms_transaction D fn this =
     (case ms_pool this of
        None \<Rightarrow> (Inl not_connected, this)
      | Some p \<Rightarrow>
          (case ms_try D fn
                  (this\<lparr>ms_currentTransaction := Some (length (ms_trace this)),
                        ms_isTransaction := True,
                        ms_trace := ms_trace this @ [MsNewTransaction p (length (ms_trace this))]\<rparr>) of
             (Inr result, s1) \<Rightarrow> ms_finally (Inr result) s1
           | (Inl e, s1) \<Rightarrow> (case ms_catch D e s1 of (outcome, s2) \<Rightarrow> ms_finally outcome s2)))"

section \<open>The embedded-file client (sqlite.ts)\<close>

record 'v SqliteClient =
  sq_db :: "handle option"
  sq_config :: DatabaseConfig
  sq_trace :: "'v event list"

definition new_SqliteClient :: "DatabaseConfig \<Rightarrow> 'v SqliteClient" where
  "new_SqliteClient config = \<lparr>sq_db = None, sq_config = config, sq_trace = []\<rparr>"

definition sq_call :: "'v driver \<Rightarrow> 'v event \<Rightarrow> 'v SqliteClient \<Rightarrow> error option \<times> 'v SqliteClient" where
  "sq_call D e this = (case call D e (sq_trace this) of (r, tr) \<Rightarrow> (r, this\<lparr>sq_trace := tr\<rparr>))"

text \<open>\<^verbatim>\<open>this.config.filePath || this.config.database || ":memory:"\<close>.\<close>

definition sq_filePath :: "DatabaseConfig \<Rightarrow> string" where
  "sq_filePath cfg = or_str (filePath cfg) (or_str (Some (database cfg)) '':memory:'')"

definition sq_connect :: "'v driver \<Rightarrow> 'v SqliteClient \<Rightarrow> (error + unit) \<times> 'v SqliteClient" where
  "sq_connect D this =
     (if sq_db this \<noteq> None then (Inr (), this)
      else
        (case sq_call D (SqNewDatabase (length (sq_trace this)) (sq_filePath (sq_config this))) this of
           (Some e, s) \<Rightarrow> (Inl e, s)
         | (None, s) \<Rightarrow> (Inr (), s\<lparr>sq_db := Some (length (sq_trace this))\<rparr>)))"

definition sq_disconnect :: "'v driver \<Rightarrow> 'v SqliteClient \<Rightarrow> (error + unit) \<times> 'v SqliteClient" where
  "sq_disconnect D this =
     (case sq_db this of
        None \<Rightarrow> (Inr (), this)
      | Some db \<Rightarrow>
          (case sq_call D (SqClose db) this of
             (Some e, s) \<Rightarrow> (Inl e, s)
           | (None, s) \<Rightarrow> (Inr (), s\<lparr>sq_db := None\<rparr>)))"

text \<open>\<^verbatim>\<open>...(params || [])\<close>.\<close>

definition spread_params :: "'v list option \<Rightarrow> 'v list" where
  "spread_params params = (case params of None \<Rightarrow> [] | Some ps \<Rightarrow> ps)"

definition sq_query ::
  "'v driver \<Rightarrow> string \<Rightarrow> 'v list option \<Rightarrow> 'v SqliteClient
     \<Rightarrow> (error + 'v row list QueryResult) \<times> 'v SqliteClient" where
  "sq_query D sql params this =
     (case sq_db this of
        None \<Rightarrow> (Inl not_connected, this)
      | Some db \<Rightarrow>
          (case sq_call D (SqPrepare db sql) this of
             (Some e, s) \<Rightarrow> (Inl e, s)
           | (None, s) \<Rightarrow>
               (case sq_call D (SqAll db sql (spread_params params)) s of
                  (Some e, s') \<Rightarrow> (Inl e, s')
                | (None, s') \<Rightarrow>
                    (let rs = sq_all D (sq_trace s) (SqAll db sql (spread_params params))
                     in (Inr \<lparr>rows = rs, rowCount = int (length rs),
                               result_fields = (case rs of [] \<Rightarrow> None | r # _ \<Rightarrow> Some (map fst r))\<rparr>,
                         s')))))"

definition sq_execute ::
  "'v driver \<Rightarrow> string \<Rightarrow> 'v list option \<Rightarrow> 'v SqliteClient \<Rightarrow> (error + int) \<times> 'v SqliteClient" where
  "sq_execute D sql params this =
     (case sq_db this of
        None \<Rightarrow> (Inl not_connected, this)
      | Some db \<Rightarrow>
          (case sq_call D (SqPrepare db sql) this of
             (Some e, s) \<Rightarrow> (Inl e, s)
           | (None, s) \<Rightarrow>
               (case sq_call D (SqRun db sql (spread_params params)) s of
                  (Some e, s') \<Rightarrow> (Inl e, s')
                | (None, s') \<Rightarrow>
                    (Inr (sq_changes D (sq_trace s) (SqRun db sql (spread_params params))), s'))))"

text \<open>
  The driver's \<^verbatim>\<open>db.transaction(f)()\<close>, after the driver's documentation: it begins
  a transaction, calls \<open>f\<close>, commits when \<open>f\<close> returns and rolls back when \<open>f\<close> throws.
  The function given by \<^verbatim>\<open>SqliteClient.transaction\<close> is
  \<^verbatim>\<open>async () => { return await fn(this); }\<close>: called, it runs \<open>fn\<close> up to its first suspension
  and returns a promise; being asynchronous it never throws. Recent versions of the
  driver refuse a function that returns a promise (\<open>sq_rejects_promise\<close>): they roll
  back and throw a \<^verbatim>\<open>TypeError\<close>; older ones commit at once and return the promise.
\<close>

definition promise_refused :: error where
  "promise_refused = TypeError ''Transaction function cannot return a promise''"

definition sq_driver_transaction ::
  "'v driver \<Rightarrow> handle \<Rightarrow> ('v SqliteClient, 'a) async_fn \<Rightarrow> 'v SqliteClient
     \<Rightarrow> (error + ('v SqliteClient, 'a) promise) \<times> 'v SqliteClient" where
  "sq_driver_transaction D db f this =
     (case sq_call D (SqBegin db) this of
        (Some e, s) \<Rightarrow> (Inl e, s)
      | (None, s) \<Rightarrow>
          (case f s of
             (p, s1) \<Rightarrow>
               (if sq_rejects_promise D
                then (case sq_call D (SqRollback db) s1 of
                        (Some e, s2) \<Rightarrow> (Inl e, s2)
                      | (None, s2) \<Rightarrow> (Inl promise_refused, s2))
                else (case sq_call D (SqCommit db) s1 of
                        (Some e, s2) \<Rightarrow>
                          (case sq_call D (SqRollback db) s2 of
                             (Some e', s3) \<Rightarrow> (Inl e', s3)
                           | (None, s3) \<Rightarrow> (Inl e, s3))
                      | (None, s2) \<Rightarrow> (Inr p, s2)))))"

text \<open>
  \<^verbatim>\<open>return transaction() as T\<close> in an asynchronous function: when the driver's call
  throws, the error is the outcome; when it returns the promise, the outcome is the
  promise's.
\<close>

definition sq_transaction ::
  "'v driver \<Rightarrow> ('v SqliteClient, 'a) async_fn \<Rightarrow> 'v SqliteClient \<Rightarrow> (error + 'a) \<times> 'v SqliteClient" where
  "sq_transaction D fn this =
     (case sq_db this of
        None \<Rightarrow> (Inl not_connected, this)
      | Some db \<Rightarrow>
          (case sq_driver_transaction D db fn this of
             (Inl e, s) \<Rightarrow> (Inl e, s)
           | (Inr p, s) \<Rightarrow> await p s))"

section \<open>The factory (database-factory.ts)\<close>

datatype 'v DatabaseClient =
    Postgres "'v PostgresClient"
  | MySql "'v MySqlClient"
  | MsSql "'v MsSqlClient"
  | Sqlite "'v SqliteClient"

definition create :: "DatabaseConfig \<Rightarrow> error + 'v DatabaseClient" where
  "create config =
     (if provider config = ''postgres'' then Inr (Postgres (new_PostgresClient config))
      else if provider config = ''mysql'' then Inr (MySql (new_MySqlClient config))
      else if provider config = ''mssql'' then Inr (MsSql (new_MsSqlClient config))
      else if provider config = ''sqlite'' then Inr (Sqlite (new_SqliteClient config))
      else Inl (Error (''Unsupported database provider: '' @ provider config)))"

text \<open>
  \<^verbatim>\<open>parseInt\<close> belongs to the runtime. It is a parameter of the functions that call it: a
  function from the string to the number \<^verbatim>\<open>parseInt(s, 10)\<close> gives, \<^verbatim>\<open>NaN\<close> included.
\<close>

text \<open>The process environment: a variable is a string or unset.\<close>

type_synonym env = "string \<Rightarrow> string option"

text \<open>\<^verbatim>\<open>process.env.X ? parseInt(process.env.X, 10) : undefined\<close>.\<close>

definition env_int :: "(string \<Rightarrow> number) \<Rightarrow> env \<Rightarrow> string \<Rightarrow> number option" where
  "env_int parseInt e k =
     (case e k of None \<Rightarrow> None | Some s \<Rightarrow> if s = [] then None else Some (parseInt s))"

definition env_config :: "(string \<Rightarrow> number) \<Rightarrow> env \<Rightarrow> string \<Rightarrow> DatabaseConfig" where
  "env_config parseInt e p =
     \<lparr>provider = p,
      host = e ''DB_HOST'',
      port = env_int parseInt e ''DB_PORT'',
      database = or_str (e ''DB_NAME'') (or_str (e ''DB_DATABASE'') []),
      user = e ''DB_USER'',
      password = e ''DB_PASSWORD'',
      filePath = e ''DB_FILE_PATH'',
      connectionString = e ''DB_CONNECTION_STRING'',
      pool = Some \<lparr>pool_min = env_int parseInt e ''DB_POOL_MIN'', pool_max = env_int parseInt e ''DB_POOL_MAX''\<rparr>,
      ssl = Some (SslFlag (e ''DB_SSL'' = Some ''true''))\<rparr>"

definition fromEnv :: "(string \<Rightarrow> number) \<Rightarrow> env \<Rightarrow> error + 'v DatabaseClient" where
  "fromEnv parseInt e =
     (if \<not> truthy_str (e ''DB_PROVIDER'')
      then Inl (Error ''DB_PROVIDER environment variable is required'')
      else create (env_config parseInt e (or_str (e ''DB_PROVIDER'') [])))"

section \<open>The HTTP response wrapper (api-client.ts)\<close>

text \<open>A parsed JSON value; \<open>JNull\<close> is \<^verbatim>\<open>null\<close>.\<close>

datatype json =
    JNull
  | JBool bool
  | JNumber int
  | JString string
  | JArray "json list"
  | JObject "(string \<times> json) list"

text \<open>
  The host framework's response, as far as the wrapper uses it: \<open>parsed\<close> is what its
  \<^verbatim>\<open>json()\<close> gives for the body (the parsed value, or the error for a body that is not
  JSON).
\<close>

record APIResponse =
  status_code :: int
  parsed :: "error + json"

text \<open>
  \<^verbatim>\<open>ApiResponse\<close>: the field \<^verbatim>\<open>_body\<close> is \<open>cached_body\<close>, \<^verbatim>\<open>null\<close> at construction;
  \<open>parse_calls\<close> counts the calls of \<^verbatim>\<open>this.response.json()\<close>.
\<close>

record ApiResponse =
  response :: APIResponse
  cached_body :: json
  parse_calls :: nat

definition new_ApiResponse :: "APIResponse \<Rightarrow> ApiResponse" where
  "new_ApiResponse r = \<lparr>response = r, cached_body = JNull, parse_calls = 0\<rparr>"

definition json :: "ApiResponse \<Rightarrow> (error + json) \<times> ApiResponse" where
  "json this =
     (if cached_body this = JNull
      then (case parsed (response this) of
              Inl e \<Rightarrow> (Inl e, this\<lparr>parse_calls := Suc (parse_calls this)\<rparr>)
            | Inr v \<Rightarrow> (Inr v, this\<lparr>cached_body := v, parse_calls := Suc (parse_calls this)\<rparr>))
      else (Inr (cached_body this), this))"

section \<open>Concrete drivers, configurations and environments\<close>

text \<open>A driver on which no call fails; it reports one affected row and no result rows.\<close>

definition quiet_driver :: "string driver" where
  "quiet_driver =
     \<lparr>fails = (\<lambda>tr e. None),
      pg_answer = (\<lambda>tr e. \<lparr>pg_rows = [], pg_rowCount = Some 1, pg_fields = None\<rparr>),
      my_answer = (\<lambda>tr e. \<lparr>my_rows = MyResultSetHeader (Some 1), my_fields = None\<rparr>),
      ms_answer = (\<lambda>tr e. \<lparr>recordset = None, rowsAffected = [1]\<rparr>),
      sq_all = (\<lambda>tr e. []),
      sq_changes = (\<lambda>tr e. 1),
      sq_rejects_promise = True\<rparr>"

definition example_config :: "string \<Rightarrow> DatabaseConfig" where
  "example_config p =
     \<lparr>provider = p, host = Some ''db.example'', port = Some (Num 6000), database = ''test_db'',
      user = Some ''tester'', password = Some ''secret'', filePath = None,
      connectionString = None, pool = None, ssl = None\<rparr>"

text \<open>The database variables read by \<^verbatim>\<open>fromEnv\<close>, the provider selector apart.\<close>

definition other_variables :: "string list" where
  "other_variables =
     [''DB_HOST'', ''DB_PORT'', ''DB_NAME'', ''DB_DATABASE'', ''DB_USER'', ''DB_PASSWORD'',
      ''DB_FILE_PATH'', ''DB_CONNECTION_STRING'', ''DB_SSL'', ''DB_POOL_MIN'', ''DB_POOL_MAX'']"

definition supported_providers :: "string list" where
  "supported_providers = [''postgres'', ''mysql'', ''mssql'', ''sqlite'']"

text \<open>The configuration \<^verbatim>\<open>fromEnv\<close> builds when only the provider selector is set.\<close>

definition provider_only_config :: "string \<Rightarrow> DatabaseConfig" where
  "provider_only_config p =
     \<lparr>provider = p, host = None, port = None, database = [], user = None, password = None,
      filePath = None, connectionString = None,
      pool = Some \<lparr>pool_min = None, pool_max = None\<rparr>, ssl = Some (SslFlag False)\<rparr>"

definition client_config :: "'v DatabaseClient \<Rightarrow> DatabaseConfig" where
  "client_config c =
     (case c of Postgres x \<Rightarrow> pg_config x | MySql x \<Rightarrow> my_config x
      | MsSql x \<Rightarrow> ms_config x | Sqlite x \<Rightarrow> sq_config x)"

text \<open>A driver on which every call fails.\<close>

definition refusing_driver :: "string driver" where
  "refusing_driver = quiet_driver\<lparr>fails := (\<lambda>tr e. Some (Error ''ECONNREFUSED''))\<rparr>"

text \<open>An environment without any database variable, and one with the selector only.\<close>

definition empty_env :: env where
  "empty_env = (\<lambda>k. None)"

definition sqlite_env :: env where
  "sqlite_env = (\<lambda>k. if k = ''DB_PROVIDER'' then Some ''sqlite'' else None)"

text \<open>A configuration with discrete fields and a connection string.\<close>

definition connection_string_config :: "string \<Rightarrow> DatabaseConfig" where
  "connection_string_config p =
     (example_config p)\<lparr>connectionString := Some ''db://app:pw@prod.example:7000/shop''\<rparr>"

text \<open>A response whose body is the JSON text \<^verbatim>\<open>null\<close>.\<close>

definition null_response :: APIResponse where
  "null_response = \<lparr>status_code = 200, parsed = Inr JNull\<rparr>"

section \<open>Scenarios on a new client\<close>

text \<open>Every call on the driver succeeds.\<close>

definition never_fails :: "'v driver \<Rightarrow> bool" where
  "never_fails D = (\<forall>tr e. fails D tr e = None)"

text \<open>
  A new client after \<^verbatim>\<open>connect\<close>; after \<^verbatim>\<open>connect\<close> and \<^verbatim>\<open>disconnect\<close>; and after
  \<^verbatim>\<open>connect\<close>, \<^verbatim>\<open>disconnect\<close> and \<^verbatim>\<open>connect\<close> again.
\<close>

definition pg_connected :: "'v driver \<Rightarrow> DatabaseConfig \<Rightarrow> 'v PostgresClient" where
  "pg_connected D cfg = snd (pg_connect D (new_PostgresClient cfg))"

definition pg_disconnected :: "'v driver \<Rightarrow> DatabaseConfig \<Rightarrow> 'v PostgresClient" where
  "pg_disconnected D cfg = snd (pg_disconnect D (pg_connected D cfg))"

definition pg_reconnected :: "'v driver \<Rightarrow> DatabaseConfig \<Rightarrow> 'v PostgresClient" where
  "pg_reconnected D cfg = snd (pg_connect D (pg_disconnected D cfg))"

definition my_connected :: "'v driver \<Rightarrow> DatabaseConfig \<Rightarrow> 'v MySqlClient" where
  "my_connected D cfg = snd (my_connect D (new_MySqlClient cfg))"

definition my_disconnected :: "'v driver \<Rightarrow> DatabaseConfig \<Rightarrow> 'v MySqlClient" where
  "my_disconnected D cfg = snd (my_disconnect D (my_connected D cfg))"

definition my_reconnected :: "'v driver \<Rightarrow> DatabaseConfig \<Rightarrow> 'v MySqlClient" where
  "my_reconnected D cfg = snd (my_connect D (my_disconnected D cfg))"

definition ms_connected :: "'v driver \<Rightarrow> DatabaseConfig \<Rightarrow> 'v MsSqlClient" where
  "ms_connected D cfg = snd (ms_connect D (new_MsSqlClient cfg))"

definition ms_disconnected :: "'v driver \<Rightarrow> DatabaseConfig \<Rightarrow> 'v MsSqlClient" where
  "ms_disconnected D cfg = snd (ms_disconnect D (ms_connected D cfg))"

definition ms_reconnected :: "'v driver \<Rightarrow> DatabaseConfig \<Rightarrow> 'v MsSqlClient" where
  "ms_reconnected D cfg = snd (ms_connect D (ms_disconnected D cfg))"

definition sq_connected :: "'v driver \<Rightarrow> DatabaseConfig \<Rightarrow> 'v SqliteClient" where
  "sq_connected D cfg = snd (sq_connect D (new_SqliteClient cfg))"

definition sq_disconnected :: "'v driver \<Rightarrow> DatabaseConfig \<Rightarrow> 'v SqliteClient" where
  "sq_disconnected D cfg = snd (sq_disconnect D (sq_connected D cfg))"

definition sq_reconnected :: "'v driver \<Rightarrow> DatabaseConfig \<Rightarrow> 'v SqliteClient" where
  "sq_reconnected D cfg = snd (sq_connect D (sq_disconnected D cfg))"

section \<open>Transaction bodies and the state they find\<close>

text \<open>
  The instance as a transaction body finds it, when the handle was acquired and the
  transaction begun: the slot holds the new handle, named by the length of the trace at
  the call of \<^verbatim>\<open>transaction\<close>.
\<close>

definition pg_begun :: "handle \<Rightarrow> 'v PostgresClient \<Rightarrow> 'v PostgresClient" where
  "pg_begun p this =
     this\<lparr>pg_client := Some (length (pg_trace this)), pg_isTransaction := True,
          pg_trace := pg_trace this @
            [PgPoolConnect p (length (pg_trace this)), PgQuery (length (pg_trace this)) ''BEGIN'' None]\<rparr>"

definition my_begun :: "handle \<Rightarrow> 'v MySqlClient \<Rightarrow> 'v MySqlClient" where
  "my_begun p this =
     this\<lparr>my_connection := Some (length (my_trace this)), my_isTransaction := True,
          my_trace := my_trace this @
            [MyGetConnection p (length (my_trace this)), MyBeginTransaction (length (my_trace this))]\<rparr>"

definition ms_begun :: "handle \<Rightarrow> 'v MsSqlClient \<Rightarrow> 'v MsSqlClient" where
  "ms_begun p this =
     this\<lparr>ms_currentTransaction := Some (length (ms_trace this)), ms_isTransaction := True,
          ms_trace := ms_trace this @
            [MsNewTransaction p (length (ms_trace this)), MsBegin (length (ms_trace this))]\<rparr>"

text \<open>
  A body after the repository's documentation:
  \<^verbatim>\<open>async (client) => { await client.execute("INSERT ...", ["Test", email]); ... }\<close>,
  ending with the given outcome (a returned value, or a thrown error) when the insert
  succeeded, and with the insert's error otherwise. The call of \<^verbatim>\<open>execute\<close> happens
  before the body suspends.
\<close>

definition insert_sql :: string where
  "insert_sql = ''INSERT INTO users (name, email) VALUES (?, ?)''"

definition insert_params :: "string list option" where
  "insert_params = Some [''Test'', ''transaction-test@example.com'']"

definition intentional :: error where
  "intentional = Error ''Intentional rollback''"

definition then_outcome :: "error + 'a \<Rightarrow> (error + int) \<times> 's \<Rightarrow> ('s, 'a) promise \<times> 's" where
  "then_outcome outcome r =
     (case r of (Inl e, s) \<Rightarrow> (settled (Inl e), s) | (Inr n, s) \<Rightarrow> (settled outcome, s))"

definition pg_insert_then :: "string driver \<Rightarrow> error + 'a \<Rightarrow> (string PostgresClient, 'a) async_fn" where
  "pg_insert_then D outcome = (\<lambda>client. then_outcome outcome (pg_execute D insert_sql insert_params client))"

definition my_insert_then :: "string driver \<Rightarrow> error + 'a \<Rightarrow> (string MySqlClient, 'a) async_fn" where
  "my_insert_then D outcome = (\<lambda>client. then_outcome outcome (my_execute D insert_sql insert_params client))"

definition ms_insert_then :: "string driver \<Rightarrow> error + 'a \<Rightarrow> (string MsSqlClient, 'a) async_fn" where
  "ms_insert_then D outcome = (\<lambda>client. then_outcome outcome (ms_execute D insert_sql insert_params client))"

definition sq_insert_then :: "string driver \<Rightarrow> error + 'a \<Rightarrow> (string SqliteClient, 'a) async_fn" where
  "sq_insert_then D outcome = (\<lambda>client. then_outcome outcome (sq_execute D insert_sql insert_params client))"

text \<open>A driver on which the PostgreSQL connection is lost when the rollback is sent.\<close>

definition rollback_failing_driver :: "string driver" where
  "rollback_failing_driver =
     quiet_driver\<lparr>fails :=
       (\<lambda>tr e. if e = PgQuery 1 ''ROLLBACK'' None then Some (Error ''Connection terminated unexpectedly'')
               else None)\<rparr>"

text \<open>An older embedded-file driver, which accepts a function that returns a promise.\<close>

definition older_sqlite_driver :: "string driver" where
  "older_sqlite_driver = quiet_driver\<lparr>sq_rejects_promise := False\<rparr>"

text \<open>
  A client on which \<^verbatim>\<open>disconnect\<close> is called while a transaction is open, as a transaction
  body does with \<^verbatim>\<open>await client.disconnect()\<close>, and the same client after a further
  \<^verbatim>\<open>connect\<close>.
\<close>

definition pg_disconnected_in_body :: "'v driver \<Rightarrow> DatabaseConfig \<Rightarrow> 'v PostgresClient" where
  "pg_disconnected_in_body D cfg = snd (pg_disconnect D (pg_begun 0 (pg_connected D cfg)))"

definition pg_reconnected_after_body :: "'v driver \<Rightarrow> DatabaseConfig \<Rightarrow> 'v PostgresClient" where
  "pg_reconnected_after_body D cfg = snd (pg_connect D (pg_disconnected_in_body D cfg))"

definition my_disconnected_in_body :: "'v driver \<Rightarrow> DatabaseConfig \<Rightarrow> 'v MySqlClient" where
  "my_disconnected_in_body D cfg = snd (my_disconnect D (my_begun 0 (my_connected D cfg)))"

definition my_reconnected_after_body :: "'v driver \<Rightarrow> DatabaseConfig \<Rightarrow> 'v MySqlClient" where
  "my_reconnected_after_body D cfg = snd (my_connect D (my_disconnected_in_body D cfg))"

section \<open>Decimal printing is injective and made of digits\<close>

lemma show_nat_nonempty: "show_nat n \<noteq> []"
  by (subst show_nat.simps) simp

lemma digit_char_inj: "a < 10 \<Longrightarrow> b < 10 \<Longrightarrow> digit_char a = digit_char b \<Longrightarrow> a = b"
proof -
  assume a: "a < 10" and b: "b < 10" and e: "digit_char a = digit_char b"
  have "distinct ''0123456789''" by simp
  with a b e show "a = b"
    unfolding digit_char_def by (subst (asm) nth_eq_iff_index_eq) simp_all
qed

lemma digit_char_not_qm: "d < 10 \<Longrightarrow> digit_char d \<noteq> CHR ''?''"
proof
  assume d: "d < 10" and e: "digit_char d = CHR ''?''"
  from d have "''0123456789'' ! d \<in> set ''0123456789''"
    by (intro nth_mem) simp
  with e show False
    unfolding digit_char_def by simp
qed

lemma show_nat_no_qm: "CHR ''?'' \<notin> set (show_nat n)"
proof (induction n rule: show_nat.induct)
  case (1 n)
  show ?case
  proof (cases "n < 10")
    case True
    then show ?thesis
      using digit_char_not_qm [of n] by (subst show_nat.simps) auto
  next
    case False
    have "n mod 10 < 10" by simp
    then have "digit_char (n mod 10) \<noteq> CHR ''?''" by (rule digit_char_not_qm)
    with False "1.IH" show ?thesis
      by (subst show_nat.simps) auto
  qed
qed

lemma show_nat_inj: "show_nat n = show_nat m \<Longrightarrow> n = m"
proof (induction n arbitrary: m rule: show_nat.induct)
  case (1 n)
  show ?case
  proof (cases "n < 10")
    case n: True
    show ?thesis
    proof (cases "m < 10")
      case True
      with n "1.prems" show ?thesis
        by (simp add: show_nat.simps [of n] show_nat.simps [of m] digit_char_inj)
    next
      case False
      with n "1.prems" show_nat_nonempty [of "m div 10"] show ?thesis
        by (auto simp add: show_nat.simps [of n] show_nat.simps [of m])
    qed
  next
    case n: False
    show ?thesis
    proof (cases "m < 10")
      case True
      with n "1.prems" show_nat_nonempty [of "n div 10"] show ?thesis
        by (auto simp add: show_nat.simps [of n] show_nat.simps [of m])
    next
      case False
      with n "1.prems" have e: "show_nat (n div 10) = show_nat (m div 10)"
        and d: "digit_char (n mod 10) = digit_char (m mod 10)"
        by (simp_all add: show_nat.simps [of n] show_nat.simps [of m])
      from "1.IH" [OF n e] have "n div 10 = m div 10" .
      moreover from d have "n mod 10 = m mod 10"
        by (intro digit_char_inj) simp_all
      ultimately show ?thesis
        by (metis div_mult_mod_eq)
    qed
  qed
qed

section \<open>The placeholder rewrite\<close>

lemma param_token_no_qm: "CHR ''?'' \<notin> set (param_token k)"
  using show_nat_no_qm [of k] by (simp add: param_token_def)

lemma param_name_inj: "param_name a = param_name b \<Longrightarrow> a = b"
  by (simp add: param_name_def show_nat_inj)

lemma number_first_Nil: "number_first n k [] = []"
  by (cases n) simp_all

lemma number_first_skip:
  "CHR ''?'' \<notin> set pre \<Longrightarrow> number_first n k (pre @ s) = pre @ number_first n k s"
proof (induction pre)
  case Nil
  show ?case by simp
next
  case (Cons c cs)
  then show ?case by (cases n) auto
qed

lemma number_first_replace:
  "number_first n (Suc k) (replace_first (CHR ''?'') (param_token k) s) = number_first (Suc n) k s"
proof (induction s)
  case Nil
  show ?case by (simp add: number_first_Nil)
next
  case (Cons c cs)
  show ?case
  proof (cases "c = CHR ''?''")
    case True
    then show ?thesis
      by (simp add: number_first_skip [OF param_token_no_qm])
  next
    case False
    with Cons show ?thesis by (cases n) simp_all
  qed
qed

lemma convertSql_forEach_number:
  "convertSql_forEach s k ps = number_first (length ps) k s"
proof (induction ps arbitrary: s k)
  case Nil
  show ?case by simp
next
  case (Cons p ps)
  show ?case by (simp add: Cons.IH number_first_replace)
qed

lemma number_placeholders_none:
  "CHR ''?'' \<notin> set s \<Longrightarrow> number_placeholders k s = s"
  by (induction s) auto

lemma number_first_all:
  "count_list s (CHR ''?'') \<le> n \<Longrightarrow> number_first n k s = number_placeholders k s"
proof (induction n k s rule: number_first.induct)
  case (1 k s)
  then have "CHR ''?'' \<notin> set s" by (simp add: count_list_0_iff)
  then show ?case by (simp add: number_placeholders_none)
next
  case (2 n k)
  show ?case by simp
next
  case (3 n k c cs)
  then show ?case by (cases "c = CHR ''?''") simp_all
qed

lemma number_first_suffix:
  "n \<le> count_list pre (CHR ''?'') \<Longrightarrow> number_first n k (pre @ rest) = number_first n k pre @ rest"
proof (induction n k pre rule: number_first.induct)
  case (1 k s)
  show ?case by simp
next
  case (2 n k)
  then show ?case by simp
next
  case (3 n k c cs)
  then show ?case by (cases "c = CHR ''?''") simp_all
qed

lemma number_first_hit:
  "count_list pre (CHR ''?'') < n \<Longrightarrow>
   number_first n k (pre @ CHR ''?'' # post) =
     number_placeholders k pre @ param_token (k + count_list pre (CHR ''?''))
       @ number_first (n - Suc (count_list pre (CHR ''?''))) (Suc (k + count_list pre (CHR ''?''))) post"
proof (induction n k pre rule: number_first.induct)
  case (1 k s)
  then show ?case by simp
next
  case (2 n k)
  show ?case by simp
next
  case (3 n k c cs)
  then show ?case by (cases "c = CHR ''?''") simp_all
qed

lemma forEach_other:
  "(\<And>i. i < length ps \<Longrightarrow> name \<noteq> param_name (k + i)) \<Longrightarrow>
   map_of (inputs (convertParams_forEach req k ps)) name = map_of (inputs req) name"
proof (induction ps arbitrary: req k)
  case Nil
  show ?case by simp
next
  case (Cons p ps)
  have a: "name \<noteq> param_name k"
    using Cons.prems [of 0] by simp
  have b: "name \<noteq> param_name (Suc k + i)" if "i < length ps" for i
    using Cons.prems [of "Suc i"] that by simp
  show ?case
    using a by (simp add: Cons.IH [OF b] input_def update_conv')
qed

lemma forEach_bound:
  "i < length ps \<Longrightarrow>
   map_of (inputs (convertParams_forEach req k ps)) (param_name (k + i)) = Some (ps ! i)"
proof (induction ps arbitrary: req k i)
  case Nil
  then show ?case by simp
next
  case (Cons p ps)
  show ?case
  proof (cases i)
    case 0
    have "param_name k \<noteq> param_name (Suc k + j)" for j
      using param_name_inj [of k "Suc k + j"] by auto
    then have "map_of (inputs (convertParams_forEach (input (param_name k) p req) (Suc k) ps)) (param_name k)
        = map_of (inputs (input (param_name k) p req)) (param_name k)"
      by (intro forEach_other)
    with 0 show ?thesis by (simp add: input_def update_conv')
  next
    case (Suc j)
    with Cons.prems have "j < length ps" by simp
    from Cons.IH [OF this, of _ "Suc k"] Suc show ?thesis by simp
  qed
qed


lemma parent_convertParams_forEach: "parent (convertParams_forEach req k ps) = parent req"
  by (induction ps arbitrary: req k) (simp_all add: input_def)

lemma parent_convertParams [simp]: "parent (convertParams req params) = parent req"
  by (simp add: convertParams_def parent_convertParams_forEach split: option.splits)

text \<open>
  C1. With as many \<^verbatim>\<open>?\<close> in the SQL text as there are parameters, the SQL-Server client
  rewrites the placeholders, from left to right, into \<^verbatim>\<open>@p0\<close>, \<^verbatim>\<open>@p1\<close>, ..., and the
  request carries the \<open>i\<close>-th positional argument under the name \<^verbatim>\<open>p\<close>\<open>i\<close>.
\<close>

theorem convert_placeholders_in_order:
  assumes "count_list sqlQuery (CHR ''?'') = length ps"
  shows "convertSql sqlQuery (Some ps) = number_placeholders 0 sqlQuery \<and>
         (\<forall>i < length ps.
            map_of (inputs (convertParams req (Some ps))) (param_name i) = Some (ps ! i))"
proof
  from assms show "convertSql sqlQuery (Some ps) = number_placeholders 0 sqlQuery"
    by (simp add: convertSql_def convertSql_forEach_number number_first_all)
next
  show "\<forall>i < length ps.
      map_of (inputs (convertParams req (Some ps))) (param_name i) = Some (ps ! i)"
    using forEach_bound [of _ ps req 0] by (simp add: convertParams_def)
qed

theorem convert_placeholders_in_order_witness:
  "count_list ''SELECT ? AS a, ? AS b, ? AS c'' (CHR ''?'') = length [10, 20, 30 :: int] \<and>
   convertSql ''SELECT ? AS a, ? AS b, ? AS c'' (Some [10, 20, 30 :: int])
     = ''SELECT @p0 AS a, @p1 AS b, @p2 AS c'' \<and>
   map_of (inputs (convertParams \<lparr>parent = Some 0, inputs = []\<rparr> (Some [10, 20, 30 :: int]))) ''p0'' = Some 10 \<and>
   map_of (inputs (convertParams \<lparr>parent = Some 0, inputs = []\<rparr> (Some [10, 20, 30 :: int]))) ''p1'' = Some 20 \<and>
   map_of (inputs (convertParams \<lparr>parent = Some 0, inputs = []\<rparr> (Some [10, 20, 30 :: int]))) ''p2'' = Some 30"
proof -
  have n: "count_list ''SELECT ? AS a, ? AS b, ? AS c'' (CHR ''?'') = length [10, 20, 30 :: int]"
    by simp
  have names: "param_name 0 = ''p0''" "param_name (Suc 0) = ''p1''" "param_name 2 = ''p2''"
    and tokens: "param_token 0 = ''@p0''" "param_token (Suc 0) = ''@p1''"
      "param_token (Suc (Suc 0)) = ''@p2''"
    by (simp_all add: param_name_def param_token_def show_nat.simps digit_char_def)
  note t = convert_placeholders_in_order [OF n, of "\<lparr>parent = Some 0, inputs = []\<rparr>"]
  from t have "convertSql ''SELECT ? AS a, ? AS b, ? AS c'' (Some [10, 20, 30 :: int])
      = ''SELECT @p0 AS a, @p1 AS b, @p2 AS c''"
    by (simp add: tokens)
  moreover from t have
    "\<forall>i<3. map_of (inputs (convertParams \<lparr>parent = Some 0, inputs = []\<rparr> (Some [10, 20, 30 :: int])))
       (param_name i) = Some ([10, 20, 30] ! i)"
    by simp
  then have
    "map_of (inputs (convertParams \<lparr>parent = Some 0, inputs = []\<rparr> (Some [10, 20, 30 :: int]))) (param_name 0) = Some 10"
    "map_of (inputs (convertParams \<lparr>parent = Some 0, inputs = []\<rparr> (Some [10, 20, 30 :: int]))) (param_name 1) = Some 20"
    "map_of (inputs (convertParams \<lparr>parent = Some 0, inputs = []\<rparr> (Some [10, 20, 30 :: int]))) (param_name 2) = Some 30"
    by (auto simp del: One_nat_def)
  ultimately show ?thesis
    using n by (simp add: names)
qed

text \<open>
  C2, as stated, fails: the rewrite does not look at quotes. In the text below the only
  parameter placeholder is the last character; with one parameter the rewrite changes
  the \<^verbatim>\<open>?\<close> inside the string constant \<^verbatim>\<open>'why?'\<close> and leaves the placeholder alone.
\<close>

theorem convertSql_quoted_counterexample:
  "convertSql ''SELECT id FROM faq WHERE title = 'why?' AND id = ?'' (Some [7 :: int])
     = ''SELECT id FROM faq WHERE title = 'why@p0' AND id = ?'' \<and>
   string_constants ''SELECT id FROM faq WHERE title = 'why?' AND id = ?'' = [''why?''] \<and>
   string_constants (convertSql ''SELECT id FROM faq WHERE title = 'why?' AND id = ?'' (Some [7 :: int]))
     = [''why@p0'']"
  by (simp add: convertSql_def string_constants_def param_token_def show_nat.simps digit_char_def)

text \<open>
  C2, amended. The rewrite keeps the order of occurrence and touches exactly the first
  \<open>n\<close> characters \<^verbatim>\<open>?\<close> of the text, \<open>n\<close> being the number of parameters, wherever they stand
  (inside a quoted string constant or not): a \<^verbatim>\<open>?\<close> with \<open>j < n\<close> earlier \<^verbatim>\<open>?\<close> before it
  becomes \<^verbatim>\<open>@p\<close>\<open>j\<close>, and everything after the first \<open>n\<close> of them is left unchanged.
\<close>

theorem convertSql_first_n:
  "(length ps \<le> count_list pre (CHR ''?'') \<longrightarrow>
      convertSql (pre @ rest) (Some ps) = convertSql pre (Some ps) @ rest) \<and>
   (count_list pre (CHR ''?'') < length ps \<longrightarrow>
      convertSql (pre @ ''?'' @ post) (Some ps) =
        number_placeholders 0 pre @ param_token (count_list pre (CHR ''?''))
          @ number_first (length ps - Suc (count_list pre (CHR ''?'')))
              (Suc (count_list pre (CHR ''?''))) post)"
  using number_first_suffix [of "length ps" pre 0 rest]
    number_first_hit [of pre "length ps" 0 post]
  by (simp add: convertSql_def convertSql_forEach_number)

theorem convertSql_first_n_witness:
  "length [7 :: int] \<le> count_list ''SELECT 'why?'' (CHR ''?'') \<and>
   convertSql (''SELECT 'why?'' @ ''' AS q, '?' AS r FROM t WHERE id = ?'') (Some [7 :: int])
     = ''SELECT 'why@p0' AS q, '?' AS r FROM t WHERE id = ?'' \<and>
   count_list ''SELECT a FROM t WHERE id = '' (CHR ''?'') < length [7 :: int] \<and>
   convertSql (''SELECT a FROM t WHERE id = '' @ ''?'' @ '' AND b = ?'') (Some [7 :: int])
     = ''SELECT a FROM t WHERE id = @p0 AND b = ?''"
proof -
  have tok: "param_token 0 = ''@p0''"
    by (simp add: param_token_def show_nat.simps digit_char_def)
  have a: "length [7 :: int] \<le> count_list ''SELECT 'why?'' (CHR ''?'')"
    and b: "count_list ''SELECT a FROM t WHERE id = '' (CHR ''?'') < length [7 :: int]"
    by simp_all
  have pre: "convertSql ''SELECT 'why?'' (Some [7 :: int]) = ''SELECT 'why@p0''"
    by (simp add: convertSql_def tok)
  from convertSql_first_n [of "[7]" "''SELECT 'why?''" "''' AS q, '?' AS r FROM t WHERE id = ?''"] a
  have "convertSql (''SELECT 'why?'' @ ''' AS q, '?' AS r FROM t WHERE id = ?'') (Some [7 :: int])
     = convertSql ''SELECT 'why?'' (Some [7 :: int]) @ ''' AS q, '?' AS r FROM t WHERE id = ?''"
    by blast
  moreover
  from convertSql_first_n [of "[7]" "''SELECT a FROM t WHERE id = ''" _ "'' AND b = ?''"] b
  have "convertSql (''SELECT a FROM t WHERE id = '' @ ''?'' @ '' AND b = ?'') (Some [7 :: int])
     = ''SELECT a FROM t WHERE id = @p0 AND b = ?''"
    by (simp add: tok)
  ultimately show ?thesis
    using a b by (simp add: pre)
qed

section \<open>Connecting, and calls on a client that is not connected\<close>

lemma pg_not_connected:
  "pg_pool this = None \<Longrightarrow>
     pg_query D sql ps this = (Inl not_connected, this) \<and>
     pg_execute D sql ps this = (Inl not_connected, this)"
  by (simp add: pg_query_def pg_execute_def)

lemma pg_connect_failed:
  "pg_pool this = None \<Longrightarrow> fst (pg_connect D this) = Inl e \<Longrightarrow> pg_pool (snd (pg_connect D this)) = None"
  by (auto simp: pg_connect_def pg_call_def call_def split: option.splits)

lemma pg_connect_again:
  "fst (pg_connect D this) = Inr () \<Longrightarrow>
     pg_pool (snd (pg_connect D this)) \<noteq> None \<and>
     pg_connect D (snd (pg_connect D this)) = (Inr (), snd (pg_connect D this))"
  by (auto simp: pg_connect_def pg_call_def call_def split: option.splits if_splits)

lemma my_not_connected:
  "my_pool this = None \<Longrightarrow>
     my_query D sql ps this = (Inl not_connected, this) \<and>
     my_execute D sql ps this = (Inl not_connected, this)"
  by (simp add: my_query_def my_execute_def)

lemma my_connect_failed:
  "my_pool this = None \<Longrightarrow> fst (my_connect D this) = Inl e \<Longrightarrow> my_pool (snd (my_connect D this)) = None"
  by (auto simp: my_connect_def my_call_def call_def split: option.splits)

lemma my_connect_again:
  "fst (my_connect D this) = Inr () \<Longrightarrow>
     my_pool (snd (my_connect D this)) \<noteq> None \<and>
     my_connect D (snd (my_connect D this)) = (Inr (), snd (my_connect D this))"
  by (auto simp: my_connect_def my_call_def call_def split: option.splits if_splits)

lemma ms_not_connected:
  "ms_pool this = None \<Longrightarrow>
     ms_query D sql ps this = (Inl not_connected, this) \<and>
     ms_execute D sql ps this = (Inl not_connected, this)"
  by (simp add: ms_query_def ms_execute_def)

lemma ms_connect_failed:
  "ms_pool this = None \<Longrightarrow> fst (ms_connect D this) = Inl e \<Longrightarrow> ms_pool (snd (ms_connect D this)) = None"
  by (auto simp: ms_connect_def ms_call_def call_def split: option.splits)

lemma ms_connect_again:
  "fst (ms_connect D this) = Inr () \<Longrightarrow>
     ms_pool (snd (ms_connect D this)) \<noteq> None \<and>
     ms_connect D (snd (ms_connect D this)) = (Inr (), snd (ms_connect D this))"
  by (auto simp: ms_connect_def ms_call_def call_def split: option.splits if_splits)

lemma sq_not_connected:
  "sq_db this = None \<Longrightarrow>
     sq_query D sql ps this = (Inl not_connected, this) \<and>
     sq_execute D sql ps this = (Inl not_connected, this)"
  by (simp add: sq_query_def sq_execute_def)

lemma sq_connect_failed:
  "sq_db this = None \<Longrightarrow> fst (sq_connect D this) = Inl e \<Longrightarrow> sq_db (snd (sq_connect D this)) = None"
  by (auto simp: sq_connect_def sq_call_def call_def split: option.splits)

lemma sq_connect_again:
  "fst (sq_connect D this) = Inr () \<Longrightarrow>
     sq_db (snd (sq_connect D this)) \<noteq> None \<and>
     sq_connect D (snd (sq_connect D this)) = (Inr (), snd (sq_connect D this))"
  by (auto simp: sq_connect_def sq_call_def call_def split: option.splits if_splits)

text \<open>
  C4. On each of the four clients, \<^verbatim>\<open>query\<close> and \<^verbatim>\<open>execute\<close> on an instance without a pool
  (without a database handle, for the embedded-file client) fail with the not-connected
  error and reach no driver: the state, trace included, is unchanged. A new instance has
  no pool, and a \<^verbatim>\<open>connect\<close> that failed leaves none.
\<close>

theorem query_before_connect_fails:
  "(pg_pool pg = None \<longrightarrow>
      pg_query D sql ps pg = (Inl not_connected, pg) \<and>
      pg_execute D sql ps pg = (Inl not_connected, pg)) \<and>
   (my_pool my = None \<longrightarrow>
      my_query D sql ps my = (Inl not_connected, my) \<and>
      my_execute D sql ps my = (Inl not_connected, my)) \<and>
   (ms_pool ms = None \<longrightarrow>
      ms_query D sql ps ms = (Inl not_connected, ms) \<and>
      ms_execute D sql ps ms = (Inl not_connected, ms)) \<and>
   (sq_db sq = None \<longrightarrow>
      sq_query D sql ps sq = (Inl not_connected, sq) \<and>
      sq_execute D sql ps sq = (Inl not_connected, sq)) \<and>
   pg_pool (new_PostgresClient cfg :: 'v PostgresClient) = None \<and>
   my_pool (new_MySqlClient cfg :: 'v MySqlClient) = None \<and>
   ms_pool (new_MsSqlClient cfg :: 'v MsSqlClient) = None \<and>
   sq_db (new_SqliteClient cfg :: 'v SqliteClient) = None \<and>
   (pg_pool pg = None \<and> fst (pg_connect D pg) = Inl e \<longrightarrow>
      pg_query D sql ps (snd (pg_connect D pg)) = (Inl not_connected, snd (pg_connect D pg)) \<and>
      pg_execute D sql ps (snd (pg_connect D pg)) = (Inl not_connected, snd (pg_connect D pg))) \<and>
   (my_pool my = None \<and> fst (my_connect D my) = Inl e \<longrightarrow>
      my_query D sql ps (snd (my_connect D my)) = (Inl not_connected, snd (my_connect D my)) \<and>
      my_execute D sql ps (snd (my_connect D my)) = (Inl not_connected, snd (my_connect D my))) \<and>
   (ms_pool ms = None \<and> fst (ms_connect D ms) = Inl e \<longrightarrow>
      ms_query D sql ps (snd (ms_connect D ms)) = (Inl not_connected, snd (ms_connect D ms)) \<and>
      ms_execute D sql ps (snd (ms_connect D ms)) = (Inl not_connected, snd (ms_connect D ms))) \<and>
   (sq_db sq = None \<and> fst (sq_connect D sq) = Inl e \<longrightarrow>
      sq_query D sql ps (snd (sq_connect D sq)) = (Inl not_connected, snd (sq_connect D sq)) \<and>
      sq_execute D sql ps (snd (sq_connect D sq)) = (Inl not_connected, snd (sq_connect D sq)))"
proof -
  have "pg_pool (snd (pg_connect D pg)) = None" if "pg_pool pg = None" "fst (pg_connect D pg) = Inl e"
    using that by (rule pg_connect_failed)
  moreover
  have "my_pool (snd (my_connect D my)) = None" if "my_pool my = None" "fst (my_connect D my) = Inl e"
    using that by (rule my_connect_failed)
  moreover
  have "ms_pool (snd (ms_connect D ms)) = None" if "ms_pool ms = None" "fst (ms_connect D ms) = Inl e"
    using that by (rule ms_connect_failed)
  moreover
  have "sq_db (snd (sq_connect D sq)) = None" if "sq_db sq = None" "fst (sq_connect D sq) = Inl e"
    using that by (rule sq_connect_failed)
  ultimately show ?thesis
    by (simp add: pg_not_connected my_not_connected ms_not_connected sq_not_connected
        new_PostgresClient_def new_MySqlClient_def new_MsSqlClient_def new_SqliteClient_def)
qed

theorem query_before_connect_fails_witness:
  "pg_pool (new_PostgresClient (example_config ''postgres'') :: string PostgresClient) = None \<and>
   fst (pg_connect refusing_driver (new_PostgresClient (example_config ''postgres'') :: string PostgresClient)) = Inl (Error ''ECONNREFUSED'') \<and>
   my_pool (new_MySqlClient (example_config ''mysql'') :: string MySqlClient) = None \<and>
   fst (my_connect refusing_driver (new_MySqlClient (example_config ''mysql'') :: string MySqlClient)) = Inl (Error ''ECONNREFUSED'') \<and>
   ms_pool (new_MsSqlClient (example_config ''mssql'') :: string MsSqlClient) = None \<and>
   fst (ms_connect refusing_driver (new_MsSqlClient (example_config ''mssql'') :: string MsSqlClient)) = Inl (Error ''ECONNREFUSED'') \<and>
   sq_db (new_SqliteClient (example_config ''sqlite'') :: string SqliteClient) = None \<and>
   fst (sq_connect refusing_driver (new_SqliteClient (example_config ''sqlite'') :: string SqliteClient)) = Inl (Error ''ECONNREFUSED'') \<and>
   pg_query quiet_driver ''SELECT 1'' None (new_PostgresClient (example_config ''postgres'') :: string PostgresClient) = (Inl not_connected, (new_PostgresClient (example_config ''postgres'') :: string PostgresClient)) \<and>
   pg_execute quiet_driver ''SELECT 1'' None (new_PostgresClient (example_config ''postgres'') :: string PostgresClient) = (Inl not_connected, (new_PostgresClient (example_config ''postgres'') :: string PostgresClient)) \<and>
   pg_query refusing_driver ''SELECT 1'' None (snd (pg_connect refusing_driver (new_PostgresClient (example_config ''postgres'') :: string PostgresClient))) = (Inl not_connected, snd (pg_connect refusing_driver (new_PostgresClient (example_config ''postgres'') :: string PostgresClient))) \<and>
   my_query quiet_driver ''SELECT 1'' None (new_MySqlClient (example_config ''mysql'') :: string MySqlClient) = (Inl not_connected, (new_MySqlClient (example_config ''mysql'') :: string MySqlClient)) \<and>
   my_execute quiet_driver ''SELECT 1'' None (new_MySqlClient (example_config ''mysql'') :: string MySqlClient) = (Inl not_connected, (new_MySqlClient (example_config ''mysql'') :: string MySqlClient)) \<and>
   my_query refusing_driver ''SELECT 1'' None (snd (my_connect refusing_driver (new_MySqlClient (example_config ''mysql'') :: string MySqlClient))) = (Inl not_connected, snd (my_connect refusing_driver (new_MySqlClient (example_config ''mysql'') :: string MySqlClient))) \<and>
   ms_query quiet_driver ''SELECT 1'' None (new_MsSqlClient (example_config ''mssql'') :: string MsSqlClient) = (Inl not_connected, (new_MsSqlClient (example_config ''mssql'') :: string MsSqlClient)) \<and>
   ms_execute quiet_driver ''SELECT 1'' None (new_MsSqlClient (example_config ''mssql'') :: string MsSqlClient) = (Inl not_connected, (new_MsSqlClient (example_config ''mssql'') :: string MsSqlClient)) \<and>
   ms_query refusing_driver ''SELECT 1'' None (snd (ms_connect refusing_driver (new_MsSqlClient (example_config ''mssql'') :: string MsSqlClient))) = (Inl not_connected, snd (ms_connect refusing_driver (new_MsSqlClient (example_config ''mssql'') :: string MsSqlClient))) \<and>
   sq_query quiet_driver ''SELECT 1'' None (new_SqliteClient (example_config ''sqlite'') :: string SqliteClient) = (Inl not_connected, (new_SqliteClient (example_config ''sqlite'') :: string SqliteClient)) \<and>
   sq_execute quiet_driver ''SELECT 1'' None (new_SqliteClient (example_config ''sqlite'') :: string SqliteClient) = (Inl not_connected, (new_SqliteClient (example_config ''sqlite'') :: string SqliteClient)) \<and>
   sq_query refusing_driver ''SELECT 1'' None (snd (sq_connect refusing_driver (new_SqliteClient (example_config ''sqlite'') :: string SqliteClient))) = (Inl not_connected, snd (sq_connect refusing_driver (new_SqliteClient (example_config ''sqlite'') :: string SqliteClient)))"
proof -
  have h: "pg_pool (new_PostgresClient (example_config ''postgres'') :: string PostgresClient) = None"
    "fst (pg_connect refusing_driver (new_PostgresClient (example_config ''postgres'') :: string PostgresClient)) = Inl (Error ''ECONNREFUSED'')"
    "my_pool (new_MySqlClient (example_config ''mysql'') :: string MySqlClient) = None"
    "fst (my_connect refusing_driver (new_MySqlClient (example_config ''mysql'') :: string MySqlClient)) = Inl (Error ''ECONNREFUSED'')"
    "ms_pool (new_MsSqlClient (example_config ''mssql'') :: string MsSqlClient) = None"
    "fst (ms_connect refusing_driver (new_MsSqlClient (example_config ''mssql'') :: string MsSqlClient)) = Inl (Error ''ECONNREFUSED'')"
    "sq_db (new_SqliteClient (example_config ''sqlite'') :: string SqliteClient) = None"
    "fst (sq_connect refusing_driver (new_SqliteClient (example_config ''sqlite'') :: string SqliteClient)) = Inl (Error ''ECONNREFUSED'')"
    by (simp_all add: new_PostgresClient_def new_MySqlClient_def new_MsSqlClient_def
        new_SqliteClient_def pg_connect_def my_connect_def ms_connect_def sq_connect_def
        pg_call_def my_call_def ms_call_def sq_call_def call_def refusing_driver_def)
  note t1 = query_before_connect_fails [where D = quiet_driver and sql = "''SELECT 1''" and ps = None
      and pg = "new_PostgresClient (example_config ''postgres'')"
      and my = "new_MySqlClient (example_config ''mysql'')"
      and ms = "new_MsSqlClient (example_config ''mssql'')"
      and sq = "new_SqliteClient (example_config ''sqlite'')"
      and e = "Error ''ECONNREFUSED''" and cfg = "example_config ''postgres''"]
  note t2 = query_before_connect_fails [where D = refusing_driver and sql = "''SELECT 1''" and ps = None
      and pg = "new_PostgresClient (example_config ''postgres'')"
      and my = "new_MySqlClient (example_config ''mysql'')"
      and ms = "new_MsSqlClient (example_config ''mssql'')"
      and sq = "new_SqliteClient (example_config ''sqlite'')"
      and e = "Error ''ECONNREFUSED''" and cfg = "example_config ''postgres''"]
  from t1 t2 h show ?thesis by blast
qed

text \<open>
  C5. On each of the four clients, \<^verbatim>\<open>connect\<close> on a connected instance returns normally
  and changes nothing: no driver call is made, and the pool (the database handle) is the
  one already there. In particular a second \<^verbatim>\<open>connect\<close> after a first that succeeded is
  such a call.
\<close>

theorem connect_idempotent:
  "(pg_pool pg \<noteq> None \<longrightarrow> pg_connect D pg = (Inr (), pg)) \<and>
   (my_pool my \<noteq> None \<longrightarrow> my_connect D my = (Inr (), my)) \<and>
   (ms_pool ms \<noteq> None \<longrightarrow> ms_connect D ms = (Inr (), ms)) \<and>
   (sq_db sq \<noteq> None \<longrightarrow> sq_connect D sq = (Inr (), sq)) \<and>
   (fst (pg_connect D pg) = Inr () \<longrightarrow>
      pg_pool (snd (pg_connect D pg)) \<noteq> None \<and>
      pg_connect D (snd (pg_connect D pg)) = (Inr (), snd (pg_connect D pg))) \<and>
   (fst (my_connect D my) = Inr () \<longrightarrow>
      my_pool (snd (my_connect D my)) \<noteq> None \<and>
      my_connect D (snd (my_connect D my)) = (Inr (), snd (my_connect D my))) \<and>
   (fst (ms_connect D ms) = Inr () \<longrightarrow>
      ms_pool (snd (ms_connect D ms)) \<noteq> None \<and>
      ms_connect D (snd (ms_connect D ms)) = (Inr (), snd (ms_connect D ms))) \<and>
   (fst (sq_connect D sq) = Inr () \<longrightarrow>
      sq_db (snd (sq_connect D sq)) \<noteq> None \<and>
      sq_connect D (snd (sq_connect D sq)) = (Inr (), snd (sq_connect D sq)))"
  using pg_connect_again [of D pg] my_connect_again [of D my]
    ms_connect_again [of D ms] sq_connect_again [of D sq]
  by (simp add: pg_connect_def my_connect_def ms_connect_def sq_connect_def)

theorem connect_idempotent_witness:
  "fst (pg_connect quiet_driver (new_PostgresClient (example_config ''postgres'') :: string PostgresClient)) = Inr () \<and>
   pg_pool (snd (pg_connect quiet_driver (new_PostgresClient (example_config ''postgres'') :: string PostgresClient))) \<noteq> None \<and>
   fst (my_connect quiet_driver (new_MySqlClient (example_config ''mysql'') :: string MySqlClient)) = Inr () \<and>
   my_pool (snd (my_connect quiet_driver (new_MySqlClient (example_config ''mysql'') :: string MySqlClient))) \<noteq> None \<and>
   fst (ms_connect quiet_driver (new_MsSqlClient (example_config ''mssql'') :: string MsSqlClient)) = Inr () \<and>
   ms_pool (snd (ms_connect quiet_driver (new_MsSqlClient (example_config ''mssql'') :: string MsSqlClient))) \<noteq> None \<and>
   fst (sq_connect quiet_driver (new_SqliteClient (example_config ''sqlite'') :: string SqliteClient)) = Inr () \<and>
   sq_db (snd (sq_connect quiet_driver (new_SqliteClient (example_config ''sqlite'') :: string SqliteClient))) \<noteq> None \<and>
   pg_pool (snd (pg_connect quiet_driver (new_PostgresClient (example_config ''postgres'') :: string PostgresClient))) = Some 0 \<and>
   pg_connect quiet_driver (snd (pg_connect quiet_driver (new_PostgresClient (example_config ''postgres'') :: string PostgresClient))) = (Inr (), (snd (pg_connect quiet_driver (new_PostgresClient (example_config ''postgres'') :: string PostgresClient)))) \<and>
   pg_pool (snd (pg_connect quiet_driver (snd (pg_connect quiet_driver (new_PostgresClient (example_config ''postgres'') :: string PostgresClient))))) = Some 0 \<and>
   length (pg_trace (snd (pg_connect quiet_driver (snd (pg_connect quiet_driver (new_PostgresClient (example_config ''postgres'') :: string PostgresClient)))))) = 1 \<and>
   my_pool (snd (my_connect quiet_driver (new_MySqlClient (example_config ''mysql'') :: string MySqlClient))) = Some 0 \<and>
   my_connect quiet_driver (snd (my_connect quiet_driver (new_MySqlClient (example_config ''mysql'') :: string MySqlClient))) = (Inr (), (snd (my_connect quiet_driver (new_MySqlClient (example_config ''mysql'') :: string MySqlClient)))) \<and>
   my_pool (snd (my_connect quiet_driver (snd (my_connect quiet_driver (new_MySqlClient (example_config ''mysql'') :: string MySqlClient))))) = Some 0 \<and>
   length (my_trace (snd (my_connect quiet_driver (snd (my_connect quiet_driver (new_MySqlClient (example_config ''mysql'') :: string MySqlClient)))))) = 1 \<and>
   ms_pool (snd (ms_connect quiet_driver (new_MsSqlClient (example_config ''mssql'') :: string MsSqlClient))) = Some 0 \<and>
   ms_connect quiet_driver (snd (ms_connect quiet_driver (new_MsSqlClient (example_config ''mssql'') :: string MsSqlClient))) = (Inr (), (snd (ms_connect quiet_driver (new_MsSqlClient (example_config ''mssql'') :: string MsSqlClient)))) \<and>
   ms_pool (snd (ms_connect quiet_driver (snd (ms_connect quiet_driver (new_MsSqlClient (example_config ''mssql'') :: string MsSqlClient))))) = Some 0 \<and>
   length (ms_trace (snd (ms_connect quiet_driver (snd (ms_connect quiet_driver (new_MsSqlClient (example_config ''mssql'') :: string MsSqlClient)))))) = 1 \<and>
   sq_db (snd (sq_connect quiet_driver (new_SqliteClient (example_config ''sqlite'') :: string SqliteClient))) = Some 0 \<and>
   sq_connect quiet_driver (snd (sq_connect quiet_driver (new_SqliteClient (example_config ''sqlite'') :: string SqliteClient))) = (Inr (), (snd (sq_connect quiet_driver (new_SqliteClient (example_config ''sqlite'') :: string SqliteClient)))) \<and>
   sq_db (snd (sq_connect quiet_driver (snd (sq_connect quiet_driver (new_SqliteClient (example_config ''sqlite'') :: string SqliteClient))))) = Some 0 \<and>
   length (sq_trace (snd (sq_connect quiet_driver (snd (sq_connect quiet_driver (new_SqliteClient (example_config ''sqlite'') :: string SqliteClient)))))) = 1"
proof -
  have h: "fst (pg_connect quiet_driver (new_PostgresClient (example_config ''postgres'') :: string PostgresClient)) = Inr ()"
    "pg_pool (snd (pg_connect quiet_driver (new_PostgresClient (example_config ''postgres'') :: string PostgresClient))) \<noteq> None"
    "fst (my_connect quiet_driver (new_MySqlClient (example_config ''mysql'') :: string MySqlClient)) = Inr ()"
    "my_pool (snd (my_connect quiet_driver (new_MySqlClient (example_config ''mysql'') :: string MySqlClient))) \<noteq> None"
    "fst (ms_connect quiet_driver (new_MsSqlClient (example_config ''mssql'') :: string MsSqlClient)) = Inr ()"
    "ms_pool (snd (ms_connect quiet_driver (new_MsSqlClient (example_config ''mssql'') :: string MsSqlClient))) \<noteq> None"
    "fst (sq_connect quiet_driver (new_SqliteClient (example_config ''sqlite'') :: string SqliteClient)) = Inr ()"
    "sq_db (snd (sq_connect quiet_driver (new_SqliteClient (example_config ''sqlite'') :: string SqliteClient))) \<noteq> None"
    and p: "pg_pool (snd (pg_connect quiet_driver (new_PostgresClient (example_config ''postgres'') :: string PostgresClient))) = Some 0"
    "my_pool (snd (my_connect quiet_driver (new_MySqlClient (example_config ''mysql'') :: string MySqlClient))) = Some 0"
    "ms_pool (snd (ms_connect quiet_driver (new_MsSqlClient (example_config ''mssql'') :: string MsSqlClient))) = Some 0"
    "sq_db (snd (sq_connect quiet_driver (new_SqliteClient (example_config ''sqlite'') :: string SqliteClient))) = Some 0"
    and n: "length (pg_trace (snd (pg_connect quiet_driver (new_PostgresClient (example_config ''postgres'') :: string PostgresClient)))) = 1"
    "length (my_trace (snd (my_connect quiet_driver (new_MySqlClient (example_config ''mysql'') :: string MySqlClient)))) = 1"
    "length (ms_trace (snd (ms_connect quiet_driver (new_MsSqlClient (example_config ''mssql'') :: string MsSqlClient)))) = 1"
    "length (sq_trace (snd (sq_connect quiet_driver (new_SqliteClient (example_config ''sqlite'') :: string SqliteClient)))) = 1"
    by (simp_all add: new_PostgresClient_def new_MySqlClient_def new_MsSqlClient_def
        new_SqliteClient_def pg_connect_def my_connect_def ms_connect_def sq_connect_def
        pg_call_def my_call_def ms_call_def sq_call_def call_def quiet_driver_def)
  note t1 = connect_idempotent [where D = quiet_driver
      and pg = "new_PostgresClient (example_config ''postgres'')"
      and my = "new_MySqlClient (example_config ''mysql'')"
      and ms = "new_MsSqlClient (example_config ''mssql'')"
      and sq = "new_SqliteClient (example_config ''sqlite'')"]
  note t2 = connect_idempotent [where D = quiet_driver
      and pg = "snd (pg_connect quiet_driver (new_PostgresClient (example_config ''postgres'')))"
      and my = "snd (my_connect quiet_driver (new_MySqlClient (example_config ''mysql'')))"
      and ms = "snd (ms_connect quiet_driver (new_MsSqlClient (example_config ''mssql'')))"
      and sq = "snd (sq_connect quiet_driver (new_SqliteClient (example_config ''sqlite'')))"]
  from t1 t2 h p n show ?thesis by simp
qed

section \<open>The factory\<close>

lemma create_unsupported:
  "provider config \<notin> set supported_providers \<Longrightarrow>
   create config = Inl (Error (''Unsupported database provider: '' @ provider config))"
  by (simp add: create_def supported_providers_def)

lemma fromEnv_missing:
  "e ''DB_PROVIDER'' = None \<or> e ''DB_PROVIDER'' = Some [] \<Longrightarrow>
   fromEnv parseInt e = Inl (Error ''DB_PROVIDER environment variable is required'')"
  by (auto simp: fromEnv_def)

lemma env_config_provider_only:
  assumes "\<forall>k \<in> set other_variables. e k = None"
  shows "env_config parseInt e p = provider_only_config p"
  using assms
  by (simp add: env_config_def provider_only_config_def other_variables_def env_int_def or_str_def)

lemma create_supported:
  "p \<in> set supported_providers \<Longrightarrow>
   \<exists>c. create (provider_only_config p) = Inr c \<and> client_config c = provider_only_config p"
  by (auto simp: create_def supported_providers_def provider_only_config_def client_config_def
      new_PostgresClient_def new_MySqlClient_def new_MsSqlClient_def new_SqliteClient_def)

lemma sq_connect_memory:
  "sq_trace (snd (sq_connect D (new_SqliteClient (provider_only_config p))))
     = [SqNewDatabase 0 '':memory:'']"
  by (simp add: sq_connect_def new_SqliteClient_def provider_only_config_def sq_filePath_def
      or_str_def sq_call_def call_def split: option.splits)

text \<open>
  C6. Given a provider tag outside the four supported ones, \<^verbatim>\<open>create\<close> fails with an error
  whose message ends with the tag. With the provider selector unset (or empty) in the
  environment, \<^verbatim>\<open>fromEnv\<close> fails with the missing-variable error, whatever \<^verbatim>\<open>parseInt\<close>
  does; its outcome is the error and no client: the constructors are reached only
  through \<^verbatim>\<open>create\<close>, which is not called.
\<close>

theorem factory_rejects:
  "(provider config \<notin> set supported_providers \<longrightarrow>
      (create config :: error + 'v DatabaseClient)
        = Inl (Error (''Unsupported database provider: '' @ provider config))) \<and>
   (e ''DB_PROVIDER'' = None \<or> e ''DB_PROVIDER'' = Some [] \<longrightarrow>
      (fromEnv parseInt e :: error + 'v DatabaseClient)
        = Inl (Error ''DB_PROVIDER environment variable is required''))"
  using create_unsupported [of config] fromEnv_missing [of e parseInt] by blast

theorem factory_rejects_witness:
  "provider (example_config ''oracle'') \<notin> set supported_providers \<and>
   (create (example_config ''oracle'') :: error + string DatabaseClient)
     = Inl (Error ''Unsupported database provider: oracle'') \<and>
   empty_env ''DB_PROVIDER'' = None \<and>
   (fromEnv (\<lambda>s. NaN) empty_env :: error + string DatabaseClient)
     = Inl (Error ''DB_PROVIDER environment variable is required'')"
proof -
  have h: "provider (example_config ''oracle'') \<notin> set supported_providers"
    "empty_env ''DB_PROVIDER'' = None"
    by (simp_all add: example_config_def supported_providers_def empty_env_def)
  have m: "provider (example_config ''oracle'') = ''oracle''"
    by (simp add: example_config_def)
  from factory_rejects [of "example_config ''oracle''" empty_env "\<lambda>s. NaN", where ?'v = string] h
  show ?thesis by (simp add: m)
qed

text \<open>
  C9. When the provider selector holds a supported tag and no other database variable is
  set, \<^verbatim>\<open>fromEnv\<close> succeeds with a client whose configuration has the empty string as
  database name; for the tag \<^verbatim>\<open>sqlite\<close> the client's \<^verbatim>\<open>connect\<close> asks the driver for the
  database \<^verbatim>\<open>:memory:\<close>.
\<close>

theorem fromEnv_provider_only:
  "e ''DB_PROVIDER'' = Some p \<and> p \<in> set supported_providers \<and>
     (\<forall>k \<in> set other_variables. e k = None) \<longrightarrow>
   (\<exists>c. (fromEnv parseInt e :: error + 'v DatabaseClient) = Inr c \<and>
        client_config c = provider_only_config p \<and> database (client_config c) = []) \<and>
   (p = ''sqlite'' \<longrightarrow>
      (fromEnv parseInt e :: error + 'v DatabaseClient) = Inr (Sqlite (new_SqliteClient (provider_only_config p))) \<and>
      sq_trace (snd (sq_connect D (new_SqliteClient (provider_only_config p) :: 'v SqliteClient)))
        = [SqNewDatabase 0 '':memory:''])"
proof (intro impI, elim conjE)
  assume p: "e ''DB_PROVIDER'' = Some p" and s: "p \<in> set supported_providers"
    and o: "\<forall>k \<in> set other_variables. e k = None"
  from s have ne: "p \<noteq> []" by (auto simp: supported_providers_def)
  from p ne have f: "(fromEnv parseInt e :: error + 'v DatabaseClient) = create (provider_only_config p)"
    by (simp add: fromEnv_def or_str_def env_config_provider_only [OF o])
  from create_supported [OF s]
  obtain c :: "'v DatabaseClient" where c: "create (provider_only_config p) = Inr c"
    "client_config c = provider_only_config p" by blast
  have d: "database (provider_only_config p) = []"
    by (simp add: provider_only_config_def)
  have q: "(create (provider_only_config p) :: error + 'v DatabaseClient)
      = Inr (Sqlite (new_SqliteClient (provider_only_config p)))" if "p = ''sqlite''"
    using that by (simp add: create_def provider_only_config_def)
  from f c d q sq_connect_memory [of D p]
  show "(\<exists>c. (fromEnv parseInt e :: error + 'v DatabaseClient) = Inr c \<and>
        client_config c = provider_only_config p \<and> database (client_config c) = []) \<and>
   (p = ''sqlite'' \<longrightarrow>
      (fromEnv parseInt e :: error + 'v DatabaseClient) = Inr (Sqlite (new_SqliteClient (provider_only_config p))) \<and>
      sq_trace (snd (sq_connect D (new_SqliteClient (provider_only_config p) :: 'v SqliteClient)))
        = [SqNewDatabase 0 '':memory:''])"
    by auto
qed

theorem fromEnv_provider_only_witness:
  "sqlite_env ''DB_PROVIDER'' = Some ''sqlite'' \<and> ''sqlite'' \<in> set supported_providers \<and>
   map sqlite_env other_variables = replicate (length other_variables) None \<and>
   (fromEnv (\<lambda>s. NaN) sqlite_env :: error + string DatabaseClient)
     = Inr (Sqlite (new_SqliteClient (provider_only_config ''sqlite''))) \<and>
   database (provider_only_config ''sqlite'') = [] \<and>
   sq_connect quiet_driver (new_SqliteClient (provider_only_config ''sqlite''))
     = (Inr (), \<lparr>sq_db = Some 0, sq_config = provider_only_config ''sqlite'',
                 sq_trace = [SqNewDatabase 0 '':memory:'']\<rparr>)"
proof -
  have h: "sqlite_env ''DB_PROVIDER'' = Some ''sqlite''" "''sqlite'' \<in> set supported_providers"
    "\<forall>k \<in> set other_variables. sqlite_env k = None"
    by (simp_all add: sqlite_env_def supported_providers_def other_variables_def)
  have m: "map sqlite_env other_variables = replicate (length other_variables) None"
    by (simp add: sqlite_env_def other_variables_def)
  from fromEnv_provider_only [of sqlite_env "''sqlite''" "\<lambda>s. NaN" quiet_driver] h
  have t: "(fromEnv (\<lambda>s. NaN) sqlite_env :: error + string DatabaseClient)
       = Inr (Sqlite (new_SqliteClient (provider_only_config ''sqlite'')))"
    "sq_trace (snd (sq_connect quiet_driver (new_SqliteClient (provider_only_config ''sqlite''))))
       = [SqNewDatabase 0 '':memory:'']"
    by blast+
  have c: "sq_connect quiet_driver (new_SqliteClient (provider_only_config ''sqlite''))
     = (Inr (), \<lparr>sq_db = Some 0, sq_config = provider_only_config ''sqlite'',
                 sq_trace = sq_trace (snd (sq_connect quiet_driver (new_SqliteClient (provider_only_config ''sqlite''))))\<rparr>)"
    by (simp add: sq_connect_def new_SqliteClient_def sq_call_def call_def quiet_driver_def)
  have d: "database (provider_only_config ''sqlite'') = []"
    by (simp add: provider_only_config_def)
  from h(1,2) m t(1) d c show ?thesis
    by (simp only: t(2))
qed

section \<open>The connection string\<close>

text \<open>
  C7, as stated, fails: the MySQL client and the embedded-file client never read the
  connection string. Given a configuration with discrete fields and a connection string,
  the \<^verbatim>\<open>connect\<close> of the first creates the pool from the discrete fields, and that of
  the second opens the database name as a file.
\<close>

theorem mysql_connection_string_counterexample:
  "connectionString (connection_string_config ''mysql'') = Some ''db://app:pw@prod.example:7000/shop'' \<and>
   my_connect quiet_driver (new_MySqlClient (connection_string_config ''mysql'')) =
     (Inr (),
      \<lparr>my_pool = Some 0, my_connection = None, my_config = connection_string_config ''mysql'',
       my_isTransaction = False,
       my_trace = [MyCreatePool 0 (MyFields (Some ''db.example'') (Num 6000) ''test_db''
                     (Some ''tester'') (Some ''secret'') (Num 10) False)]\<rparr>) \<and>
   sq_connect quiet_driver (new_SqliteClient (connection_string_config ''sqlite'')) =
     (Inr (),
      \<lparr>sq_db = Some 0, sq_config = connection_string_config ''sqlite'',
       sq_trace = [SqNewDatabase 0 ''test_db'']\<rparr>)"
  by (simp add: my_connect_def new_MySqlClient_def my_call_def sq_connect_def new_SqliteClient_def
      sq_call_def sq_filePath_def or_str_def call_def quiet_driver_def
      my_poolOptions_def connection_string_config_def example_config_def config_pool_max_def)

text \<open>
  C7, amended. For the PostgreSQL and the SQL-Server client, when the configuration holds
  a connection string that is not empty, \<^verbatim>\<open>connect\<close> on an unconnected instance makes one
  driver call, whose only argument is the connection string: none of the discrete fields
  is passed.
\<close>

theorem connection_string_overrides:
  "(pg_pool pg = None \<and> connectionString (pg_config pg) = Some cs \<and> cs \<noteq> [] \<longrightarrow>
      pg_trace (snd (pg_connect D pg))
        = pg_trace pg @ [PgNewPool (length (pg_trace pg)) (PgConnectionString cs)]) \<and>
   (ms_pool ms = None \<and> connectionString (ms_config ms) = Some cs \<and> cs \<noteq> [] \<longrightarrow>
      ms_trace (snd (ms_connect D ms))
        = ms_trace ms @ [MsConnect (length (ms_trace ms)) (MsConnectionString cs)])"
  by (simp add: pg_connect_def pg_call_def pg_poolConfig_def ms_connect_def ms_call_def
      ms_sqlConfig_def call_def or_str_def split: option.splits)

theorem connection_string_overrides_witness:
  "pg_pool (new_PostgresClient (connection_string_config ''postgres'') :: string PostgresClient) = None \<and>
   connectionString (pg_config (new_PostgresClient (connection_string_config ''postgres'') :: string PostgresClient))
     = Some ''db://app:pw@prod.example:7000/shop'' \<and>
   ''db://app:pw@prod.example:7000/shop'' \<noteq> [] \<and>
   pg_trace (snd (pg_connect quiet_driver (new_PostgresClient (connection_string_config ''postgres''))))
     = [PgNewPool 0 (PgConnectionString ''db://app:pw@prod.example:7000/shop'')] \<and>
   ms_pool (new_MsSqlClient (connection_string_config ''mssql'') :: string MsSqlClient) = None \<and>
   connectionString (ms_config (new_MsSqlClient (connection_string_config ''mssql'') :: string MsSqlClient))
     = Some ''db://app:pw@prod.example:7000/shop'' \<and>
   ms_trace (snd (ms_connect quiet_driver (new_MsSqlClient (connection_string_config ''mssql''))))
     = [MsConnect 0 (MsConnectionString ''db://app:pw@prod.example:7000/shop'')]"
proof -
  have h: "pg_pool (new_PostgresClient (connection_string_config ''postgres'') :: string PostgresClient) = None"
    "connectionString (pg_config (new_PostgresClient (connection_string_config ''postgres'') :: string PostgresClient))
       = Some ''db://app:pw@prod.example:7000/shop''"
    "ms_pool (new_MsSqlClient (connection_string_config ''mssql'') :: string MsSqlClient) = None"
    "connectionString (ms_config (new_MsSqlClient (connection_string_config ''mssql'') :: string MsSqlClient))
       = Some ''db://app:pw@prod.example:7000/shop''"
    and n: "''db://app:pw@prod.example:7000/shop'' \<noteq> []"
    and l: "pg_trace (new_PostgresClient (connection_string_config ''postgres'') :: string PostgresClient) = []"
      "ms_trace (new_MsSqlClient (connection_string_config ''mssql'') :: string MsSqlClient) = []"
    by (simp_all add: new_PostgresClient_def new_MsSqlClient_def connection_string_config_def)
  note t = connection_string_overrides [where D = quiet_driver
      and pg = "new_PostgresClient (connection_string_config ''postgres'')"
      and ms = "new_MsSqlClient (connection_string_config ''mssql'')"
      and cs = "''db://app:pw@prod.example:7000/shop''"]
  from t h n have
    "pg_trace (snd (pg_connect quiet_driver (new_PostgresClient (connection_string_config ''postgres''))))
       = pg_trace (new_PostgresClient (connection_string_config ''postgres'') :: string PostgresClient)
           @ [PgNewPool (length (pg_trace (new_PostgresClient (connection_string_config ''postgres'') :: string PostgresClient)))
                (PgConnectionString ''db://app:pw@prod.example:7000/shop'')]"
    "ms_trace (snd (ms_connect quiet_driver (new_MsSqlClient (connection_string_config ''mssql''))))
       = ms_trace (new_MsSqlClient (connection_string_config ''mssql'') :: string MsSqlClient)
           @ [MsConnect (length (ms_trace (new_MsSqlClient (connection_string_config ''mssql'') :: string MsSqlClient)))
                (MsConnectionString ''db://app:pw@prod.example:7000/shop'')]"
    by blast+
  then have
    "pg_trace (snd (pg_connect quiet_driver (new_PostgresClient (connection_string_config ''postgres''))))
       = [PgNewPool 0 (PgConnectionString ''db://app:pw@prod.example:7000/shop'')]"
    "ms_trace (snd (ms_connect quiet_driver (new_MsSqlClient (connection_string_config ''mssql''))))
       = [MsConnect 0 (MsConnectionString ''db://app:pw@prod.example:7000/shop'')]"
    by (simp_all only: l append_Nil list.size)
  with h n show ?thesis by blast
qed

section \<open>The response wrapper\<close>

text \<open>A body that parses to a value other than \<^verbatim>\<open>null\<close> is parsed once and then served from the field.\<close>

lemma json_caches_non_null:
  "parsed r = Inr v \<Longrightarrow> v \<noteq> JNull \<Longrightarrow>
   json (new_ApiResponse r) = (Inr v, \<lparr>response = r, cached_body = v, parse_calls = 1\<rparr>) \<and>
   json \<lparr>response = r, cached_body = v, parse_calls = n\<rparr>
     = (Inr v, \<lparr>response = r, cached_body = v, parse_calls = n\<rparr>)"
  by (simp add: json_def new_ApiResponse_def)

text \<open>
  C8 fails on the code for a body that parses to \<^verbatim>\<open>null\<close>: the field meant to hold the
  parsed body is \<^verbatim>\<open>null\<close> both before the first call and after it, so the second call of
  \<^verbatim>\<open>json()\<close> calls the underlying \<^verbatim>\<open>response.json()\<close> again.
\<close>

theorem json_null_body_parsed_again:
  "json (new_ApiResponse null_response)
     = (Inr JNull, \<lparr>response = null_response, cached_body = JNull, parse_calls = 1\<rparr>) \<and>
   json (snd (json (new_ApiResponse null_response)))
     = (Inr JNull, \<lparr>response = null_response, cached_body = JNull, parse_calls = 2\<rparr>)"
  by (simp add: json_def new_ApiResponse_def null_response_def)

section \<open>Disconnecting\<close>

lemma pg_disconnect_state:
  "fst (pg_disconnect D this) = Inr () \<Longrightarrow>
     pg_pool (snd (pg_disconnect D this)) = None \<and> pg_client (snd (pg_disconnect D this)) = None"
  by (auto simp: pg_disconnect_def pg_call_def call_def Let_def split: option.splits if_splits)

lemma pg_disconnect_noop:
  "pg_pool this = None \<Longrightarrow> pg_client this = None \<Longrightarrow> pg_disconnect D this = (Inr (), this)"
  by (simp add: pg_disconnect_def)

lemma pg_connect_fresh:
  "pg_pool this = None \<Longrightarrow> fst (pg_connect D this) = Inr () \<Longrightarrow>
     pg_pool (snd (pg_connect D this)) = Some (length (pg_trace this))"
  by (auto simp: pg_connect_def pg_call_def call_def split: option.splits)

lemma pg_after_disconnect:
  assumes "fst (pg_disconnect D this) = Inr ()"
  shows "pg_disconnect D (snd (pg_disconnect D this)) = (Inr (), snd (pg_disconnect D this))"
    and "pg_query D sql ps (snd (pg_disconnect D this)) = (Inl not_connected, snd (pg_disconnect D this))"
    and "pg_execute D sql ps (snd (pg_disconnect D this)) = (Inl not_connected, snd (pg_disconnect D this))"
    and "fst (pg_connect D (snd (pg_disconnect D this))) = Inr () \<Longrightarrow>
         pg_pool (snd (pg_connect D (snd (pg_disconnect D this))))
           = Some (length (pg_trace (snd (pg_disconnect D this))))"
  using pg_disconnect_state [OF assms]
  by (simp_all add: pg_disconnect_noop pg_not_connected pg_connect_fresh)

lemma pg_sequence:
  assumes "never_fails D"
  shows "pg_disconnected D cfg = (new_PostgresClient cfg)\<lparr>pg_trace := [PgNewPool 0 (pg_poolConfig cfg), PgPoolEnd 0]\<rparr>"
    and "pg_pool (pg_reconnected D cfg) = Some 2"
    and "pg_trace (pg_reconnected D cfg) = [PgNewPool 0 (pg_poolConfig cfg), PgPoolEnd 0, PgNewPool 2 (pg_poolConfig cfg)]"
    and "pg_trace (snd (pg_query D sql ps (pg_reconnected D cfg)))
           = pg_trace (pg_reconnected D cfg) @ [PgQuery 2 sql ps]"
    and "\<not> isl (fst (pg_query D sql ps (pg_reconnected D cfg)))"
proof -
  from assms have f: "fails D tr e = None" for tr e
    by (simp add: never_fails_def)
  show d: "pg_disconnected D cfg = (new_PostgresClient cfg)\<lparr>pg_trace := [PgNewPool 0 (pg_poolConfig cfg), PgPoolEnd 0]\<rparr>"
    by (simp add: pg_disconnected_def pg_connected_def pg_connect_def pg_disconnect_def
        pg_call_def call_def f new_PostgresClient_def Let_def)
  show r: "pg_pool (pg_reconnected D cfg) = Some 2"
    by (simp add: pg_reconnected_def d pg_connect_def pg_call_def call_def f new_PostgresClient_def)
  show t: "pg_trace (pg_reconnected D cfg) = [PgNewPool 0 (pg_poolConfig cfg), PgPoolEnd 0, PgNewPool 2 (pg_poolConfig cfg)]"
    by (simp add: pg_reconnected_def d pg_connect_def pg_call_def call_def f new_PostgresClient_def)
  have n: "pg_isTransaction (pg_reconnected D cfg) = False"
    by (simp add: pg_reconnected_def d pg_connect_def pg_call_def call_def f new_PostgresClient_def)
  show "pg_trace (snd (pg_query D sql ps (pg_reconnected D cfg)))
           = pg_trace (pg_reconnected D cfg) @ [PgQuery 2 sql ps]"
    by (simp add: pg_query_def r n pg_call_def call_def f Let_def)
  show "\<not> isl (fst (pg_query D sql ps (pg_reconnected D cfg)))"
    by (simp add: pg_query_def r n pg_call_def call_def f Let_def)
qed

lemma my_disconnect_state:
  "fst (my_disconnect D this) = Inr () \<Longrightarrow>
     my_pool (snd (my_disconnect D this)) = None \<and> my_connection (snd (my_disconnect D this)) = None"
  by (auto simp: my_disconnect_def my_call_def call_def Let_def split: option.splits if_splits)

lemma my_disconnect_noop:
  "my_pool this = None \<Longrightarrow> my_connection this = None \<Longrightarrow> my_disconnect D this = (Inr (), this)"
  by (simp add: my_disconnect_def)

lemma my_connect_fresh:
  "my_pool this = None \<Longrightarrow> fst (my_connect D this) = Inr () \<Longrightarrow>
     my_pool (snd (my_connect D this)) = Some (length (my_trace this))"
  by (auto simp: my_connect_def my_call_def call_def split: option.splits)

lemma my_after_disconnect:
  assumes "fst (my_disconnect D this) = Inr ()"
  shows "my_disconnect D (snd (my_disconnect D this)) = (Inr (), snd (my_disconnect D this))"
    and "my_query D sql ps (snd (my_disconnect D this)) = (Inl not_connected, snd (my_disconnect D this))"
    and "my_execute D sql ps (snd (my_disconnect D this)) = (Inl not_connected, snd (my_disconnect D this))"
    and "fst (my_connect D (snd (my_disconnect D this))) = Inr () \<Longrightarrow>
         my_pool (snd (my_connect D (snd (my_disconnect D this))))
           = Some (length (my_trace (snd (my_disconnect D this))))"
  using my_disconnect_state [OF assms]
  by (simp_all add: my_disconnect_noop my_not_connected my_connect_fresh)

lemma my_sequence:
  assumes "never_fails D"
  shows "my_disconnected D cfg = (new_MySqlClient cfg)\<lparr>my_trace := [MyCreatePool 0 (my_poolOptions cfg), MyPoolEnd 0]\<rparr>"
    and "my_pool (my_reconnected D cfg) = Some 2"
    and "my_trace (my_reconnected D cfg) = [MyCreatePool 0 (my_poolOptions cfg), MyPoolEnd 0, MyCreatePool 2 (my_poolOptions cfg)]"
    and "my_trace (snd (my_query D sql ps (my_reconnected D cfg)))
           = my_trace (my_reconnected D cfg) @ [MyExecute 2 sql ps]"
    and "\<not> isl (fst (my_query D sql ps (my_reconnected D cfg)))"
proof -
  from assms have f: "fails D tr e = None" for tr e
    by (simp add: never_fails_def)
  show d: "my_disconnected D cfg = (new_MySqlClient cfg)\<lparr>my_trace := [MyCreatePool 0 (my_poolOptions cfg), MyPoolEnd 0]\<rparr>"
    by (simp add: my_disconnected_def my_connected_def my_connect_def my_disconnect_def
        my_call_def call_def f new_MySqlClient_def Let_def)
  show r: "my_pool (my_reconnected D cfg) = Some 2"
    by (simp add: my_reconnected_def d my_connect_def my_call_def call_def f new_MySqlClient_def)
  show t: "my_trace (my_reconnected D cfg) = [MyCreatePool 0 (my_poolOptions cfg), MyPoolEnd 0, MyCreatePool 2 (my_poolOptions cfg)]"
    by (simp add: my_reconnected_def d my_connect_def my_call_def call_def f new_MySqlClient_def)
  have n: "my_isTransaction (my_reconnected D cfg) = False"
    by (simp add: my_reconnected_def d my_connect_def my_call_def call_def f new_MySqlClient_def)
  show "my_trace (snd (my_query D sql ps (my_reconnected D cfg)))
           = my_trace (my_reconnected D cfg) @ [MyExecute 2 sql ps]"
    by (simp add: my_query_def r n my_call_def call_def f Let_def)
  show "\<not> isl (fst (my_query D sql ps (my_reconnected D cfg)))"
    by (simp add: my_query_def r n my_call_def call_def f Let_def)
qed

lemma ms_disconnect_state:
  "fst (ms_disconnect D this) = Inr () \<Longrightarrow>
     ms_pool (snd (ms_disconnect D this)) = None \<and> ms_currentTransaction (snd (ms_disconnect D this)) = None"
  by (auto simp: ms_disconnect_def ms_call_def call_def Let_def split: option.splits if_splits)

lemma ms_disconnect_noop:
  "ms_pool this = None \<Longrightarrow> ms_currentTransaction this = None \<Longrightarrow> ms_disconnect D this = (Inr (), this)"
  by (simp add: ms_disconnect_def)

lemma ms_connect_fresh:
  "ms_pool this = None \<Longrightarrow> fst (ms_connect D this) = Inr () \<Longrightarrow>
     ms_pool (snd (ms_connect D this)) = Some (length (ms_trace this))"
  by (auto simp: ms_connect_def ms_call_def call_def split: option.splits)

lemma ms_after_disconnect:
  assumes "fst (ms_disconnect D this) = Inr ()"
  shows "ms_disconnect D (snd (ms_disconnect D this)) = (Inr (), snd (ms_disconnect D this))"
    and "ms_query D sql ps (snd (ms_disconnect D this)) = (Inl not_connected, snd (ms_disconnect D this))"
    and "ms_execute D sql ps (snd (ms_disconnect D this)) = (Inl not_connected, snd (ms_disconnect D this))"
    and "fst (ms_connect D (snd (ms_disconnect D this))) = Inr () \<Longrightarrow>
         ms_pool (snd (ms_connect D (snd (ms_disconnect D this))))
           = Some (length (ms_trace (snd (ms_disconnect D this))))"
  using ms_disconnect_state [OF assms]
  by (simp_all add: ms_disconnect_noop ms_not_connected ms_connect_fresh)

lemma ms_sequence:
  assumes "never_fails D"
  shows "ms_disconnected D cfg = (new_MsSqlClient cfg)\<lparr>ms_trace := [MsConnect 0 (ms_sqlConfig cfg), MsPoolClose 0]\<rparr>"
    and "ms_pool (ms_reconnected D cfg) = Some 2"
    and "ms_trace (ms_reconnected D cfg) = [MsConnect 0 (ms_sqlConfig cfg), MsPoolClose 0, MsConnect 2 (ms_sqlConfig cfg)]"
    and "ms_trace (snd (ms_query D sql ps (ms_reconnected D cfg)))
           = ms_trace (ms_reconnected D cfg) @ [MsRequestQuery (Some 2) (inputs (convertParams \<lparr>parent = Some 2, inputs = []\<rparr> ps)) (convertSql sql ps)]"
    and "\<not> isl (fst (ms_query D sql ps (ms_reconnected D cfg)))"
proof -
  from assms have f: "fails D tr e = None" for tr e
    by (simp add: never_fails_def)
  show d: "ms_disconnected D cfg = (new_MsSqlClient cfg)\<lparr>ms_trace := [MsConnect 0 (ms_sqlConfig cfg), MsPoolClose 0]\<rparr>"
    by (simp add: ms_disconnected_def ms_connected_def ms_connect_def ms_disconnect_def
        ms_call_def call_def f new_MsSqlClient_def Let_def)
  show r: "ms_pool (ms_reconnected D cfg) = Some 2"
    by (simp add: ms_reconnected_def d ms_connect_def ms_call_def call_def f new_MsSqlClient_def)
  show t: "ms_trace (ms_reconnected D cfg) = [MsConnect 0 (ms_sqlConfig cfg), MsPoolClose 0, MsConnect 2 (ms_sqlConfig cfg)]"
    by (simp add: ms_reconnected_def d ms_connect_def ms_call_def call_def f new_MsSqlClient_def)
  have n: "ms_isTransaction (ms_reconnected D cfg) = False"
    by (simp add: ms_reconnected_def d ms_connect_def ms_call_def call_def f new_MsSqlClient_def)
  show "ms_trace (snd (ms_query D sql ps (ms_reconnected D cfg)))
           = ms_trace (ms_reconnected D cfg) @ [MsRequestQuery (Some 2) (inputs (convertParams \<lparr>parent = Some 2, inputs = []\<rparr> ps)) (convertSql sql ps)]"
    by (simp add: ms_query_def r n ms_call_def call_def f Let_def)
  show "\<not> isl (fst (ms_query D sql ps (ms_reconnected D cfg)))"
    by (simp add: ms_query_def r n ms_call_def call_def f Let_def)
qed

lemma sq_disconnect_state:
  "fst (sq_disconnect D this) = Inr () \<Longrightarrow>
     sq_db (snd (sq_disconnect D this)) = None"
  by (auto simp: sq_disconnect_def sq_call_def call_def Let_def split: option.splits if_splits)

lemma sq_disconnect_noop:
  "sq_db this = None \<Longrightarrow> sq_disconnect D this = (Inr (), this)"
  by (simp add: sq_disconnect_def)

lemma sq_connect_fresh:
  "sq_db this = None \<Longrightarrow> fst (sq_connect D this) = Inr () \<Longrightarrow>
     sq_db (snd (sq_connect D this)) = Some (length (sq_trace this))"
  by (auto simp: sq_connect_def sq_call_def call_def split: option.splits)

lemma sq_after_disconnect:
  assumes "fst (sq_disconnect D this) = Inr ()"
  shows "sq_disconnect D (snd (sq_disconnect D this)) = (Inr (), snd (sq_disconnect D this))"
    and "sq_query D sql ps (snd (sq_disconnect D this)) = (Inl not_connected, snd (sq_disconnect D this))"
    and "sq_execute D sql ps (snd (sq_disconnect D this)) = (Inl not_connected, snd (sq_disconnect D this))"
    and "fst (sq_connect D (snd (sq_disconnect D this))) = Inr () \<Longrightarrow>
         sq_db (snd (sq_connect D (snd (sq_disconnect D this))))
           = Some (length (sq_trace (snd (sq_disconnect D this))))"
  using sq_disconnect_state [OF assms]
  by (simp_all add: sq_disconnect_noop sq_not_connected sq_connect_fresh)

lemma sq_sequence:
  assumes "never_fails D"
  shows "sq_disconnected D cfg = (new_SqliteClient cfg)\<lparr>sq_trace := [SqNewDatabase 0 (sq_filePath cfg), SqClose 0]\<rparr>"
    and "sq_db (sq_reconnected D cfg) = Some 2"
    and "sq_trace (sq_reconnected D cfg) = [SqNewDatabase 0 (sq_filePath cfg), SqClose 0, SqNewDatabase 2 (sq_filePath cfg)]"
    and "sq_trace (snd (sq_query D sql ps (sq_reconnected D cfg)))
           = sq_trace (sq_reconnected D cfg) @ [SqPrepare 2 sql, SqAll 2 sql (spread_params ps)]"
    and "\<not> isl (fst (sq_query D sql ps (sq_reconnected D cfg)))"
proof -
  from assms have f: "fails D tr e = None" for tr e
    by (simp add: never_fails_def)
  show d: "sq_disconnected D cfg = (new_SqliteClient cfg)\<lparr>sq_trace := [SqNewDatabase 0 (sq_filePath cfg), SqClose 0]\<rparr>"
    by (simp add: sq_disconnected_def sq_connected_def sq_connect_def sq_disconnect_def
        sq_call_def call_def f new_SqliteClient_def Let_def)
  show r: "sq_db (sq_reconnected D cfg) = Some 2"
    by (simp add: sq_reconnected_def d sq_connect_def sq_call_def call_def f new_SqliteClient_def)
  show t: "sq_trace (sq_reconnected D cfg) = [SqNewDatabase 0 (sq_filePath cfg), SqClose 0, SqNewDatabase 2 (sq_filePath cfg)]"
    by (simp add: sq_reconnected_def d sq_connect_def sq_call_def call_def f new_SqliteClient_def)
  have n: "sq_db (sq_reconnected D cfg) = Some 2"
    by (simp add: sq_reconnected_def d sq_connect_def sq_call_def call_def f new_SqliteClient_def)
  show "sq_trace (snd (sq_query D sql ps (sq_reconnected D cfg)))
           = sq_trace (sq_reconnected D cfg) @ [SqPrepare 2 sql, SqAll 2 sql (spread_params ps)]"
    by (simp add: sq_query_def r n sq_call_def call_def f Let_def)
  show "\<not> isl (fst (sq_query D sql ps (sq_reconnected D cfg)))"
    by (simp add: sq_query_def r n sq_call_def call_def f Let_def)
qed

text \<open>
  What holds on each of the four clients whatever the state: once \<^verbatim>\<open>disconnect\<close> has
  returned, a second \<^verbatim>\<open>disconnect\<close> returns without a driver call and without a change,
  \<^verbatim>\<open>query\<close> and \<^verbatim>\<open>execute\<close> fail with the not-connected error, and a \<^verbatim>\<open>connect\<close> that
  succeeds sets up a pool (a database handle) made by a new driver call. And on a new
  instance, with a driver whose calls succeed: \<^verbatim>\<open>connect\<close> followed by \<^verbatim>\<open>disconnect\<close> gives
  back the initial state (the trace of driver calls apart), and after a further
  \<^verbatim>\<open>connect\<close> a \<^verbatim>\<open>query\<close> is sent to the driver on the new pool and returns normally.
\<close>

lemma disconnect_then_reconnect:
  "(fst (pg_disconnect D pg) = Inr () \<longrightarrow>
      pg_disconnect D (snd (pg_disconnect D pg)) = (Inr (), snd (pg_disconnect D pg)) \<and>
      pg_query D sql ps (snd (pg_disconnect D pg)) = (Inl not_connected, snd (pg_disconnect D pg)) \<and>
      pg_execute D sql ps (snd (pg_disconnect D pg)) = (Inl not_connected, snd (pg_disconnect D pg)) \<and>
      (fst (pg_connect D (snd (pg_disconnect D pg))) = Inr () \<longrightarrow>
         pg_pool (snd (pg_connect D (snd (pg_disconnect D pg)))) = Some (length (pg_trace (snd (pg_disconnect D pg)))))) \<and>
   (fst (my_disconnect D my) = Inr () \<longrightarrow>
      my_disconnect D (snd (my_disconnect D my)) = (Inr (), snd (my_disconnect D my)) \<and>
      my_query D sql ps (snd (my_disconnect D my)) = (Inl not_connected, snd (my_disconnect D my)) \<and>
      my_execute D sql ps (snd (my_disconnect D my)) = (Inl not_connected, snd (my_disconnect D my)) \<and>
      (fst (my_connect D (snd (my_disconnect D my))) = Inr () \<longrightarrow>
         my_pool (snd (my_connect D (snd (my_disconnect D my)))) = Some (length (my_trace (snd (my_disconnect D my)))))) \<and>
   (fst (ms_disconnect D ms) = Inr () \<longrightarrow>
      ms_disconnect D (snd (ms_disconnect D ms)) = (Inr (), snd (ms_disconnect D ms)) \<and>
      ms_query D sql ps (snd (ms_disconnect D ms)) = (Inl not_connected, snd (ms_disconnect D ms)) \<and>
      ms_execute D sql ps (snd (ms_disconnect D ms)) = (Inl not_connected, snd (ms_disconnect D ms)) \<and>
      (fst (ms_connect D (snd (ms_disconnect D ms))) = Inr () \<longrightarrow>
         ms_pool (snd (ms_connect D (snd (ms_disconnect D ms)))) = Some (length (ms_trace (snd (ms_disconnect D ms)))))) \<and>
   (fst (sq_disconnect D sq) = Inr () \<longrightarrow>
      sq_disconnect D (snd (sq_disconnect D sq)) = (Inr (), snd (sq_disconnect D sq)) \<and>
      sq_query D sql ps (snd (sq_disconnect D sq)) = (Inl not_connected, snd (sq_disconnect D sq)) \<and>
      sq_execute D sql ps (snd (sq_disconnect D sq)) = (Inl not_connected, snd (sq_disconnect D sq)) \<and>
      (fst (sq_connect D (snd (sq_disconnect D sq))) = Inr () \<longrightarrow>
         sq_db (snd (sq_connect D (snd (sq_disconnect D sq)))) = Some (length (sq_trace (snd (sq_disconnect D sq)))))) \<and>
   (never_fails D \<longrightarrow>
      pg_disconnected D cfg = (new_PostgresClient cfg)\<lparr>pg_trace := [PgNewPool 0 (pg_poolConfig cfg), PgPoolEnd 0]\<rparr> \<and>
      pg_pool (pg_reconnected D cfg) = Some 2 \<and>
      pg_trace (snd (pg_query D sql ps (pg_reconnected D cfg)))
        = [PgNewPool 0 (pg_poolConfig cfg), PgPoolEnd 0, PgNewPool 2 (pg_poolConfig cfg)] @ [PgQuery 2 sql ps] \<and>
      \<not> isl (fst (pg_query D sql ps (pg_reconnected D cfg)))) \<and>
   (never_fails D \<longrightarrow>
      my_disconnected D cfg = (new_MySqlClient cfg)\<lparr>my_trace := [MyCreatePool 0 (my_poolOptions cfg), MyPoolEnd 0]\<rparr> \<and>
      my_pool (my_reconnected D cfg) = Some 2 \<and>
      my_trace (snd (my_query D sql ps (my_reconnected D cfg)))
        = [MyCreatePool 0 (my_poolOptions cfg), MyPoolEnd 0, MyCreatePool 2 (my_poolOptions cfg)] @ [MyExecute 2 sql ps] \<and>
      \<not> isl (fst (my_query D sql ps (my_reconnected D cfg)))) \<and>
   (never_fails D \<longrightarrow>
      ms_disconnected D cfg = (new_MsSqlClient cfg)\<lparr>ms_trace := [MsConnect 0 (ms_sqlConfig cfg), MsPoolClose 0]\<rparr> \<and>
      ms_pool (ms_reconnected D cfg) = Some 2 \<and>
      ms_trace (snd (ms_query D sql ps (ms_reconnected D cfg)))
        = [MsConnect 0 (ms_sqlConfig cfg), MsPoolClose 0, MsConnect 2 (ms_sqlConfig cfg)] @ [MsRequestQuery (Some 2) (inputs (convertParams \<lparr>parent = Some 2, inputs = []\<rparr> ps)) (convertSql sql ps)] \<and>
      \<not> isl (fst (ms_query D sql ps (ms_reconnected D cfg)))) \<and>
   (never_fails D \<longrightarrow>
      sq_disconnected D cfg = (new_SqliteClient cfg)\<lparr>sq_trace := [SqNewDatabase 0 (sq_filePath cfg), SqClose 0]\<rparr> \<and>
      sq_db (sq_reconnected D cfg) = Some 2 \<and>
      sq_trace (snd (sq_query D sql ps (sq_reconnected D cfg)))
        = [SqNewDatabase 0 (sq_filePath cfg), SqClose 0, SqNewDatabase 2 (sq_filePath cfg)] @ [SqPrepare 2 sql, SqAll 2 sql (spread_params ps)] \<and>
      \<not> isl (fst (sq_query D sql ps (sq_reconnected D cfg))))"
proof -
  note pg_after_disconnect [of D pg, simp] pg_sequence [of D, simp]
  note my_after_disconnect [of D my, simp] my_sequence [of D, simp]
  note ms_after_disconnect [of D ms, simp] ms_sequence [of D, simp]
  note sq_after_disconnect [of D sq, simp] sq_sequence [of D, simp]
  show ?thesis by simp
qed

text \<open>
  Outside a transaction (the transaction flag is not set), on the three pooled clients:
  after a \<^verbatim>\<open>disconnect\<close> that returns, the fields are those of a new instance, and after a
  \<^verbatim>\<open>connect\<close> that succeeds a \<^verbatim>\<open>query\<close> is sent to the driver on the new pool. Neither
  \<^verbatim>\<open>disconnect\<close> nor \<^verbatim>\<open>connect\<close> writes the transaction flag.
\<close>

lemma pg_disconnect_flag:
  "pg_isTransaction (snd (pg_disconnect D this)) = pg_isTransaction this"
  by (auto simp: pg_disconnect_def pg_call_def call_def Let_def split: option.splits)

lemma pg_connect_flag:
  "pg_isTransaction (snd (pg_connect D this)) = pg_isTransaction this"
  by (auto simp: pg_connect_def pg_call_def call_def split: option.splits)

lemma pg_disconnect_config:
  "pg_config (snd (pg_disconnect D this)) = pg_config this"
  by (auto simp: pg_disconnect_def pg_call_def call_def Let_def split: option.splits)

lemma pg_query_routed:
  "pg_pool this = Some p \<Longrightarrow> \<not> pg_isTransaction this \<Longrightarrow>
     pg_trace (snd (pg_query D sql ps this)) = pg_trace this @ [PgQuery p sql ps]"
  by (auto simp: pg_query_def pg_call_def call_def Let_def split: option.splits)

lemma pg_disconnect_initial:
  assumes "\<not> pg_isTransaction this" and "fst (pg_disconnect D this) = Inr ()"
  shows "snd (pg_disconnect D this)
           = (new_PostgresClient (pg_config this))\<lparr>pg_trace := pg_trace (snd (pg_disconnect D this))\<rparr>"
  using assms(1) pg_disconnect_state [OF assms(2)] pg_disconnect_flag [of D this]
    pg_disconnect_config [of D this]
  by (simp add: new_PostgresClient_def)

lemma pg_reconnect_usable:
  assumes "\<not> pg_isTransaction this" and "fst (pg_disconnect D this) = Inr ()"
    and "fst (pg_connect D (snd (pg_disconnect D this))) = Inr ()"
  shows "pg_trace (snd (pg_query D sql ps (snd (pg_connect D (snd (pg_disconnect D this))))))
           = pg_trace (snd (pg_connect D (snd (pg_disconnect D this)))) @ [PgQuery (length (pg_trace (snd (pg_disconnect D this)))) sql ps]"
proof -
  have "pg_pool (snd (pg_disconnect D this)) = None"
    using pg_disconnect_state [OF assms(2)] by simp
  then have "pg_pool (snd (pg_connect D (snd (pg_disconnect D this)))) = Some (length (pg_trace (snd (pg_disconnect D this))))"
    using assms(3) by (rule pg_connect_fresh)
  moreover have "\<not> pg_isTransaction (snd (pg_connect D (snd (pg_disconnect D this))))"
    using assms(1) by (simp add: pg_connect_flag pg_disconnect_flag)
  ultimately show ?thesis
    by (rule pg_query_routed)
qed

lemma my_disconnect_flag:
  "my_isTransaction (snd (my_disconnect D this)) = my_isTransaction this"
  by (auto simp: my_disconnect_def my_call_def call_def Let_def split: option.splits)

lemma my_connect_flag:
  "my_isTransaction (snd (my_connect D this)) = my_isTransaction this"
  by (auto simp: my_connect_def my_call_def call_def split: option.splits)

lemma my_disconnect_config:
  "my_config (snd (my_disconnect D this)) = my_config this"
  by (auto simp: my_disconnect_def my_call_def call_def Let_def split: option.splits)

lemma my_query_routed:
  "my_pool this = Some p \<Longrightarrow> \<not> my_isTransaction this \<Longrightarrow>
     my_trace (snd (my_query D sql ps this)) = my_trace this @ [MyExecute p sql ps]"
  by (auto simp: my_query_def my_call_def call_def Let_def split: option.splits)

lemma my_disconnect_initial:
  assumes "\<not> my_isTransaction this" and "fst (my_disconnect D this) = Inr ()"
  shows "snd (my_disconnect D this)
           = (new_MySqlClient (my_config this))\<lparr>my_trace := my_trace (snd (my_disconnect D this))\<rparr>"
  using assms(1) my_disconnect_state [OF assms(2)] my_disconnect_flag [of D this]
    my_disconnect_config [of D this]
  by (simp add: new_MySqlClient_def)

lemma my_reconnect_usable:
  assumes "\<not> my_isTransaction this" and "fst (my_disconnect D this) = Inr ()"
    and "fst (my_connect D (snd (my_disconnect D this))) = Inr ()"
  shows "my_trace (snd (my_query D sql ps (snd (my_connect D (snd (my_disconnect D this))))))
           = my_trace (snd (my_connect D (snd (my_disconnect D this)))) @ [MyExecute (length (my_trace (snd (my_disconnect D this)))) sql ps]"
proof -
  have "my_pool (snd (my_disconnect D this)) = None"
    using my_disconnect_state [OF assms(2)] by simp
  then have "my_pool (snd (my_connect D (snd (my_disconnect D this)))) = Some (length (my_trace (snd (my_disconnect D this))))"
    using assms(3) by (rule my_connect_fresh)
  moreover have "\<not> my_isTransaction (snd (my_connect D (snd (my_disconnect D this))))"
    using assms(1) by (simp add: my_connect_flag my_disconnect_flag)
  ultimately show ?thesis
    by (rule my_query_routed)
qed

lemma ms_disconnect_flag:
  "ms_isTransaction (snd (ms_disconnect D this)) = ms_isTransaction this"
  by (auto simp: ms_disconnect_def ms_call_def call_def Let_def split: option.splits)

lemma ms_connect_flag:
  "ms_isTransaction (snd (ms_connect D this)) = ms_isTransaction this"
  by (auto simp: ms_connect_def ms_call_def call_def split: option.splits)

lemma ms_disconnect_config:
  "ms_config (snd (ms_disconnect D this)) = ms_config this"
  by (auto simp: ms_disconnect_def ms_call_def call_def Let_def split: option.splits)

lemma ms_query_routed:
  "ms_pool this = Some p \<Longrightarrow> \<not> ms_isTransaction this \<Longrightarrow>
     ms_trace (snd (ms_query D sql ps this)) = ms_trace this @ [MsRequestQuery (Some p) (inputs (convertParams \<lparr>parent = Some p, inputs = []\<rparr> ps)) (convertSql sql ps)]"
  by (auto simp: ms_query_def ms_call_def call_def Let_def split: option.splits)

lemma ms_disconnect_initial:
  assumes "\<not> ms_isTransaction this" and "fst (ms_disconnect D this) = Inr ()"
  shows "snd (ms_disconnect D this)
           = (new_MsSqlClient (ms_config this))\<lparr>ms_trace := ms_trace (snd (ms_disconnect D this))\<rparr>"
  using assms(1) ms_disconnect_state [OF assms(2)] ms_disconnect_flag [of D this]
    ms_disconnect_config [of D this]
  by (simp add: new_MsSqlClient_def)

lemma ms_reconnect_usable:
  assumes "\<not> ms_isTransaction this" and "fst (ms_disconnect D this) = Inr ()"
    and "fst (ms_connect D (snd (ms_disconnect D this))) = Inr ()"
  shows "ms_trace (snd (ms_query D sql ps (snd (ms_connect D (snd (ms_disconnect D this))))))
           = ms_trace (snd (ms_connect D (snd (ms_disconnect D this)))) @ [MsRequestQuery (Some (length (ms_trace (snd (ms_disconnect D this))))) (inputs (convertParams \<lparr>parent = Some (length (ms_trace (snd (ms_disconnect D this)))), inputs = []\<rparr> ps)) (convertSql sql ps)]"
proof -
  have "ms_pool (snd (ms_disconnect D this)) = None"
    using ms_disconnect_state [OF assms(2)] by simp
  then have "ms_pool (snd (ms_connect D (snd (ms_disconnect D this)))) = Some (length (ms_trace (snd (ms_disconnect D this))))"
    using assms(3) by (rule ms_connect_fresh)
  moreover have "\<not> ms_isTransaction (snd (ms_connect D (snd (ms_disconnect D this))))"
    using assms(1) by (simp add: ms_connect_flag ms_disconnect_flag)
  ultimately show ?thesis
    by (rule ms_query_routed)
qed

section \<open>Transactions\<close>

lemma reliable_quiet_driver [simp]: "reliable quiet_driver e"
  by (simp add: reliable_def quiet_driver_def)

lemma pg_transaction_cleanup:
  assumes "pg_pool this = Some p"
    and "reliable D (PgPoolConnect p (length (pg_trace this)))"
    and "reliable D (PgRelease (length (pg_trace this)))"
    and "await_call fn (pg_begun p this) = (rb, sb)"
    and "pg_client sb = Some (length (pg_trace this))"
  shows "pg_client (snd (pg_transaction D fn this)) = None \<and>
         \<not> pg_isTransaction (snd (pg_transaction D fn this)) \<and>
         last (pg_trace (snd (pg_transaction D fn this))) = PgRelease (length (pg_trace this))"
  using assms
  by (auto simp: pg_transaction_def pg_try_def pg_catch_def pg_finally_def pg_client_query_def pg_call_def call_def reliable_def pg_begun_def
      split: option.splits sum.splits prod.splits)

lemma pg_transaction_commits:
  assumes "pg_pool this = Some p"
    and "reliable D (PgPoolConnect p (length (pg_trace this)))"
    and "reliable D (PgRelease (length (pg_trace this)))"
    and "await_call fn (pg_begun p this) = (rb, sb)"
    and "pg_client sb = Some (length (pg_trace this))"
    and "reliable D (PgQuery (length (pg_trace this)) ''BEGIN'' None)"
    and "reliable D (PgQuery (length (pg_trace this)) ''COMMIT'' None)"
    and "rb = Inr v"
  shows "pg_transaction D fn this =
           (Inr v, sb\<lparr>pg_client := None, pg_isTransaction := False,
                       pg_trace := pg_trace sb @ [PgQuery (length (pg_trace this)) ''COMMIT'' None, PgRelease (length (pg_trace this))]\<rparr>)"
  using assms
  by (simp add: pg_transaction_def pg_try_def pg_catch_def pg_finally_def pg_client_query_def pg_call_def call_def reliable_def pg_begun_def)

lemma pg_transaction_rolls_back:
  assumes "pg_pool this = Some p"
    and "reliable D (PgPoolConnect p (length (pg_trace this)))"
    and "reliable D (PgRelease (length (pg_trace this)))"
    and "await_call fn (pg_begun p this) = (rb, sb)"
    and "pg_client sb = Some (length (pg_trace this))"
    and "reliable D (PgQuery (length (pg_trace this)) ''BEGIN'' None)"
    and "reliable D (PgQuery (length (pg_trace this)) ''ROLLBACK'' None)"
    and "rb = Inl e"
  shows "pg_transaction D fn this =
           (Inl e, sb\<lparr>pg_client := None, pg_isTransaction := False,
                       pg_trace := pg_trace sb @ [PgQuery (length (pg_trace this)) ''ROLLBACK'' None, PgRelease (length (pg_trace this))]\<rparr>)"
  using assms
  by (simp add: pg_transaction_def pg_try_def pg_catch_def pg_finally_def pg_client_query_def pg_call_def call_def reliable_def pg_begun_def)

lemma my_transaction_cleanup:
  assumes "my_pool this = Some p"
    and "reliable D (MyGetConnection p (length (my_trace this)))"
    and "reliable D (MyRelease (length (my_trace this)))"
    and "await_call fn (my_begun p this) = (rb, sb)"
    and "my_connection sb = Some (length (my_trace this))"
  shows "my_connection (snd (my_transaction D fn this)) = None \<and>
         \<not> my_isTransaction (snd (my_transaction D fn this)) \<and>
         last (my_trace (snd (my_transaction D fn this))) = MyRelease (length (my_trace this))"
  using assms
  by (auto simp: my_transaction_def my_try_def my_catch_def my_finally_def my_connection_call_def my_call_def call_def reliable_def my_begun_def
      split: option.splits sum.splits prod.splits)

lemma my_transaction_commits:
  assumes "my_pool this = Some p"
    and "reliable D (MyGetConnection p (length (my_trace this)))"
    and "reliable D (MyRelease (length (my_trace this)))"
    and "await_call fn (my_begun p this) = (rb, sb)"
    and "my_connection sb = Some (length (my_trace this))"
    and "reliable D (MyBeginTransaction (length (my_trace this)))"
    and "reliable D (MyCommit (length (my_trace this)))"
    and "rb = Inr v"
  shows "my_transaction D fn this =
           (Inr v, sb\<lparr>my_connection := None, my_isTransaction := False,
                       my_trace := my_trace sb @ [MyCommit (length (my_trace this)), MyRelease (length (my_trace this))]\<rparr>)"
  using assms
  by (simp add: my_transaction_def my_try_def my_catch_def my_finally_def my_connection_call_def my_call_def call_def reliable_def my_begun_def)

lemma my_transaction_rolls_back:
  assumes "my_pool this = Some p"
    and "reliable D (MyGetConnection p (length (my_trace this)))"
    and "reliable D (MyRelease (length (my_trace this)))"
    and "await_call fn (my_begun p this) = (rb, sb)"
    and "my_connection sb = Some (length (my_trace this))"
    and "reliable D (MyBeginTransaction (length (my_trace this)))"
    and "reliable D (MyRollback (length (my_trace this)))"
    and "rb = Inl e"
  shows "my_transaction D fn this =
           (Inl e, sb\<lparr>my_connection := None, my_isTransaction := False,
                       my_trace := my_trace sb @ [MyRollback (length (my_trace this)), MyRelease (length (my_trace this))]\<rparr>)"
  using assms
  by (simp add: my_transaction_def my_try_def my_catch_def my_finally_def my_connection_call_def my_call_def call_def reliable_def my_begun_def)

lemma ms_transaction_cleanup:
  assumes "ms_pool this = Some p"
  shows "ms_currentTransaction (snd (ms_transaction D fn this)) = None \<and>
         \<not> ms_isTransaction (snd (ms_transaction D fn this))"
  using assms
  by (auto simp: ms_transaction_def ms_try_def ms_catch_def ms_finally_def ms_transaction_call_def ms_call_def call_def reliable_def ms_begun_def
      split: option.splits sum.splits prod.splits)

lemma ms_transaction_commits:
  assumes "ms_pool this = Some p"
    and "await_call fn (ms_begun p this) = (rb, sb)"
    and "ms_currentTransaction sb = Some (length (ms_trace this))"
    and "reliable D (MsBegin (length (ms_trace this)))"
    and "reliable D (MsCommit (length (ms_trace this)))"
    and "rb = Inr v"
  shows "ms_transaction D fn this =
           (Inr v, sb\<lparr>ms_currentTransaction := None, ms_isTransaction := False,
                       ms_trace := ms_trace sb @ [MsCommit (length (ms_trace this))]\<rparr>)"
  using assms
  by (simp add: ms_transaction_def ms_try_def ms_catch_def ms_finally_def ms_transaction_call_def ms_call_def call_def reliable_def ms_begun_def)

lemma ms_transaction_rolls_back:
  assumes "ms_pool this = Some p"
    and "await_call fn (ms_begun p this) = (rb, sb)"
    and "ms_currentTransaction sb = Some (length (ms_trace this))"
    and "reliable D (MsBegin (length (ms_trace this)))"
    and "reliable D (MsRollback (length (ms_trace this)))"
    and "rb = Inl e"
  shows "ms_transaction D fn this =
           (Inl e, sb\<lparr>ms_currentTransaction := None, ms_isTransaction := False,
                       ms_trace := ms_trace sb @ [MsRollback (length (ms_trace this))]\<rparr>)"
  using assms
  by (simp add: ms_transaction_def ms_try_def ms_catch_def ms_finally_def ms_transaction_call_def ms_call_def call_def reliable_def ms_begun_def)

text \<open>
  C3, amended. For the PostgreSQL, the MySQL and the SQL-Server client, on a connected
  instance, when the handle is acquired and released without failure and the body leaves
  the transaction slot holding that handle: the slot is cleared and the transaction flag
  reset when \<^verbatim>\<open>transaction\<close> returns or throws, the release of the handle being the last
  driver call (the SQL-Server client has no release call); when moreover the begin and
  the commit succeed and the body returns a value, \<^verbatim>\<open>transaction\<close> commits after the body
  and returns that value; when the begin and the rollback succeed and the body throws,
  \<^verbatim>\<open>transaction\<close> rolls back after the body and throws the same error.
\<close>

theorem transaction_commit_rollback_release:
  "(pg_pool pg = Some p \<and>
    reliable D (PgPoolConnect p (length (pg_trace pg))) \<and>
    reliable D (PgRelease (length (pg_trace pg))) \<and>
    await_call pg_fn (pg_begun p pg) = (pg_r, pg_s) \<and>
    pg_client pg_s = Some (length (pg_trace pg)) \<longrightarrow>
      (pg_client (snd (pg_transaction D pg_fn pg)) = None \<and>
       \<not> pg_isTransaction (snd (pg_transaction D pg_fn pg)) \<and>
       last (pg_trace (snd (pg_transaction D pg_fn pg))) = PgRelease (length (pg_trace pg))) \<and>
      (reliable D (PgQuery (length (pg_trace pg)) ''BEGIN'' None) \<and> reliable D (PgQuery (length (pg_trace pg)) ''COMMIT'' None) \<and> pg_r = Inr v \<longrightarrow>
         pg_transaction D pg_fn pg =
           (Inr v, pg_s\<lparr>pg_client := None, pg_isTransaction := False,
                    pg_trace := pg_trace pg_s @ [PgQuery (length (pg_trace pg)) ''COMMIT'' None, PgRelease (length (pg_trace pg))]\<rparr>)) \<and>
      (reliable D (PgQuery (length (pg_trace pg)) ''BEGIN'' None) \<and> reliable D (PgQuery (length (pg_trace pg)) ''ROLLBACK'' None) \<and> pg_r = Inl e \<longrightarrow>
         pg_transaction D pg_fn pg =
           (Inl e, pg_s\<lparr>pg_client := None, pg_isTransaction := False,
                    pg_trace := pg_trace pg_s @ [PgQuery (length (pg_trace pg)) ''ROLLBACK'' None, PgRelease (length (pg_trace pg))]\<rparr>))) \<and>
   (my_pool my = Some p \<and>
    reliable D (MyGetConnection p (length (my_trace my))) \<and>
    reliable D (MyRelease (length (my_trace my))) \<and>
    await_call my_fn (my_begun p my) = (my_r, my_s) \<and>
    my_connection my_s = Some (length (my_trace my)) \<longrightarrow>
      (my_connection (snd (my_transaction D my_fn my)) = None \<and>
       \<not> my_isTransaction (snd (my_transaction D my_fn my)) \<and>
       last (my_trace (snd (my_transaction D my_fn my))) = MyRelease (length (my_trace my))) \<and>
      (reliable D (MyBeginTransaction (length (my_trace my))) \<and> reliable D (MyCommit (length (my_trace my))) \<and> my_r = Inr v \<longrightarrow>
         my_transaction D my_fn my =
           (Inr v, my_s\<lparr>my_connection := None, my_isTransaction := False,
                    my_trace := my_trace my_s @ [MyCommit (length (my_trace my)), MyRelease (length (my_trace my))]\<rparr>)) \<and>
      (reliable D (MyBeginTransaction (length (my_trace my))) \<and> reliable D (MyRollback (length (my_trace my))) \<and> my_r = Inl e \<longrightarrow>
         my_transaction D my_fn my =
           (Inl e, my_s\<lparr>my_connection := None, my_isTransaction := False,
                    my_trace := my_trace my_s @ [MyRollback (length (my_trace my)), MyRelease (length (my_trace my))]\<rparr>))) \<and>
   (ms_pool ms = Some p \<and>
    await_call ms_fn (ms_begun p ms) = (ms_r, ms_s) \<and>
    ms_currentTransaction ms_s = Some (length (ms_trace ms)) \<longrightarrow>
      (ms_currentTransaction (snd (ms_transaction D ms_fn ms)) = None \<and>
       \<not> ms_isTransaction (snd (ms_transaction D ms_fn ms))) \<and>
      (reliable D (MsBegin (length (ms_trace ms))) \<and> reliable D (MsCommit (length (ms_trace ms))) \<and> ms_r = Inr v \<longrightarrow>
         ms_transaction D ms_fn ms =
           (Inr v, ms_s\<lparr>ms_currentTransaction := None, ms_isTransaction := False,
                    ms_trace := ms_trace ms_s @ [MsCommit (length (ms_trace ms))]\<rparr>)) \<and>
      (reliable D (MsBegin (length (ms_trace ms))) \<and> reliable D (MsRollback (length (ms_trace ms))) \<and> ms_r = Inl e \<longrightarrow>
         ms_transaction D ms_fn ms =
           (Inl e, ms_s\<lparr>ms_currentTransaction := None, ms_isTransaction := False,
                    ms_trace := ms_trace ms_s @ [MsRollback (length (ms_trace ms))]\<rparr>)))"
proof -
  have pg: "(pg_pool pg = Some p \<and>
    reliable D (PgPoolConnect p (length (pg_trace pg))) \<and>
    reliable D (PgRelease (length (pg_trace pg))) \<and>
    await_call pg_fn (pg_begun p pg) = (pg_r, pg_s) \<and>
    pg_client pg_s = Some (length (pg_trace pg)) \<longrightarrow>
      (pg_client (snd (pg_transaction D pg_fn pg)) = None \<and>
       \<not> pg_isTransaction (snd (pg_transaction D pg_fn pg)) \<and>
       last (pg_trace (snd (pg_transaction D pg_fn pg))) = PgRelease (length (pg_trace pg))) \<and>
      (reliable D (PgQuery (length (pg_trace pg)) ''BEGIN'' None) \<and> reliable D (PgQuery (length (pg_trace pg)) ''COMMIT'' None) \<and> pg_r = Inr v \<longrightarrow>
         pg_transaction D pg_fn pg =
           (Inr v, pg_s\<lparr>pg_client := None, pg_isTransaction := False,
                    pg_trace := pg_trace pg_s @ [PgQuery (length (pg_trace pg)) ''COMMIT'' None, PgRelease (length (pg_trace pg))]\<rparr>)) \<and>
      (reliable D (PgQuery (length (pg_trace pg)) ''BEGIN'' None) \<and> reliable D (PgQuery (length (pg_trace pg)) ''ROLLBACK'' None) \<and> pg_r = Inl e \<longrightarrow>
         pg_transaction D pg_fn pg =
           (Inl e, pg_s\<lparr>pg_client := None, pg_isTransaction := False,
                    pg_trace := pg_trace pg_s @ [PgQuery (length (pg_trace pg)) ''ROLLBACK'' None, PgRelease (length (pg_trace pg))]\<rparr>)))"
  proof (intro impI, elim conjE)
    assume a: "pg_pool pg = Some p"
      "reliable D (PgPoolConnect p (length (pg_trace pg)))"
      "reliable D (PgRelease (length (pg_trace pg)))"
      "await_call pg_fn (pg_begun p pg) = (pg_r, pg_s)"
      "pg_client pg_s = Some (length (pg_trace pg))"
    show "(pg_client (snd (pg_transaction D pg_fn pg)) = None \<and>
       \<not> pg_isTransaction (snd (pg_transaction D pg_fn pg)) \<and>
       last (pg_trace (snd (pg_transaction D pg_fn pg))) = PgRelease (length (pg_trace pg))) \<and>
      (reliable D (PgQuery (length (pg_trace pg)) ''BEGIN'' None) \<and> reliable D (PgQuery (length (pg_trace pg)) ''COMMIT'' None) \<and> pg_r = Inr v \<longrightarrow>
         pg_transaction D pg_fn pg =
           (Inr v, pg_s\<lparr>pg_client := None, pg_isTransaction := False,
                    pg_trace := pg_trace pg_s @ [PgQuery (length (pg_trace pg)) ''COMMIT'' None, PgRelease (length (pg_trace pg))]\<rparr>)) \<and>
      (reliable D (PgQuery (length (pg_trace pg)) ''BEGIN'' None) \<and> reliable D (PgQuery (length (pg_trace pg)) ''ROLLBACK'' None) \<and> pg_r = Inl e \<longrightarrow>
         pg_transaction D pg_fn pg =
           (Inl e, pg_s\<lparr>pg_client := None, pg_isTransaction := False,
                    pg_trace := pg_trace pg_s @ [PgQuery (length (pg_trace pg)) ''ROLLBACK'' None, PgRelease (length (pg_trace pg))]\<rparr>))"
      using pg_transaction_cleanup [OF a] pg_transaction_commits [OF a]
        pg_transaction_rolls_back [OF a]
      by blast
  qed
  have my: "(my_pool my = Some p \<and>
    reliable D (MyGetConnection p (length (my_trace my))) \<and>
    reliable D (MyRelease (length (my_trace my))) \<and>
    await_call my_fn (my_begun p my) = (my_r, my_s) \<and>
    my_connection my_s = Some (length (my_trace my)) \<longrightarrow>
      (my_connection (snd (my_transaction D my_fn my)) = None \<and>
       \<not> my_isTransaction (snd (my_transaction D my_fn my)) \<and>
       last (my_trace (snd (my_transaction D my_fn my))) = MyRelease (length (my_trace my))) \<and>
      (reliable D (MyBeginTransaction (length (my_trace my))) \<and> reliable D (MyCommit (length (my_trace my))) \<and> my_r = Inr v \<longrightarrow>
         my_transaction D my_fn my =
           (Inr v, my_s\<lparr>my_connection := None, my_isTransaction := False,
                    my_trace := my_trace my_s @ [MyCommit (length (my_trace my)), MyRelease (length (my_trace my))]\<rparr>)) \<and>
      (reliable D (MyBeginTransaction (length (my_trace my))) \<and> reliable D (MyRollback (length (my_trace my))) \<and> my_r = Inl e \<longrightarrow>
         my_transaction D my_fn my =
           (Inl e, my_s\<lparr>my_connection := None, my_isTransaction := False,
                    my_trace := my_trace my_s @ [MyRollback (length (my_trace my)), MyRelease (length (my_trace my))]\<rparr>)))"
  proof (intro impI, elim conjE)
    assume a: "my_pool my = Some p"
      "reliable D (MyGetConnection p (length (my_trace my)))"
      "reliable D (MyRelease (length (my_trace my)))"
      "await_call my_fn (my_begun p my) = (my_r, my_s)"
      "my_connection my_s = Some (length (my_trace my))"
    show "(my_connection (snd (my_transaction D my_fn my)) = None \<and>
       \<not> my_isTransaction (snd (my_transaction D my_fn my)) \<and>
       last (my_trace (snd (my_transaction D my_fn my))) = MyRelease (length (my_trace my))) \<and>
      (reliable D (MyBeginTransaction (length (my_trace my))) \<and> reliable D (MyCommit (length (my_trace my))) \<and> my_r = Inr v \<longrightarrow>
         my_transaction D my_fn my =
           (Inr v, my_s\<lparr>my_connection := None, my_isTransaction := False,
                    my_trace := my_trace my_s @ [MyCommit (length (my_trace my)), MyRelease (length (my_trace my))]\<rparr>)) \<and>
      (reliable D (MyBeginTransaction (length (my_trace my))) \<and> reliable D (MyRollback (length (my_trace my))) \<and> my_r = Inl e \<longrightarrow>
         my_transaction D my_fn my =
           (Inl e, my_s\<lparr>my_connection := None, my_isTransaction := False,
                    my_trace := my_trace my_s @ [MyRollback (length (my_trace my)), MyRelease (length (my_trace my))]\<rparr>))"
      using my_transaction_cleanup [OF a] my_transaction_commits [OF a]
        my_transaction_rolls_back [OF a]
      by blast
  qed
  have ms: "(ms_pool ms = Some p \<and>
    await_call ms_fn (ms_begun p ms) = (ms_r, ms_s) \<and>
    ms_currentTransaction ms_s = Some (length (ms_trace ms)) \<longrightarrow>
      (ms_currentTransaction (snd (ms_transaction D ms_fn ms)) = None \<and>
       \<not> ms_isTransaction (snd (ms_transaction D ms_fn ms))) \<and>
      (reliable D (MsBegin (length (ms_trace ms))) \<and> reliable D (MsCommit (length (ms_trace ms))) \<and> ms_r = Inr v \<longrightarrow>
         ms_transaction D ms_fn ms =
           (Inr v, ms_s\<lparr>ms_currentTransaction := None, ms_isTransaction := False,
                    ms_trace := ms_trace ms_s @ [MsCommit (length (ms_trace ms))]\<rparr>)) \<and>
      (reliable D (MsBegin (length (ms_trace ms))) \<and> reliable D (MsRollback (length (ms_trace ms))) \<and> ms_r = Inl e \<longrightarrow>
         ms_transaction D ms_fn ms =
           (Inl e, ms_s\<lparr>ms_currentTransaction := None, ms_isTransaction := False,
                    ms_trace := ms_trace ms_s @ [MsRollback (length (ms_trace ms))]\<rparr>)))"
  proof (intro impI, elim conjE)
    assume a: "ms_pool ms = Some p"
      "await_call ms_fn (ms_begun p ms) = (ms_r, ms_s)"
      "ms_currentTransaction ms_s = Some (length (ms_trace ms))"
    show "(ms_currentTransaction (snd (ms_transaction D ms_fn ms)) = None \<and>
       \<not> ms_isTransaction (snd (ms_transaction D ms_fn ms))) \<and>
      (reliable D (MsBegin (length (ms_trace ms))) \<and> reliable D (MsCommit (length (ms_trace ms))) \<and> ms_r = Inr v \<longrightarrow>
         ms_transaction D ms_fn ms =
           (Inr v, ms_s\<lparr>ms_currentTransaction := None, ms_isTransaction := False,
                    ms_trace := ms_trace ms_s @ [MsCommit (length (ms_trace ms))]\<rparr>)) \<and>
      (reliable D (MsBegin (length (ms_trace ms))) \<and> reliable D (MsRollback (length (ms_trace ms))) \<and> ms_r = Inl e \<longrightarrow>
         ms_transaction D ms_fn ms =
           (Inl e, ms_s\<lparr>ms_currentTransaction := None, ms_isTransaction := False,
                    ms_trace := ms_trace ms_s @ [MsRollback (length (ms_trace ms))]\<rparr>))"
      using ms_transaction_cleanup [OF a(1)] ms_transaction_commits [OF a]
        ms_transaction_rolls_back [OF a]
      by blast
  qed
  from pg my ms show ?thesis by (intro conjI)
qed
theorem transaction_commit_rollback_release_witness:
  "pg_pool (pg_connected quiet_driver (example_config ''postgres'') :: string PostgresClient) = Some 0 \<and>
   reliable quiet_driver (PgQuery 1 ''BEGIN'' None) \<and>
   reliable quiet_driver (PgQuery 1 ''COMMIT'' None) \<and>
   reliable quiet_driver (PgQuery 1 ''ROLLBACK'' None) \<and>
   reliable quiet_driver (PgPoolConnect 0 1) \<and>
   reliable quiet_driver (PgRelease 1) \<and>
   await_call (pg_insert_then quiet_driver (Inr 7) :: (string PostgresClient, int) async_fn) (pg_begun 0 (pg_connected quiet_driver (example_config ''postgres'') :: string PostgresClient))
     = (Inr 7, \<lparr>pg_pool = Some 0, pg_client = Some 1, pg_config = example_config ''postgres'',
        pg_isTransaction = True,
        pg_trace = [PgNewPool 0 (pg_poolConfig (example_config ''postgres'')), PgPoolConnect 0 1, PgQuery 1 ''BEGIN'' None, PgQuery 1 insert_sql insert_params]\<rparr>) \<and>
   await_call (pg_insert_then quiet_driver (Inl intentional) :: (string PostgresClient, int) async_fn) (pg_begun 0 (pg_connected quiet_driver (example_config ''postgres'') :: string PostgresClient))
     = (Inl intentional, \<lparr>pg_pool = Some 0, pg_client = Some 1, pg_config = example_config ''postgres'',
        pg_isTransaction = True,
        pg_trace = [PgNewPool 0 (pg_poolConfig (example_config ''postgres'')), PgPoolConnect 0 1, PgQuery 1 ''BEGIN'' None, PgQuery 1 insert_sql insert_params]\<rparr>) \<and>
   pg_transaction quiet_driver (pg_insert_then quiet_driver (Inr 7) :: (string PostgresClient, int) async_fn) (pg_connected quiet_driver (example_config ''postgres'') :: string PostgresClient)
     = (Inr 7, \<lparr>pg_pool = Some 0, pg_client = None, pg_config = example_config ''postgres'',
        pg_isTransaction = False,
        pg_trace = [PgNewPool 0 (pg_poolConfig (example_config ''postgres'')), PgPoolConnect 0 1, PgQuery 1 ''BEGIN'' None, PgQuery 1 insert_sql insert_params, PgQuery 1 ''COMMIT'' None, PgRelease 1]\<rparr>) \<and>
   pg_transaction quiet_driver (pg_insert_then quiet_driver (Inl intentional) :: (string PostgresClient, int) async_fn) (pg_connected quiet_driver (example_config ''postgres'') :: string PostgresClient)
     = (Inl intentional, \<lparr>pg_pool = Some 0, pg_client = None, pg_config = example_config ''postgres'',
        pg_isTransaction = False,
        pg_trace = [PgNewPool 0 (pg_poolConfig (example_config ''postgres'')), PgPoolConnect 0 1, PgQuery 1 ''BEGIN'' None, PgQuery 1 insert_sql insert_params, PgQuery 1 ''ROLLBACK'' None, PgRelease 1]\<rparr>) \<and>
   my_pool (my_connected quiet_driver (example_config ''mysql'') :: string MySqlClient) = Some 0 \<and>
   reliable quiet_driver (MyBeginTransaction 1) \<and>
   reliable quiet_driver (MyCommit 1) \<and>
   reliable quiet_driver (MyRollback 1) \<and>
   reliable quiet_driver (MyGetConnection 0 1) \<and>
   reliable quiet_driver (MyRelease 1) \<and>
   await_call (my_insert_then quiet_driver (Inr 7) :: (string MySqlClient, int) async_fn) (my_begun 0 (my_connected quiet_driver (example_config ''mysql'') :: string MySqlClient))
     = (Inr 7, \<lparr>my_pool = Some 0, my_connection = Some 1, my_config = example_config ''mysql'',
        my_isTransaction = True,
        my_trace = [MyCreatePool 0 (my_poolOptions (example_config ''mysql'')), MyGetConnection 0 1, MyBeginTransaction 1, MyExecute 1 insert_sql insert_params]\<rparr>) \<and>
   await_call (my_insert_then quiet_driver (Inl intentional) :: (string MySqlClient, int) async_fn) (my_begun 0 (my_connected quiet_driver (example_config ''mysql'') :: string MySqlClient))
     = (Inl intentional, \<lparr>my_pool = Some 0, my_connection = Some 1, my_config = example_config ''mysql'',
        my_isTransaction = True,
        my_trace = [MyCreatePool 0 (my_poolOptions (example_config ''mysql'')), MyGetConnection 0 1, MyBeginTransaction 1, MyExecute 1 insert_sql insert_params]\<rparr>) \<and>
   my_transaction quiet_driver (my_insert_then quiet_driver (Inr 7) :: (string MySqlClient, int) async_fn) (my_connected quiet_driver (example_config ''mysql'') :: string MySqlClient)
     = (Inr 7, \<lparr>my_pool = Some 0, my_connection = None, my_config = example_config ''mysql'',
        my_isTransaction = False,
        my_trace = [MyCreatePool 0 (my_poolOptions (example_config ''mysql'')), MyGetConnection 0 1, MyBeginTransaction 1, MyExecute 1 insert_sql insert_params, MyCommit 1, MyRelease 1]\<rparr>) \<and>
   my_transaction quiet_driver (my_insert_then quiet_driver (Inl intentional) :: (string MySqlClient, int) async_fn) (my_connected quiet_driver (example_config ''mysql'') :: string MySqlClient)
     = (Inl intentional, \<lparr>my_pool = Some 0, my_connection = None, my_config = example_config ''mysql'',
        my_isTransaction = False,
        my_trace = [MyCreatePool 0 (my_poolOptions (example_config ''mysql'')), MyGetConnection 0 1, MyBeginTransaction 1, MyExecute 1 insert_sql insert_params, MyRollback 1, MyRelease 1]\<rparr>) \<and>
   ms_pool (ms_connected quiet_driver (example_config ''mssql'') :: string MsSqlClient) = Some 0 \<and>
   reliable quiet_driver (MsBegin 1) \<and>
   reliable quiet_driver (MsCommit 1) \<and>
   reliable quiet_driver (MsRollback 1) \<and>
   await_call (ms_insert_then quiet_driver (Inr 7) :: (string MsSqlClient, int) async_fn) (ms_begun 0 (ms_connected quiet_driver (example_config ''mssql'') :: string MsSqlClient))
     = (Inr 7, \<lparr>ms_pool = Some 0, ms_currentTransaction = Some 1, ms_config = example_config ''mssql'',
        ms_isTransaction = True,
        ms_trace = [MsConnect 0 (ms_sqlConfig (example_config ''mssql'')), MsNewTransaction 0 1, MsBegin 1, MsRequestQuery (Some 1) (inputs (convertParams \<lparr>parent = Some 1, inputs = []\<rparr> insert_params)) (convertSql insert_sql insert_params)]\<rparr>) \<and>
   await_call (ms_insert_then quiet_driver (Inl intentional) :: (string MsSqlClient, int) async_fn) (ms_begun 0 (ms_connected quiet_driver (example_config ''mssql'') :: string MsSqlClient))
     = (Inl intentional, \<lparr>ms_pool = Some 0, ms_currentTransaction = Some 1, ms_config = example_config ''mssql'',
        ms_isTransaction = True,
        ms_trace = [MsConnect 0 (ms_sqlConfig (example_config ''mssql'')), MsNewTransaction 0 1, MsBegin 1, MsRequestQuery (Some 1) (inputs (convertParams \<lparr>parent = Some 1, inputs = []\<rparr> insert_params)) (convertSql insert_sql insert_params)]\<rparr>) \<and>
   ms_transaction quiet_driver (ms_insert_then quiet_driver (Inr 7) :: (string MsSqlClient, int) async_fn) (ms_connected quiet_driver (example_config ''mssql'') :: string MsSqlClient)
     = (Inr 7, \<lparr>ms_pool = Some 0, ms_currentTransaction = None, ms_config = example_config ''mssql'',
        ms_isTransaction = False,
        ms_trace = [MsConnect 0 (ms_sqlConfig (example_config ''mssql'')), MsNewTransaction 0 1, MsBegin 1, MsRequestQuery (Some 1) (inputs (convertParams \<lparr>parent = Some 1, inputs = []\<rparr> insert_params)) (convertSql insert_sql insert_params), MsCommit 1]\<rparr>) \<and>
   ms_transaction quiet_driver (ms_insert_then quiet_driver (Inl intentional) :: (string MsSqlClient, int) async_fn) (ms_connected quiet_driver (example_config ''mssql'') :: string MsSqlClient)
     = (Inl intentional, \<lparr>ms_pool = Some 0, ms_currentTransaction = None, ms_config = example_config ''mssql'',
        ms_isTransaction = False,
        ms_trace = [MsConnect 0 (ms_sqlConfig (example_config ''mssql'')), MsNewTransaction 0 1, MsBegin 1, MsRequestQuery (Some 1) (inputs (convertParams \<lparr>parent = Some 1, inputs = []\<rparr> insert_params)) (convertSql insert_sql insert_params), MsRollback 1]\<rparr>)"
proof -
  have q: "fails quiet_driver tr e = None" for tr e
    by (simp add: quiet_driver_def)
  note t1 = transaction_commit_rollback_release [where D = quiet_driver and p = 0 and v = "7 :: int"
      and e = intentional
      and pg = "pg_connected quiet_driver (example_config ''postgres'')"
      and pg_fn = "pg_insert_then quiet_driver (Inr 7)" and pg_r = "Inr 7"
      and pg_s = "\<lparr>pg_pool = Some 0, pg_client = Some 1, pg_config = example_config ''postgres'',
        pg_isTransaction = True,
        pg_trace = [PgNewPool 0 (pg_poolConfig (example_config ''postgres'')), PgPoolConnect 0 1, PgQuery 1 ''BEGIN'' None, PgQuery 1 insert_sql insert_params]\<rparr>"
      and my = "my_connected quiet_driver (example_config ''mysql'')"
      and my_fn = "my_insert_then quiet_driver (Inr 7)" and my_r = "Inr 7"
      and my_s = "\<lparr>my_pool = Some 0, my_connection = Some 1, my_config = example_config ''mysql'',
        my_isTransaction = True,
        my_trace = [MyCreatePool 0 (my_poolOptions (example_config ''mysql'')), MyGetConnection 0 1, MyBeginTransaction 1, MyExecute 1 insert_sql insert_params]\<rparr>"
      and ms = "ms_connected quiet_driver (example_config ''mssql'')"
      and ms_fn = "ms_insert_then quiet_driver (Inr 7)" and ms_r = "Inr 7"
      and ms_s = "\<lparr>ms_pool = Some 0, ms_currentTransaction = Some 1, ms_config = example_config ''mssql'',
        ms_isTransaction = True,
        ms_trace = [MsConnect 0 (ms_sqlConfig (example_config ''mssql'')), MsNewTransaction 0 1, MsBegin 1, MsRequestQuery (Some 1) (inputs (convertParams \<lparr>parent = Some 1, inputs = []\<rparr> insert_params)) (convertSql insert_sql insert_params)]\<rparr>"]
  note t2 = transaction_commit_rollback_release [where D = quiet_driver and p = 0 and v = "7 :: int"
      and e = intentional
      and pg = "pg_connected quiet_driver (example_config ''postgres'')"
      and pg_fn = "pg_insert_then quiet_driver (Inl intentional)" and pg_r = "Inl intentional"
      and pg_s = "\<lparr>pg_pool = Some 0, pg_client = Some 1, pg_config = example_config ''postgres'',
        pg_isTransaction = True,
        pg_trace = [PgNewPool 0 (pg_poolConfig (example_config ''postgres'')), PgPoolConnect 0 1, PgQuery 1 ''BEGIN'' None, PgQuery 1 insert_sql insert_params]\<rparr>"
      and my = "my_connected quiet_driver (example_config ''mysql'')"
      and my_fn = "my_insert_then quiet_driver (Inl intentional)" and my_r = "Inl intentional"
      and my_s = "\<lparr>my_pool = Some 0, my_connection = Some 1, my_config = example_config ''mysql'',
        my_isTransaction = True,
        my_trace = [MyCreatePool 0 (my_poolOptions (example_config ''mysql'')), MyGetConnection 0 1, MyBeginTransaction 1, MyExecute 1 insert_sql insert_params]\<rparr>"
      and ms = "ms_connected quiet_driver (example_config ''mssql'')"
      and ms_fn = "ms_insert_then quiet_driver (Inl intentional)" and ms_r = "Inl intentional"
      and ms_s = "\<lparr>ms_pool = Some 0, ms_currentTransaction = Some 1, ms_config = example_config ''mssql'',
        ms_isTransaction = True,
        ms_trace = [MsConnect 0 (ms_sqlConfig (example_config ''mssql'')), MsNewTransaction 0 1, MsBegin 1, MsRequestQuery (Some 1) (inputs (convertParams \<lparr>parent = Some 1, inputs = []\<rparr> insert_params)) (convertSql insert_sql insert_params)]\<rparr>"]
  have pg0: "(pg_connected quiet_driver (example_config ''postgres'') :: string PostgresClient) = \<lparr>pg_pool = Some 0, pg_client = None, pg_config = example_config ''postgres'',
        pg_isTransaction = False, pg_trace = [PgNewPool 0 (pg_poolConfig (example_config ''postgres''))]\<rparr>"
    by (simp add: pg_connected_def pg_connect_def pg_call_def call_def q new_PostgresClient_def)
  have pgh: "pg_pool (pg_connected quiet_driver (example_config ''postgres'') :: string PostgresClient) = Some 0" "length (pg_trace (pg_connected quiet_driver (example_config ''postgres'') :: string PostgresClient)) = 1"
    by (simp_all add: pg0)
  have pgok: "await_call (pg_insert_then quiet_driver (Inr 7) :: (string PostgresClient, int) async_fn) (pg_begun 0 (pg_connected quiet_driver (example_config ''postgres'') :: string PostgresClient))
     = (Inr 7, \<lparr>pg_pool = Some 0, pg_client = Some 1, pg_config = example_config ''postgres'',
        pg_isTransaction = True,
        pg_trace = [PgNewPool 0 (pg_poolConfig (example_config ''postgres'')), PgPoolConnect 0 1, PgQuery 1 ''BEGIN'' None, PgQuery 1 insert_sql insert_params]\<rparr>)"
    and pgbad: "await_call (pg_insert_then quiet_driver (Inl intentional) :: (string PostgresClient, int) async_fn) (pg_begun 0 (pg_connected quiet_driver (example_config ''postgres'') :: string PostgresClient))
     = (Inl intentional, \<lparr>pg_pool = Some 0, pg_client = Some 1, pg_config = example_config ''postgres'',
        pg_isTransaction = True,
        pg_trace = [PgNewPool 0 (pg_poolConfig (example_config ''postgres'')), PgPoolConnect 0 1, PgQuery 1 ''BEGIN'' None, PgQuery 1 insert_sql insert_params]\<rparr>)"
    by (simp_all add: pg0 pg_begun_def await_call_def await_def pg_insert_then_def then_outcome_def
        settled_def pg_execute_def pg_query_def pg_call_def call_def q Let_def split: my_rows.splits)
  from t1 pgok pgh have pgc1: "pg_transaction quiet_driver (pg_insert_then quiet_driver (Inr 7) :: (string PostgresClient, int) async_fn) (pg_connected quiet_driver (example_config ''postgres'') :: string PostgresClient)
     = (Inr 7, \<lparr>pg_pool = Some 0, pg_client = None, pg_config = example_config ''postgres'',
        pg_isTransaction = False,
        pg_trace = [PgNewPool 0 (pg_poolConfig (example_config ''postgres'')), PgPoolConnect 0 1, PgQuery 1 ''BEGIN'' None, PgQuery 1 insert_sql insert_params, PgQuery 1 ''COMMIT'' None, PgRelease 1]\<rparr>)"
    by simp
  from t2 pgbad pgh have pgc2: "pg_transaction quiet_driver (pg_insert_then quiet_driver (Inl intentional) :: (string PostgresClient, int) async_fn) (pg_connected quiet_driver (example_config ''postgres'') :: string PostgresClient)
     = (Inl intentional, \<lparr>pg_pool = Some 0, pg_client = None, pg_config = example_config ''postgres'',
        pg_isTransaction = False,
        pg_trace = [PgNewPool 0 (pg_poolConfig (example_config ''postgres'')), PgPoolConnect 0 1, PgQuery 1 ''BEGIN'' None, PgQuery 1 insert_sql insert_params, PgQuery 1 ''ROLLBACK'' None, PgRelease 1]\<rparr>)"
    by simp
  have my0: "(my_connected quiet_driver (example_config ''mysql'') :: string MySqlClient) = \<lparr>my_pool = Some 0, my_connection = None, my_config = example_config ''mysql'',
        my_isTransaction = False, my_trace = [MyCreatePool 0 (my_poolOptions (example_config ''mysql''))]\<rparr>"
    by (simp add: my_connected_def my_connect_def my_call_def call_def q new_MySqlClient_def)
  have myh: "my_pool (my_connected quiet_driver (example_config ''mysql'') :: string MySqlClient) = Some 0" "length (my_trace (my_connected quiet_driver (example_config ''mysql'') :: string MySqlClient)) = 1"
    by (simp_all add: my0)
  have myok: "await_call (my_insert_then quiet_driver (Inr 7) :: (string MySqlClient, int) async_fn) (my_begun 0 (my_connected quiet_driver (example_config ''mysql'') :: string MySqlClient))
     = (Inr 7, \<lparr>my_pool = Some 0, my_connection = Some 1, my_config = example_config ''mysql'',
        my_isTransaction = True,
        my_trace = [MyCreatePool 0 (my_poolOptions (example_config ''mysql'')), MyGetConnection 0 1, MyBeginTransaction 1, MyExecute 1 insert_sql insert_params]\<rparr>)"
    and mybad: "await_call (my_insert_then quiet_driver (Inl intentional) :: (string MySqlClient, int) async_fn) (my_begun 0 (my_connected quiet_driver (example_config ''mysql'') :: string MySqlClient))
     = (Inl intentional, \<lparr>my_pool = Some 0, my_connection = Some 1, my_config = example_config ''mysql'',
        my_isTransaction = True,
        my_trace = [MyCreatePool 0 (my_poolOptions (example_config ''mysql'')), MyGetConnection 0 1, MyBeginTransaction 1, MyExecute 1 insert_sql insert_params]\<rparr>)"
    by (simp_all add: my0 my_begun_def await_call_def await_def my_insert_then_def then_outcome_def
        settled_def my_execute_def my_call_def call_def q Let_def split: my_rows.splits)
  from t1 myok myh have myc1: "my_transaction quiet_driver (my_insert_then quiet_driver (Inr 7) :: (string MySqlClient, int) async_fn) (my_connected quiet_driver (example_config ''mysql'') :: string MySqlClient)
     = (Inr 7, \<lparr>my_pool = Some 0, my_connection = None, my_config = example_config ''mysql'',
        my_isTransaction = False,
        my_trace = [MyCreatePool 0 (my_poolOptions (example_config ''mysql'')), MyGetConnection 0 1, MyBeginTransaction 1, MyExecute 1 insert_sql insert_params, MyCommit 1, MyRelease 1]\<rparr>)"
    by simp
  from t2 mybad myh have myc2: "my_transaction quiet_driver (my_insert_then quiet_driver (Inl intentional) :: (string MySqlClient, int) async_fn) (my_connected quiet_driver (example_config ''mysql'') :: string MySqlClient)
     = (Inl intentional, \<lparr>my_pool = Some 0, my_connection = None, my_config = example_config ''mysql'',
        my_isTransaction = False,
        my_trace = [MyCreatePool 0 (my_poolOptions (example_config ''mysql'')), MyGetConnection 0 1, MyBeginTransaction 1, MyExecute 1 insert_sql insert_params, MyRollback 1, MyRelease 1]\<rparr>)"
    by simp
  have ms0: "(ms_connected quiet_driver (example_config ''mssql'') :: string MsSqlClient) = \<lparr>ms_pool = Some 0, ms_currentTransaction = None, ms_config = example_config ''mssql'',
        ms_isTransaction = False, ms_trace = [MsConnect 0 (ms_sqlConfig (example_config ''mssql''))]\<rparr>"
    by (simp add: ms_connected_def ms_connect_def ms_call_def call_def q new_MsSqlClient_def)
  have msh: "ms_pool (ms_connected quiet_driver (example_config ''mssql'') :: string MsSqlClient) = Some 0" "length (ms_trace (ms_connected quiet_driver (example_config ''mssql'') :: string MsSqlClient)) = 1"
    by (simp_all add: ms0)
  have msok: "await_call (ms_insert_then quiet_driver (Inr 7) :: (string MsSqlClient, int) async_fn) (ms_begun 0 (ms_connected quiet_driver (example_config ''mssql'') :: string MsSqlClient))
     = (Inr 7, \<lparr>ms_pool = Some 0, ms_currentTransaction = Some 1, ms_config = example_config ''mssql'',
        ms_isTransaction = True,
        ms_trace = [MsConnect 0 (ms_sqlConfig (example_config ''mssql'')), MsNewTransaction 0 1, MsBegin 1, MsRequestQuery (Some 1) (inputs (convertParams \<lparr>parent = Some 1, inputs = []\<rparr> insert_params)) (convertSql insert_sql insert_params)]\<rparr>)"
    and msbad: "await_call (ms_insert_then quiet_driver (Inl intentional) :: (string MsSqlClient, int) async_fn) (ms_begun 0 (ms_connected quiet_driver (example_config ''mssql'') :: string MsSqlClient))
     = (Inl intentional, \<lparr>ms_pool = Some 0, ms_currentTransaction = Some 1, ms_config = example_config ''mssql'',
        ms_isTransaction = True,
        ms_trace = [MsConnect 0 (ms_sqlConfig (example_config ''mssql'')), MsNewTransaction 0 1, MsBegin 1, MsRequestQuery (Some 1) (inputs (convertParams \<lparr>parent = Some 1, inputs = []\<rparr> insert_params)) (convertSql insert_sql insert_params)]\<rparr>)"
    by (simp_all add: ms0 ms_begun_def await_call_def await_def ms_insert_then_def then_outcome_def
        settled_def ms_execute_def ms_query_def ms_call_def call_def q Let_def split: my_rows.splits)
  from t1 msok msh have msc1: "ms_transaction quiet_driver (ms_insert_then quiet_driver (Inr 7) :: (string MsSqlClient, int) async_fn) (ms_connected quiet_driver (example_config ''mssql'') :: string MsSqlClient)
     = (Inr 7, \<lparr>ms_pool = Some 0, ms_currentTransaction = None, ms_config = example_config ''mssql'',
        ms_isTransaction = False,
        ms_trace = [MsConnect 0 (ms_sqlConfig (example_config ''mssql'')), MsNewTransaction 0 1, MsBegin 1, MsRequestQuery (Some 1) (inputs (convertParams \<lparr>parent = Some 1, inputs = []\<rparr> insert_params)) (convertSql insert_sql insert_params), MsCommit 1]\<rparr>)"
    by simp
  from t2 msbad msh have msc2: "ms_transaction quiet_driver (ms_insert_then quiet_driver (Inl intentional) :: (string MsSqlClient, int) async_fn) (ms_connected quiet_driver (example_config ''mssql'') :: string MsSqlClient)
     = (Inl intentional, \<lparr>ms_pool = Some 0, ms_currentTransaction = None, ms_config = example_config ''mssql'',
        ms_isTransaction = False,
        ms_trace = [MsConnect 0 (ms_sqlConfig (example_config ''mssql'')), MsNewTransaction 0 1, MsBegin 1, MsRequestQuery (Some 1) (inputs (convertParams \<lparr>parent = Some 1, inputs = []\<rparr> insert_params)) (convertSql insert_sql insert_params), MsRollback 1]\<rparr>)"
    by simp
  from pgh(1) myh(1) msh(1) pgok pgbad myok mybad msok msbad pgc1 pgc2 myc1 myc2 msc1 msc2
  show ?thesis by simp
qed

text \<open>
  C3, as stated, fails. (1) On the PostgreSQL client, when the driver fails on the rollback
  (here: the connection is lost), the error thrown by \<^verbatim>\<open>transaction\<close> is the rollback's and
  not the body's. (2) On the embedded-file client the function handed to the driver's
  synchronous transaction is asynchronous: with a driver that refuses a promise, a body
  that returns normally leads to a rollback and a \<^verbatim>\<open>TypeError\<close>; (3) with an older driver
  the transaction is committed as soon as the body suspends, so that a body that throws
  afterwards is never rolled back.
\<close>

theorem transaction_counterexample:
  "fst (pg_transaction rollback_failing_driver
          (pg_insert_then rollback_failing_driver (Inl intentional) :: (string PostgresClient, int) async_fn)
          (pg_connected rollback_failing_driver (example_config ''postgres'')))
     = Inl (Error ''Connection terminated unexpectedly'') \<and>
   sq_transaction quiet_driver
       (sq_insert_then quiet_driver (Inr 7) :: (string SqliteClient, int) async_fn)
       (sq_connected quiet_driver (example_config ''sqlite''))
     = (Inl promise_refused,
        \<lparr>sq_db = Some 0, sq_config = example_config ''sqlite'',
         sq_trace = [SqNewDatabase 0 ''test_db'', SqBegin 0, SqPrepare 0 insert_sql,
                     SqRun 0 insert_sql [''Test'', ''transaction-test@example.com''], SqRollback 0]\<rparr>) \<and>
   sq_transaction older_sqlite_driver
       (sq_insert_then older_sqlite_driver (Inl intentional) :: (string SqliteClient, int) async_fn)
       (sq_connected older_sqlite_driver (example_config ''sqlite''))
     = (Inl intentional,
        \<lparr>sq_db = Some 0, sq_config = example_config ''sqlite'',
         sq_trace = [SqNewDatabase 0 ''test_db'', SqBegin 0, SqPrepare 0 insert_sql,
                     SqRun 0 insert_sql [''Test'', ''transaction-test@example.com''], SqCommit 0]\<rparr>)"
proof -
  have a: "fst (pg_transaction rollback_failing_driver
          (pg_insert_then rollback_failing_driver (Inl intentional) :: (string PostgresClient, int) async_fn)
          (pg_connected rollback_failing_driver (example_config ''postgres'')))
     = Inl (Error ''Connection terminated unexpectedly'')"
    by (simp add: pg_transaction_def pg_try_def pg_catch_def pg_finally_def pg_client_query_def
        pg_connected_def pg_connect_def new_PostgresClient_def pg_call_def call_def
        rollback_failing_driver_def quiet_driver_def await_call_def await_def pg_insert_then_def
        then_outcome_def settled_def pg_execute_def pg_query_def Let_def)
  have b: "sq_transaction quiet_driver
       (sq_insert_then quiet_driver (Inr 7) :: (string SqliteClient, int) async_fn)
       (sq_connected quiet_driver (example_config ''sqlite''))
     = (Inl promise_refused,
        \<lparr>sq_db = Some 0, sq_config = example_config ''sqlite'',
         sq_trace = [SqNewDatabase 0 ''test_db'', SqBegin 0, SqPrepare 0 insert_sql,
                     SqRun 0 insert_sql [''Test'', ''transaction-test@example.com''], SqRollback 0]\<rparr>)"
    by (simp add: sq_transaction_def sq_driver_transaction_def sq_connected_def sq_connect_def
        new_SqliteClient_def sq_call_def call_def quiet_driver_def sq_insert_then_def
        then_outcome_def settled_def sq_execute_def sq_filePath_def or_str_def example_config_def
        spread_params_def insert_params_def)
  have c: "sq_transaction older_sqlite_driver
       (sq_insert_then older_sqlite_driver (Inl intentional) :: (string SqliteClient, int) async_fn)
       (sq_connected older_sqlite_driver (example_config ''sqlite''))
     = (Inl intentional,
        \<lparr>sq_db = Some 0, sq_config = example_config ''sqlite'',
         sq_trace = [SqNewDatabase 0 ''test_db'', SqBegin 0, SqPrepare 0 insert_sql,
                     SqRun 0 insert_sql [''Test'', ''transaction-test@example.com''], SqCommit 0]\<rparr>)"
    by (simp add: sq_transaction_def sq_driver_transaction_def sq_connected_def sq_connect_def
        new_SqliteClient_def sq_call_def call_def older_sqlite_driver_def quiet_driver_def
        sq_insert_then_def then_outcome_def settled_def sq_execute_def sq_filePath_def or_str_def
        example_config_def spread_params_def insert_params_def await_def)
  from a b c show ?thesis by (intro conjI)
qed

text \<open>
  The single transaction slot is not re-entrant. A body that disconnects the client, or
  starts a transaction of its own on it, leaves the slot empty: the commit, the rollback
  and the release of the outer call then fail on \<^verbatim>\<open>null\<close>. After a \<^verbatim>\<open>disconnect\<close> in the body
  the transaction flag stays set.
\<close>

lemma pg_transaction_body_disconnects:
  "pg_transaction quiet_driver (async_of (pg_disconnect quiet_driver))
       (pg_connected quiet_driver (example_config ''postgres''))
     = (Inl (null_deref ''release''),
        \<lparr>pg_pool = None, pg_client = None, pg_config = example_config ''postgres'',
         pg_isTransaction = True,
         pg_trace = [PgNewPool 0 (pg_poolConfig (example_config ''postgres'')), PgPoolConnect 0 1,
                     PgQuery 1 ''BEGIN'' None, PgRelease 1, PgPoolEnd 0]\<rparr>)"
  by (simp add: pg_transaction_def pg_try_def pg_catch_def pg_finally_def pg_client_query_def
      pg_connected_def pg_connect_def new_PostgresClient_def pg_call_def call_def
      quiet_driver_def await_call_def await_def async_of_def settled_def pg_disconnect_def)

lemma pg_transaction_nested:
  "pg_transaction quiet_driver
       (\<lambda>client. (pg_transaction quiet_driver (pg_insert_then quiet_driver (Inr (7 :: int))), client))
       (pg_connected quiet_driver (example_config ''postgres''))
     = (Inl (null_deref ''release''),
        \<lparr>pg_pool = Some 0, pg_client = None, pg_config = example_config ''postgres'',
         pg_isTransaction = False,
         pg_trace = [PgNewPool 0 (pg_poolConfig (example_config ''postgres'')), PgPoolConnect 0 1,
                     PgQuery 1 ''BEGIN'' None, PgPoolConnect 0 3, PgQuery 3 ''BEGIN'' None,
                     PgQuery 3 insert_sql insert_params, PgQuery 3 ''COMMIT'' None, PgRelease 3]\<rparr>)"
  by (simp add: pg_transaction_def pg_try_def pg_catch_def pg_finally_def pg_client_query_def
      pg_connected_def pg_connect_def new_PostgresClient_def pg_call_def call_def
      quiet_driver_def await_call_def await_def pg_insert_then_def then_outcome_def settled_def
      pg_execute_def pg_query_def Let_def)

text \<open>
  C10 fails on the code for a \<^verbatim>\<open>disconnect\<close> called while a transaction is open, as a
  transaction body does with \<^verbatim>\<open>await client.disconnect()\<close>. \<^verbatim>\<open>disconnect\<close> empties the
  transaction slot and the pool and returns, but it leaves the transaction flag set
  (the \<^verbatim>\<open>finally\<close> block of \<^verbatim>\<open>transaction\<close> resets the slot and the flag together): the
  state is not that of a new instance. The \<^verbatim>\<open>transaction\<close> call around such a body fails
  and leaves the client in this very state. After a further \<^verbatim>\<open>connect\<close>, which succeeds,
  \<^verbatim>\<open>query\<close> and \<^verbatim>\<open>execute\<close> take the transaction branch, read the empty slot and throw a
  \<^verbatim>\<open>TypeError\<close>: the client is not usable. Shown on the PostgreSQL and the MySQL client.
\<close>

theorem disconnect_keeps_transaction_flag:
  "pg_disconnect quiet_driver (pg_begun 0 (pg_connected quiet_driver (example_config ''postgres'')))
     = (Inr (),
        \<lparr>pg_pool = None, pg_client = None, pg_config = example_config ''postgres'',
         pg_isTransaction = True,
         pg_trace = [PgNewPool 0 (pg_poolConfig (example_config ''postgres'')), PgPoolConnect 0 1,
                     PgQuery 1 ''BEGIN'' None, PgRelease 1, PgPoolEnd 0]\<rparr>) \<and>
   snd (pg_transaction quiet_driver (async_of (pg_disconnect quiet_driver))
          (pg_connected quiet_driver (example_config ''postgres'')))
     = pg_disconnected_in_body quiet_driver (example_config ''postgres'') \<and>
   pg_connect quiet_driver (pg_disconnected_in_body quiet_driver (example_config ''postgres''))
     = (Inr (),
        \<lparr>pg_pool = Some 5, pg_client = None, pg_config = example_config ''postgres'',
         pg_isTransaction = True,
         pg_trace = [PgNewPool 0 (pg_poolConfig (example_config ''postgres'')), PgPoolConnect 0 1,
                     PgQuery 1 ''BEGIN'' None, PgRelease 1, PgPoolEnd 0,
                     PgNewPool 5 (pg_poolConfig (example_config ''postgres''))]\<rparr>) \<and>
   pg_query quiet_driver ''SELECT 1'' None
       (pg_reconnected_after_body quiet_driver (example_config ''postgres''))
     = (Inl (null_deref ''query''),
        pg_reconnected_after_body quiet_driver (example_config ''postgres'')) \<and>
   pg_execute quiet_driver ''SELECT 1'' None
       (pg_reconnected_after_body quiet_driver (example_config ''postgres''))
     = (Inl (null_deref ''query''),
        pg_reconnected_after_body quiet_driver (example_config ''postgres'')) \<and>
   my_disconnect quiet_driver (my_begun 0 (my_connected quiet_driver (example_config ''mysql'')))
     = (Inr (),
        \<lparr>my_pool = None, my_connection = None, my_config = example_config ''mysql'',
         my_isTransaction = True,
         my_trace = [MyCreatePool 0 (my_poolOptions (example_config ''mysql'')), MyGetConnection 0 1,
                     MyBeginTransaction 1, MyRelease 1, MyPoolEnd 0]\<rparr>) \<and>
   my_connect quiet_driver (my_disconnected_in_body quiet_driver (example_config ''mysql''))
     = (Inr (),
        \<lparr>my_pool = Some 5, my_connection = None, my_config = example_config ''mysql'',
         my_isTransaction = True,
         my_trace = [MyCreatePool 0 (my_poolOptions (example_config ''mysql'')), MyGetConnection 0 1,
                     MyBeginTransaction 1, MyRelease 1, MyPoolEnd 0,
                     MyCreatePool 5 (my_poolOptions (example_config ''mysql''))]\<rparr>) \<and>
   my_query quiet_driver ''SELECT 1'' None
       (my_reconnected_after_body quiet_driver (example_config ''mysql''))
     = (Inl (null_deref ''execute''),
        my_reconnected_after_body quiet_driver (example_config ''mysql'')) \<and>
   my_execute quiet_driver ''SELECT 1'' None
       (my_reconnected_after_body quiet_driver (example_config ''mysql''))
     = (Inl (null_deref ''execute''),
        my_reconnected_after_body quiet_driver (example_config ''mysql''))"
proof -
  have q: "fails quiet_driver tr e = None" for tr e
    by (simp add: quiet_driver_def)
  have pg0: "pg_connected quiet_driver (example_config ''postgres'')
      = \<lparr>pg_pool = Some 0, pg_client = None, pg_config = example_config ''postgres'',
         pg_isTransaction = False,
         pg_trace = [PgNewPool 0 (pg_poolConfig (example_config ''postgres''))]\<rparr>"
    by (simp add: pg_connected_def pg_connect_def pg_call_def call_def q new_PostgresClient_def)
  have pg1: "pg_disconnect quiet_driver (pg_begun 0 (pg_connected quiet_driver (example_config ''postgres'')))
     = (Inr (),
        \<lparr>pg_pool = None, pg_client = None, pg_config = example_config ''postgres'',
         pg_isTransaction = True,
         pg_trace = [PgNewPool 0 (pg_poolConfig (example_config ''postgres'')), PgPoolConnect 0 1,
                     PgQuery 1 ''BEGIN'' None, PgRelease 1, PgPoolEnd 0]\<rparr>)"
    by (simp add: pg0 pg_begun_def pg_disconnect_def pg_call_def call_def q)
  have pgd: "pg_disconnected_in_body quiet_driver (example_config ''postgres'')
     = \<lparr>pg_pool = None, pg_client = None, pg_config = example_config ''postgres'',
         pg_isTransaction = True,
         pg_trace = [PgNewPool 0 (pg_poolConfig (example_config ''postgres'')), PgPoolConnect 0 1,
                     PgQuery 1 ''BEGIN'' None, PgRelease 1, PgPoolEnd 0]\<rparr>"
    by (simp add: pg_disconnected_in_body_def pg1)
  have pg2: "snd (pg_transaction quiet_driver (async_of (pg_disconnect quiet_driver))
          (pg_connected quiet_driver (example_config ''postgres'')))
     = pg_disconnected_in_body quiet_driver (example_config ''postgres'')"
    by (simp add: pgd pg0 pg_transaction_def pg_try_def pg_catch_def
        pg_finally_def pg_client_query_def pg_call_def call_def q await_call_def await_def
        async_of_def settled_def pg_disconnect_def)
  have pg3: "pg_connect quiet_driver (pg_disconnected_in_body quiet_driver (example_config ''postgres''))
     = (Inr (),
        \<lparr>pg_pool = Some 5, pg_client = None, pg_config = example_config ''postgres'',
         pg_isTransaction = True,
         pg_trace = [PgNewPool 0 (pg_poolConfig (example_config ''postgres'')), PgPoolConnect 0 1,
                     PgQuery 1 ''BEGIN'' None, PgRelease 1, PgPoolEnd 0,
                     PgNewPool 5 (pg_poolConfig (example_config ''postgres''))]\<rparr>)"
    by (simp add: pgd pg_connect_def pg_call_def call_def q)
  have pg4: "pg_query quiet_driver ''SELECT 1'' None
       (pg_reconnected_after_body quiet_driver (example_config ''postgres''))
     = (Inl (null_deref ''query''),
        pg_reconnected_after_body quiet_driver (example_config ''postgres''))"
    and pg5: "pg_execute quiet_driver ''SELECT 1'' None
       (pg_reconnected_after_body quiet_driver (example_config ''postgres''))
     = (Inl (null_deref ''query''),
        pg_reconnected_after_body quiet_driver (example_config ''postgres''))"
    by (simp_all add: pg_reconnected_after_body_def pg3 pg_execute_def pg_query_def)
  have my0: "my_connected quiet_driver (example_config ''mysql'')
      = \<lparr>my_pool = Some 0, my_connection = None, my_config = example_config ''mysql'',
         my_isTransaction = False,
         my_trace = [MyCreatePool 0 (my_poolOptions (example_config ''mysql''))]\<rparr>"
    by (simp add: my_connected_def my_connect_def my_call_def call_def q new_MySqlClient_def)
  have my1: "my_disconnect quiet_driver (my_begun 0 (my_connected quiet_driver (example_config ''mysql'')))
     = (Inr (),
        \<lparr>my_pool = None, my_connection = None, my_config = example_config ''mysql'',
         my_isTransaction = True,
         my_trace = [MyCreatePool 0 (my_poolOptions (example_config ''mysql'')), MyGetConnection 0 1,
                     MyBeginTransaction 1, MyRelease 1, MyPoolEnd 0]\<rparr>)"
    by (simp add: my0 my_begun_def my_disconnect_def my_call_def call_def q)
  have myd: "my_disconnected_in_body quiet_driver (example_config ''mysql'')
     = \<lparr>my_pool = None, my_connection = None, my_config = example_config ''mysql'',
         my_isTransaction = True,
         my_trace = [MyCreatePool 0 (my_poolOptions (example_config ''mysql'')), MyGetConnection 0 1,
                     MyBeginTransaction 1, MyRelease 1, MyPoolEnd 0]\<rparr>"
    by (simp add: my_disconnected_in_body_def my1)
  have my3: "my_connect quiet_driver (my_disconnected_in_body quiet_driver (example_config ''mysql''))
     = (Inr (),
        \<lparr>my_pool = Some 5, my_connection = None, my_config = example_config ''mysql'',
         my_isTransaction = True,
         my_trace = [MyCreatePool 0 (my_poolOptions (example_config ''mysql'')), MyGetConnection 0 1,
                     MyBeginTransaction 1, MyRelease 1, MyPoolEnd 0,
                     MyCreatePool 5 (my_poolOptions (example_config ''mysql''))]\<rparr>)"
    by (simp add: myd my_connect_def my_call_def call_def q)
  have my4: "my_query quiet_driver ''SELECT 1'' None
       (my_reconnected_after_body quiet_driver (example_config ''mysql''))
     = (Inl (null_deref ''execute''),
        my_reconnected_after_body quiet_driver (example_config ''mysql''))"
    and my5: "my_execute quiet_driver ''SELECT 1'' None
       (my_reconnected_after_body quiet_driver (example_config ''mysql''))
     = (Inl (null_deref ''execute''),
        my_reconnected_after_body quiet_driver (example_config ''mysql''))"
    by (simp_all add: my_reconnected_after_body_def my3 my_execute_def my_query_def)
  from pg1 pg2 pg3 pg4 pg5 my1 my3 my4 my5 show ?thesis
    by (intro conjI)
qed

end
